theory Spec2Isabelle
  imports Main
begin

section \<open>Cell attributes\<close>

text \<open>
  JavaScript values as far as the table commands look at them. Numbers are the integers
  the grid arithmetic uses; \<open>JArr\<close> is an array of numbers (a \<open>colwidth\<close>).
\<close>

datatype jsval = JUndefined | JNull | JBool bool | JNum int | JStr string | JArr "int list"

text \<open>
  The interface \<open>CellAttrs\<close> of util.ts: \<open>colspan\<close>, \<open>rowspan\<close> and
  \<open>colwidth\<close> (\<open>number[] | null\<close>). An attribute object can carry further
  properties (the demo adds \<open>background\<close>); the spread \<open>{ ...attrs }\<close> keeps them,
  so the record keeps them in \<open>others\<close>.
\<close>

record cell_attrs =
  colspan :: int
  rowspan :: int
  colwidth :: "int list option"
  others :: "string \<Rightarrow> jsval"

text \<open>
  \<open>Array.prototype.splice(start, deleteCount, ...items)\<close>, the array afterwards: a
  negative \<open>start\<close> counts from the end, a \<open>start\<close> beyond the end is the end, and
  \<open>deleteCount\<close> is cut to what is there.
\<close>

definition js_splice :: "'a list \<Rightarrow> int \<Rightarrow> int \<Rightarrow> 'a list \<Rightarrow> 'a list" where
  "js_splice xs start deleteCount items =
     (let len = int (length xs);
          actualStart = (if start < 0 then max (len + start) 0 else min start len);
          actualDeleteCount = min (max deleteCount 0) (len - actualStart)
      in take (nat actualStart) xs @ items @ drop (nat (actualStart + actualDeleteCount)) xs)"

text \<open>\<open>colwidth.some((w) => w > 0)\<close>\<close>

definition some_positive :: "int list \<Rightarrow> bool" where
  "some_positive ws = list_ex (\<lambda>w. w > 0) ws"

text \<open>
  \<open>removeColSpan(attrs, pos, n = 1)\<close>. An array is truthy even when empty, so the
  branch is taken for every \<open>colwidth\<close> that is not \<open>null\<close>.
\<close>

definition removeColSpan :: "cell_attrs \<Rightarrow> int \<Rightarrow> int \<Rightarrow> cell_attrs" where
  "removeColSpan attrs pos n =
     (let result = attrs\<lparr>colspan := colspan attrs - n\<rparr>
      in case colwidth result of
           None \<Rightarrow> result
         | Some ws \<Rightarrow>
             (let ws' = js_splice ws pos n []
              in if \<not> some_positive ws' then result\<lparr>colwidth := None\<rparr>
                 else result\<lparr>colwidth := Some ws'\<rparr>))"

text \<open>The loop \<open>for (let i = 0; i < n; i++) result.colwidth.splice(pos, 0, 0)\<close>.\<close>

fun splice_zeros :: "int list \<Rightarrow> int \<Rightarrow> nat \<Rightarrow> int list" where
  "splice_zeros ws pos 0 = ws"
| "splice_zeros ws pos (Suc k) = splice_zeros (js_splice ws pos 0 [0]) pos k"

text \<open>\<open>addColSpan(attrs, pos, n = 1)\<close>; the loop runs \<open>n\<close> times, not at all for \<open>n \<le> 0\<close>.\<close>

definition addColSpan :: "cell_attrs \<Rightarrow> int \<Rightarrow> int \<Rightarrow> cell_attrs" where
  "addColSpan attrs pos n =
     (let result = attrs\<lparr>colspan := colspan attrs + n\<rparr>
      in case colwidth result of
           None \<Rightarrow> result
         | Some ws \<Rightarrow> result\<lparr>colwidth := Some (splice_zeros ws pos (nat n))\<rparr>)"


section \<open>The document model of the host\<close>

text \<open>
  The document tree, node types and resolved positions belong to the host editor
  library; the table code reads them through a small interface, which this section
  lays out: a node has a type, attributes and children, and every node that is not a
  leaf adds an opening and a closing token to the linear position space.
\<close>

datatype error = RangeError | TypeError

text \<open>A thrown exception ends the computation: \<open>Inl\<close> is the exception.\<close>

definition ebind :: "error + 'a \<Rightarrow> ('a \<Rightarrow> error + 'b) \<Rightarrow> error + 'b" where
  "ebind m f = (case m of Inl e \<Rightarrow> Inl e | Inr v \<Rightarrow> f v)"

text \<open>
  The non-null assertion \<open>x!\<close> followed by a property access: on \<open>null\<close> or
  \<open>undefined\<close> the access throws a TypeError.
\<close>

definition nonnull :: "'a option \<Rightarrow> error + 'a" where
  "nonnull x = (case x of None \<Rightarrow> Inl TypeError | Some v \<Rightarrow> Inr v)"

text \<open>An array read \<open>xs[i]\<close>: \<open>undefined\<close> (\<open>None\<close>) outside the array.\<close>

definition js_nth :: "'a list \<Rightarrow> int \<Rightarrow> 'a option" where
  "js_nth xs i = (if 0 \<le> i \<and> i < int (length xs) then Some (xs ! nat i) else None)"

datatype table_role =
  R_table | R_caption | R_head | R_body | R_foot | R_row | R_cell | R_header_cell

text \<open>
  A node type: its name, \<open>type.spec.tableRole\<close> (\<open>undefined\<close> for a node outside
  tables), \<open>isTextblock\<close> and \<open>isLeaf\<close>. Types are compared by identity in the
  source; a schema has one type per name, so equality of the records stands for it.
\<close>

record node_type =
  type_name :: string
  tableRole :: "table_role option"
  isTextblock :: bool
  isLeaf :: bool

datatype node =
  Node node_type cell_attrs "node list"
| Text string

definition text_type :: node_type where
  "text_type = \<lparr>type_name = ''text'', tableRole = None, isTextblock = False, isLeaf = True\<rparr>"

fun type_of :: "node \<Rightarrow> node_type" where
  "type_of (Node t a cs) = t"
| "type_of (Text s) = text_type"

fun attrs_of :: "node \<Rightarrow> cell_attrs" where
  "attrs_of (Node t a cs) = a"
| "attrs_of (Text s) = \<lparr>colspan = 1, rowspan = 1, colwidth = None, others = (\<lambda>name. JUndefined)\<rparr>"

fun children :: "node \<Rightarrow> node list" where
  "children (Node t a cs) = cs"
| "children (Text s) = []"

fun isText :: "node \<Rightarrow> bool" where
  "isText (Text s) = True"
| "isText (Node t a cs) = False"

definition role :: "node \<Rightarrow> table_role option" where
  "role n = tableRole (type_of n)"

text \<open>\<open>node.nodeSize\<close>: the length of a text, 1 for a leaf, else the content and two tokens.\<close>

fun nodeSize :: "node \<Rightarrow> int" where
  "nodeSize (Text s) = int (length s)"
| "nodeSize (Node t a cs) = (if isLeaf t then 1 else 2 + sum_list (map nodeSize cs))"

text \<open>\<open>fragment.size\<close>\<close>

definition fragSize :: "node list \<Rightarrow> int" where
  "fragSize cs = sum_list (map nodeSize cs)"

definition childCount :: "node \<Rightarrow> int" where
  "childCount n = int (length (children n))"

text \<open>\<open>node.child(i)\<close> throws a RangeError outside the children.\<close>

definition child :: "node \<Rightarrow> int \<Rightarrow> error + node" where
  "child n i = (case js_nth (children n) i of None \<Rightarrow> Inl RangeError | Some c \<Rightarrow> Inr c)"

definition firstChild :: "node \<Rightarrow> node option" where
  "firstChild n = (case children n of [] \<Rightarrow> None | c # cs \<Rightarrow> Some c)"

definition lastChild :: "node \<Rightarrow> node option" where
  "lastChild n = (case children n of [] \<Rightarrow> None | c # cs \<Rightarrow> Some (last (c # cs)))"

text \<open>
  \<open>node.nodeAt(pos)\<close>: the node that starts at offset \<open>pos\<close> of the content, \<open>null\<close>
  where no node starts (the end of a content), a text node for an offset inside it, and
  a RangeError for an offset outside the content. The walk is over the children and
  into the child that holds the offset.
\<close>

fun nodeAt_frag :: "node list \<Rightarrow> int \<Rightarrow> error + node option" where
  "nodeAt_frag [] pos = (if pos = 0 then Inr None else Inl RangeError)"
| "nodeAt_frag (c # cs) pos =
     (if pos < 0 then Inl RangeError
      else if pos = 0 then Inr (Some c)
      else if pos < nodeSize c then
        (case c of Text s \<Rightarrow> Inr (Some c) | Node t a ks \<Rightarrow> nodeAt_frag ks (pos - 1))
      else nodeAt_frag cs (pos - nodeSize c))"

definition nodeAt :: "node \<Rightarrow> int \<Rightarrow> error + node option" where
  "nodeAt n pos = nodeAt_frag (children n) pos"

text \<open>
  \<open>table.nodeAt(map.map[i])\<close> with the array read: an index outside the map reads
  \<open>undefined\<close>, and \<open>nodeAt(undefined)\<close> runs off the children with a RangeError.
\<close>

definition nodeAt_u :: "node \<Rightarrow> int option \<Rightarrow> error + node option" where
  "nodeAt_u n p = (case p of None \<Rightarrow> Inl RangeError | Some pos \<Rightarrow> nodeAt n pos)"

subsection \<open>Resolved positions\<close>

text \<open>
  A resolved position: the position and its path, one entry per depth from the document
  down to the parent, each with the ancestor, the index into it and the position before
  the child the path goes into (or where the position stands, at the last entry).
\<close>

record resolved_pos =
  rp_pos :: int
  rp_path :: "(node \<times> nat \<times> int) list"

text \<open>
  \<open>doc.resolve(pos)\<close>. \<open>resolve_walk parent cs i cur pos\<close> stands before the \<open>i\<close>-th
  child of \<open>parent\<close>, at position \<open>cur\<close>, with \<open>cs\<close> the children from there on.
\<close>

fun resolve_walk :: "node \<Rightarrow> node list \<Rightarrow> nat \<Rightarrow> int \<Rightarrow> int \<Rightarrow> (node \<times> nat \<times> int) list" where
  "resolve_walk parent [] i cur pos = [(parent, i, cur)]"
| "resolve_walk parent (c # cs) i cur pos =
     (if pos \<le> cur then [(parent, i, cur)]
      else if pos < cur + nodeSize c then
        (parent, i, cur) #
          (case c of Text s \<Rightarrow> [] | Node t a ks \<Rightarrow> resolve_walk c ks 0 (cur + 1) pos)
      else resolve_walk parent cs (Suc i) (cur + nodeSize c) pos)"

definition resolve :: "node \<Rightarrow> int \<Rightarrow> error + resolved_pos" where
  "resolve doc pos =
     (if \<not> (0 \<le> pos \<and> pos \<le> fragSize (children doc)) then Inl RangeError
      else Inr \<lparr>rp_pos = pos, rp_path = resolve_walk doc (children doc) 0 0 pos\<rparr>)"

definition rp_depth :: "resolved_pos \<Rightarrow> int" where
  "rp_depth rp = int (length (rp_path rp)) - 1"

text \<open>\<open>$pos.node(d)\<close> for an absolute depth; \<open>undefined\<close> outside the path.\<close>

definition rp_node :: "resolved_pos \<Rightarrow> int \<Rightarrow> node option" where
  "rp_node rp d = map_option fst (js_nth (rp_path rp) d)"

definition rp_index :: "resolved_pos \<Rightarrow> int \<Rightarrow> nat option" where
  "rp_index rp d = map_option (\<lambda>e. fst (snd e)) (js_nth (rp_path rp) d)"

text \<open>The third component of the entry at depth \<open>d\<close>: \<open>path[d * 3 + 2]\<close>.\<close>

definition rp_offset :: "resolved_pos \<Rightarrow> int \<Rightarrow> int option" where
  "rp_offset rp d = map_option (\<lambda>e. snd (snd e)) (js_nth (rp_path rp) d)"

text \<open>
  \<open>$pos.start(d)\<close> for an absolute depth: 0 at the document, else behind the opening
  token of the ancestor. Arithmetic on \<open>undefined\<close> gives NaN, which no later use
  accepts; the model stops with a TypeError there.
\<close>

definition rp_start :: "resolved_pos \<Rightarrow> int \<Rightarrow> error + int" where
  "rp_start rp d =
     (if d = 0 then Inr 0
      else case rp_offset rp (d - 1) of None \<Rightarrow> Inl TypeError | Some off \<Rightarrow> Inr (off + 1))"

text \<open>\<open>$pos.before(d)\<close> for an absolute depth; depth 0 has no position before it.\<close>

definition rp_before :: "resolved_pos \<Rightarrow> int \<Rightarrow> error + int" where
  "rp_before rp d =
     (if d = 0 then Inl RangeError
      else if d = rp_depth rp + 1 then Inr (rp_pos rp)
      else case rp_offset rp (d - 1) of None \<Rightarrow> Inl RangeError | Some off \<Rightarrow> Inr off)"

text \<open>\<open>$pos.parent\<close>\<close>

definition rp_parent :: "resolved_pos \<Rightarrow> node option" where
  "rp_parent rp = rp_node rp (rp_depth rp)"

text \<open>
  \<open>$pos.nodeAfter\<close>: the node behind the position in its parent, \<open>null\<close> at the end
  of the parent; inside a text, the rest of the text.
\<close>

definition nodeAfter :: "resolved_pos \<Rightarrow> node option" where
  "nodeAfter rp =
     (case js_nth (rp_path rp) (rp_depth rp) of
        None \<Rightarrow> None
      | Some (parent, index, off) \<Rightarrow>
          (case js_nth (children parent) (int index) of
             None \<Rightarrow> None
           | Some c \<Rightarrow>
               (if rp_pos rp - off = 0 then Some c
                else case c of Text s \<Rightarrow> Some (Text (drop (nat (rp_pos rp - off)) s))
                             | Node t a ks \<Rightarrow> Some c)))"

text \<open>\<open>$pos.nodeBefore\<close>\<close>

definition nodeBefore :: "resolved_pos \<Rightarrow> node option" where
  "nodeBefore rp =
     (case js_nth (rp_path rp) (rp_depth rp) of
        None \<Rightarrow> None
      | Some (parent, index, off) \<Rightarrow>
          (if rp_pos rp - off \<noteq> 0 then
             (case js_nth (children parent) (int index) of
                Some (Text s) \<Rightarrow> Some (Text (take (nat (rp_pos rp - off)) s))
              | other \<Rightarrow> other)
           else if index = 0 then None
           else js_nth (children parent) (int index - 1)))"


subsection \<open>Selections, transactions and the editor state\<close>

text \<open>
  The three kinds of selection the commands tell apart. Every selection has
  \<open>$anchor\<close> and \<open>$head\<close>; a cell selection also has \<open>$anchorCell\<close> and
  \<open>$headCell\<close>, which point in front of the two corner cells, and a node selection has
  its \<open>node\<close>.
\<close>

datatype selection =
  CellSelection resolved_pos resolved_pos resolved_pos resolved_pos
| NodeSelection node resolved_pos resolved_pos
| TextSelection resolved_pos resolved_pos

fun sel_anchor :: "selection \<Rightarrow> resolved_pos" where
  "sel_anchor (CellSelection ac hc a h) = a"
| "sel_anchor (NodeSelection n a h) = a"
| "sel_anchor (TextSelection a h) = a"

fun sel_head :: "selection \<Rightarrow> resolved_pos" where
  "sel_head (CellSelection ac hc a h) = h"
| "sel_head (NodeSelection n a h) = h"
| "sel_head (TextSelection a h) = h"

text \<open>\<open>sel.$from\<close>: the lower of \<open>$anchor\<close> and \<open>$head\<close>.\<close>

definition sel_from :: "selection \<Rightarrow> resolved_pos" where
  "sel_from sel =
     (if rp_pos (sel_head sel) < rp_pos (sel_anchor sel) then sel_head sel else sel_anchor sel)"

text \<open>\<open>sel instanceof CellSelection\<close>\<close>

fun isCellSelection :: "selection \<Rightarrow> bool" where
  "isCellSelection (CellSelection ac hc a h) = True"
| "isCellSelection (NodeSelection n a h) = False"
| "isCellSelection (TextSelection a h) = False"

record editor_state =
  doc :: node
  selection :: selection

text \<open>
  A transaction is the list of the document steps the command has queued, in order, and
  the selection it has set. What a step does to the document and to positions is the
  host's business (\<open>tr_doc\<close> and \<open>mapping_map\<close> below); the commands only queue.
  A new selection is written down by its positions: the command resolves them in
  \<open>tr.doc\<close>, which is again the host's.
\<close>

datatype sel_spec =
  SelNode int
| SelCell int "int option"
| SelText int int

datatype step =
  Insert int node
| Delete int int
| SetNodeMarkup int "node_type option" "(string \<Rightarrow> jsval) option"
| ReplaceWith int int "node list"
| ReplaceSelectionWith "sel_spec option" node

record transaction =
  steps :: "step list"
  tr_selection :: "sel_spec option"

text \<open>\<open>state.tr\<close>: no step, the selection of the state.\<close>

definition state_tr :: "editor_state \<Rightarrow> transaction" where
  "state_tr st = \<lparr>steps = [], tr_selection = None\<rparr>"

definition add_step :: "transaction \<Rightarrow> step \<Rightarrow> transaction" where
  "add_step tr s = tr\<lparr>steps := steps tr @ [s]\<rparr>"

text \<open>
  The attribute object handed to \<open>setNodeMarkup\<close>: the typed attributes as a plain
  object, property by property.
\<close>

definition attrs_obj :: "cell_attrs \<Rightarrow> string \<Rightarrow> jsval" where
  "attrs_obj a =
     (others a)
       (''colspan'' := JNum (colspan a),
        ''rowspan'' := JNum (rowspan a),
        ''colwidth'' := (case colwidth a of None \<Rightarrow> JNull | Some ws \<Rightarrow> JArr ws))"

section \<open>The grid map and the parts of the repository outside the sources\<close>

text \<open>\<open>Rect\<close> and \<open>TableMap\<close> (the data of tablemap.ts), and \<open>TableRect\<close> of commands.ts.\<close>

record rect =
  rect_left :: int
  rect_top :: int
  rect_right :: int
  rect_bottom :: int

record tablemap =
  width :: int
  height :: int
  tmap :: "int list"
  sectionRows :: "int list"

record table_rect = rect +
  tableStart :: int
  rmap :: tablemap
  table :: node

text \<open>
  The methods of \<open>TableMap\<close> and \<open>CellSelection\<close>, the node-type registry
  \<open>tableNodeTypes\<close> and \<open>isRowLastInSection\<close> are code of the repository that is
  not among the sources, and node creation, position mapping and the document of a
  transaction are the host's. The commands take them as parameters, so that what is
  proved of a command holds for every implementation of them:
  \<^item> \<open>tableNodeTypes\<close>: the node type of a table role, if the schema has one;
  \<^item> \<open>TableMap_get\<close>, \<open>findCell\<close>, \<open>rectBetween\<close>, \<open>cellsInRect\<close>,
    \<open>rectOverOneSection\<close>, \<open>positionAt\<close>, \<open>colCount\<close>: \<open>TableMap.get(table)\<close> and
    the methods of the map (those that can throw return a sum);
  \<^item> \<open>forEachCell\<close>: the cells of a cell selection with their positions, in the order
    \<open>CellSelection.forEachCell\<close> visits them;
  \<^item> \<open>isRowLastInSection\<close> of util.ts;
  \<^item> \<open>createAndFill\<close>: \<open>type.createAndFill(attrs)\<close>, \<open>null\<close> when the type cannot
    be filled; \<open>defaultAttrs\<close>: the attributes \<open>type.create(null, \<dots>)\<close> gives a node;
  \<^item> \<open>mapping_map\<close>: a position mapped through the given steps (\<open>tr.mapping.map\<close>);
  \<^item> \<open>tr_doc\<close>: the document after the given steps (\<open>tr.doc\<close>).
\<close>

record env =
  tableNodeTypes :: "table_role \<Rightarrow> node_type option"
  TableMap_get :: "node \<Rightarrow> error + tablemap"
  findCell :: "tablemap \<Rightarrow> int \<Rightarrow> error + rect"
  rectBetween :: "tablemap \<Rightarrow> int \<Rightarrow> int \<Rightarrow> error + rect"
  cellsInRect :: "tablemap \<Rightarrow> rect \<Rightarrow> int list"
  rectOverOneSection :: "tablemap \<Rightarrow> rect \<Rightarrow> bool"
  positionAt :: "tablemap \<Rightarrow> int \<Rightarrow> int \<Rightarrow> node \<Rightarrow> error + int"
  colCount :: "tablemap \<Rightarrow> int \<Rightarrow> error + int"
  forEachCell :: "selection \<Rightarrow> (node \<times> int) list"
  isRowLastInSection :: "node \<Rightarrow> int \<Rightarrow> bool"
  createAndFill :: "node_type \<Rightarrow> cell_attrs option \<Rightarrow> node option"
  defaultAttrs :: "node_type \<Rightarrow> cell_attrs"
  mapping_map :: "step list \<Rightarrow> int \<Rightarrow> int"
  tr_doc :: "node \<Rightarrow> step list \<Rightarrow> node"

text \<open>The plain rectangle of a \<open>TableRect\<close>.\<close>

definition rect_of :: "table_rect \<Rightarrow> rect" where
  "rect_of r = \<lparr>rect_left = rect_left r, rect_top = rect_top r,
                 rect_right = rect_right r, rect_bottom = rect_bottom r\<rparr>"

text \<open>
  Modelled from the spec: \<open>isTableSection\<close> of schema.ts is not among the sources; the
  data model has the sections of a table with role head, body or foot (the caption is
  not one).
\<close>

definition isTableSection :: "node \<Rightarrow> bool" where
  "isTableSection n = (role n = Some R_head \<or> role n = Some R_body \<or> role n = Some R_foot)"

section \<open>util.ts\<close>

text \<open>
  The role of the ancestor at depth \<open>d\<close>, \<open>$pos.node(d).type.spec.tableRole\<close>. The
  loops below read it for \<open>0 < d \<le> $pos.depth\<close> only, where the path has the node.
\<close>

definition node_role :: "resolved_pos \<Rightarrow> int \<Rightarrow> table_role option" where
  "node_role rp d = (case rp_node rp d of None \<Rightarrow> None | Some n \<Rightarrow> role n)"

text \<open>
  \<open>cellAround($pos)\<close>: \<open>for (let d = $pos.depth - 1; d > 0; d--)\<close>, the argument
  \<open>d\<close> counting down to 0.
\<close>

fun cellAround_from :: "resolved_pos \<Rightarrow> nat \<Rightarrow> error + resolved_pos option" where
  "cellAround_from rp 0 = Inr None"
| "cellAround_from rp (Suc d) =
     (if node_role rp (int (Suc d)) = Some R_row then
        ebind (nonnull (rp_node rp 0)) (\<lambda>root.
        ebind (rp_before rp (int (Suc d) + 1)) (\<lambda>p.
        ebind (resolve root p) (\<lambda>r. Inr (Some r))))
      else cellAround_from rp d)"

definition cellAround :: "resolved_pos \<Rightarrow> error + resolved_pos option" where
  "cellAround rp = cellAround_from rp (nat (rp_depth rp - 1))"

text \<open>\<open>cellWrapping($pos)\<close>: \<open>for (let d = $pos.depth; d > 0; d--)\<close>.\<close>

fun cellWrapping_from :: "resolved_pos \<Rightarrow> nat \<Rightarrow> node option" where
  "cellWrapping_from rp 0 = None"
| "cellWrapping_from rp (Suc d) =
     (if node_role rp (int (Suc d)) = Some R_cell \<or> node_role rp (int (Suc d)) = Some R_header_cell
      then rp_node rp (int (Suc d))
      else cellWrapping_from rp d)"

definition cellWrapping :: "resolved_pos \<Rightarrow> node option" where
  "cellWrapping rp = cellWrapping_from rp (nat (rp_depth rp))"

text \<open>\<open>isInTable(state)\<close>\<close>

fun isInTable_from :: "resolved_pos \<Rightarrow> nat \<Rightarrow> bool" where
  "isInTable_from rp 0 = False"
| "isInTable_from rp (Suc d) =
     (if node_role rp (int (Suc d)) = Some R_row then True else isInTable_from rp d)"

definition isInTable :: "editor_state \<Rightarrow> bool" where
  "isInTable st = isInTable_from (sel_head (selection st)) (nat (rp_depth (sel_head (selection st))))"

text \<open>
  \<open>cellNear($pos)\<close>. The first loop goes down the first children from
  \<open>$pos.nodeAfter\<close>, the second down the last children from \<open>$pos.nodeBefore\<close>; each
  gives the position to resolve, if it finds a cell.
\<close>

fun cellNear_after :: "node \<Rightarrow> int \<Rightarrow> int option" where
  "cellNear_after (Text s) pos = None"
| "cellNear_after (Node t a cs) pos =
     (if tableRole t = Some R_cell \<or> tableRole t = Some R_header_cell then Some pos
      else case cs of [] \<Rightarrow> None | c # rest \<Rightarrow> cellNear_after c (pos + 1))"

function cellNear_before :: "node \<Rightarrow> int \<Rightarrow> int option" where
  "cellNear_before (Text s) pos = None"
| "cellNear_before (Node t a cs) pos =
     (if tableRole t = Some R_cell \<or> tableRole t = Some R_header_cell
      then Some (pos - nodeSize (Node t a cs))
      else if cs = [] then None else cellNear_before (last cs) (pos - 1))"
  by pat_completeness auto
termination
proof (relation "measure (\<lambda>(n, p). size n)")
  show "wf (measure (\<lambda>(n, p). size n))" by simp
next
  fix t :: node_type and a :: cell_attrs and cs :: "node list" and pos :: int
  assume "cs \<noteq> []"
  then have "last cs \<in> set cs" by simp
  then have "size (last cs) \<le> size_list size cs" by (simp add: size_list_estimation')
  then show "((last cs, pos - 1), (Node t a cs, pos)) \<in> measure (\<lambda>(n, p). size n)" by simp
qed

definition cellNear :: "resolved_pos \<Rightarrow> error + resolved_pos option" where
  "cellNear rp =
     (case (case nodeAfter rp of None \<Rightarrow> None | Some after \<Rightarrow> cellNear_after after (rp_pos rp)) of
        Some p \<Rightarrow> ebind (nonnull (rp_node rp 0)) (\<lambda>root. ebind (resolve root p) (\<lambda>r. Inr (Some r)))
      | None \<Rightarrow>
          (case (case nodeBefore rp of None \<Rightarrow> None
                 | Some before \<Rightarrow> cellNear_before before (rp_pos rp)) of
             Some p \<Rightarrow> ebind (nonnull (rp_node rp 0)) (\<lambda>root. ebind (resolve root p) (\<lambda>r. Inr (Some r)))
           | None \<Rightarrow> Inr None))"

text \<open>
  \<open>selectionCell(state)\<close>. The node selection branch asks for the role \<open>cell\<close> only;
  with no cell around or near the head it throws a RangeError.
\<close>

definition selectionCell :: "editor_state \<Rightarrow> error + resolved_pos" where
  "selectionCell st =
     (case selection st of
        CellSelection ac hc a h \<Rightarrow> Inr (if rp_pos ac > rp_pos hc then ac else hc)
      | NodeSelection n a h \<Rightarrow>
          (if role n = Some R_cell then Inr a
           else ebind (cellAround h) (\<lambda>c1.
                case c1 of Some c \<Rightarrow> Inr c
                | None \<Rightarrow> ebind (cellNear h) (\<lambda>c2.
                    case c2 of Some c \<Rightarrow> Inr c | None \<Rightarrow> Inl RangeError)))
      | TextSelection a h \<Rightarrow>
          ebind (cellAround h) (\<lambda>c1.
            case c1 of Some c \<Rightarrow> Inr c
            | None \<Rightarrow> ebind (cellNear h) (\<lambda>c2.
                case c2 of Some c \<Rightarrow> Inr c | None \<Rightarrow> Inl RangeError)))"

text \<open>
  \<open>columnIsHeader(map, table, col)\<close>, the rows \<open>0 \<le> row < map.height\<close> in order. A
  schema without a header cell type makes the comparison with \<open>undefined\<close> true.
\<close>

fun columnIsHeader_rows :: "env \<Rightarrow> tablemap \<Rightarrow> node \<Rightarrow> int \<Rightarrow> int list \<Rightarrow> error + bool" where
  "columnIsHeader_rows E m tbl col [] = Inr True"
| "columnIsHeader_rows E m tbl col (row # rows) =
     ebind (nodeAt_u tbl (js_nth (tmap m) (col + row * width m))) (\<lambda>n.
     ebind (nonnull n) (\<lambda>cell.
       if Some (type_of cell) \<noteq> tableNodeTypes E R_header_cell then Inr False
       else columnIsHeader_rows E m tbl col rows))"

text \<open>The values \<open>0, 1, \<dots>, n - 1\<close> of a counting loop.\<close>

definition upto_int :: "int \<Rightarrow> int list" where
  "upto_int n = map int [0..<nat n]"

definition columnIsHeader :: "env \<Rightarrow> tablemap \<Rightarrow> node \<Rightarrow> int \<Rightarrow> error + bool" where
  "columnIsHeader E m tbl col = columnIsHeader_rows E m tbl col (upto_int (height m))"

text \<open>\<open>rowsCount(table)\<close>\<close>

fun rowsCount_from :: "node list \<Rightarrow> int \<Rightarrow> int" where
  "rowsCount_from [] count = count"
| "rowsCount_from (section # rest) count =
     rowsCount_from rest (if isTableSection section then count + childCount section else count)"

definition rowsCount :: "node \<Rightarrow> int" where
  "rowsCount tbl = rowsCount_from (children tbl) 0"

text \<open>
  \<open>getRow(table, row, offset = 0)\<close>. \<open>getRow_scan\<close> is the inner \<open>while\<close> loop over
  the rows of the section, giving \<open>r\<close> and \<open>rPos\<close> at its end; \<open>getRow_from\<close> is the
  loop over the children of the table, where \<open>tc === table.childCount - 1\<close> is the
  last child.
\<close>

record row_result =
  row_node :: "node option"
  row_pos :: int
  row_section :: int

fun getRow_scan :: "node list \<Rightarrow> int \<Rightarrow> int \<Rightarrow> int \<Rightarrow> int \<Rightarrow> int \<times> int" where
  "getRow_scan [] r prevSectionsRows row rPos = (r, rPos)"
| "getRow_scan (c # cs) r prevSectionsRows row rPos =
     (if prevSectionsRows + r = row then (r, rPos)
      else getRow_scan cs (r + 1) prevSectionsRows row (rPos + nodeSize c))"

fun getRow_from :: "node list \<Rightarrow> int \<Rightarrow> int \<Rightarrow> int \<Rightarrow> int \<Rightarrow> row_result" where
  "getRow_from [] row rPos prevSectionsRows sectionIndex =
     \<lparr>row_node = None, row_pos = rPos, row_section = sectionIndex\<rparr>"
| "getRow_from (section # rest) row rPos prevSectionsRows sectionIndex =
     (if isTableSection section then
        (let sectionIndex' = sectionIndex + 1;
             sectionRowsN = childCount section
         in if sectionRowsN > 0 then
              (if prevSectionsRows + sectionRowsN \<le> row then
                 (if rest = [] then
                    \<lparr>row_node = None, row_pos = rPos + nodeSize section - 1,
                     row_section = sectionIndex'\<rparr>
                  else getRow_from rest row (rPos + nodeSize section)
                         (prevSectionsRows + sectionRowsN) sectionIndex')
               else
                 (case getRow_scan (children section) 0 prevSectionsRows row (rPos + 1) of
                    (r, rPos') \<Rightarrow>
                      \<lparr>row_node = (if r \<ge> sectionRowsN then None else js_nth (children section) r),
                       row_pos = (if r = sectionRowsN then rPos' + 1 else rPos'),
                       row_section = sectionIndex'\<rparr>))
            else getRow_from rest row rPos prevSectionsRows sectionIndex')
      else getRow_from rest row (rPos + nodeSize section) prevSectionsRows sectionIndex)"

definition getRow :: "node \<Rightarrow> int \<Rightarrow> int \<Rightarrow> row_result" where
  "getRow tbl row offset = getRow_from (children tbl) row offset 0 (- 1)"

text \<open>\<open>rowPos(table, row, pos = 0)\<close>\<close>

definition rowPos :: "node \<Rightarrow> int \<Rightarrow> int \<Rightarrow> int" where
  "rowPos tbl row pos = row_pos (getRow tbl row pos)"


section \<open>commands.ts\<close>

text \<open>
  A command returns its boolean and, when it called \<open>dispatch\<close>, the transaction it
  dispatched; \<open>Inl\<close> is a thrown exception. The argument \<open>dispatch\<close> of a command says
  whether the callback was supplied.
\<close>

type_synonym cmd_result = "error + (bool \<times> transaction option)"

text \<open>\<open>selectedRect(state)\<close>\<close>

definition selectedRect :: "env \<Rightarrow> editor_state \<Rightarrow> error + table_rect" where
  "selectedRect E st =
     ebind (selectionCell st) (\<lambda>pos.
     ebind (nonnull (rp_node pos (rp_depth pos - 2))) (\<lambda>tbl.
     ebind (rp_start pos (rp_depth pos - 2)) (\<lambda>tStart.
     ebind (TableMap_get E tbl) (\<lambda>m.
     ebind (case selection st of
              CellSelection ac hc a h \<Rightarrow> rectBetween E m (rp_pos ac - tStart) (rp_pos hc - tStart)
            | NodeSelection n a h \<Rightarrow> findCell E m (rp_pos pos - tStart)
            | TextSelection a h \<Rightarrow> findCell E m (rp_pos pos - tStart)) (\<lambda>r.
     Inr \<lparr>rect_left = rect_left r, rect_top = rect_top r, rect_right = rect_right r,
          rect_bottom = rect_bottom r, tableStart = tStart, rmap = m, table = tbl\<rparr>)))))"

subsection \<open>Columns\<close>

text \<open>
  One turn of the loop of \<open>addColumn\<close> for the row \<open>row\<close>: the transaction after it and
  the value of \<open>row\<close> at the end of the body (the loop header then adds 1).
  \<open>refColumn\<close> is \<open>None\<close> for \<open>null\<close>. A \<open>createAndFill\<close> that gives \<open>null\<close>
  makes \<open>tr.insert\<close> insert nothing.
\<close>

definition addColumn_row ::
  "env \<Rightarrow> table_rect \<Rightarrow> int \<Rightarrow> int option \<Rightarrow> int \<Rightarrow> transaction \<Rightarrow> error + (transaction \<times> int)" where
  "addColumn_row E r col refColumn row tr =
     (let m = rmap r; index = row * width m + col
      in if col > 0 \<and> col < width m \<and> js_nth (tmap m) (index - 1) = js_nth (tmap m) index then
           ebind (nodeAt_u (table r) (js_nth (tmap m) index)) (\<lambda>n.
           ebind (nonnull n) (\<lambda>cell.
           ebind (nonnull (js_nth (tmap m) index)) (\<lambda>pos.
           ebind (colCount E m pos) (\<lambda>cc.
             Inr (add_step tr
                    (SetNodeMarkup (mapping_map E (steps tr) (tableStart r + pos)) None
                       (Some (attrs_obj (addColSpan (attrs_of cell) (col - cc) 1)))),
                  row + (rowspan (attrs_of cell) - 1))))))
         else
           ebind (case refColumn of
                    None \<Rightarrow> Inr (tableNodeTypes E R_cell)
                  | Some d \<Rightarrow>
                      ebind (nodeAt_u (table r) (js_nth (tmap m) (index + d))) (\<lambda>n.
                      ebind (nonnull n) (\<lambda>c. Inr (Some (type_of c))))) (\<lambda>type.
           ebind (positionAt E m row col (table r)) (\<lambda>pos.
           ebind (nonnull type) (\<lambda>ty.
             Inr (case createAndFill E ty None of
                    None \<Rightarrow> tr
                  | Some cell \<Rightarrow> add_step tr (Insert (mapping_map E (steps tr) (tableStart r + pos)) cell),
                  row)))))"

text \<open>
  The loop \<open>for (let row = 0; row < map.height; row++)\<close>. The body moves \<open>row\<close> by
  \<open>rowspan - 1\<close>, so a cell with no positive \<open>rowspan\<close> can keep the loop from ending:
  \<open>None\<close> is the run that never returns.
\<close>

partial_function (option) addColumn_rows ::
  "env \<Rightarrow> table_rect \<Rightarrow> int \<Rightarrow> int option \<Rightarrow> int \<Rightarrow> transaction \<Rightarrow> (error + transaction) option" where
  "addColumn_rows E r col refColumn row tr =
     (if row < height (rmap r) then
        (case addColumn_row E r col refColumn row tr of
           Inl e \<Rightarrow> Some (Inl e)
         | Inr res \<Rightarrow> addColumn_rows E r col refColumn (snd res + 1) (fst res))
      else Some (Inr tr))"

text \<open>The reference column \<open>addColumn\<close> starts with, and the one it settles on.\<close>

definition addColumn_refColumn :: "env \<Rightarrow> table_rect \<Rightarrow> int \<Rightarrow> error + int option" where
  "addColumn_refColumn E r col =
     (let refColumn = (if col > 0 then - 1 else 0)
      in ebind (columnIsHeader E (rmap r) (table r) (col + refColumn)) (\<lambda>hdr.
           Inr (if hdr then (if col = 0 \<or> col = width (rmap r) then None else Some 0)
                else Some refColumn)))"

text \<open>\<open>addColumn(tr, rect, col)\<close>\<close>

definition addColumn :: "env \<Rightarrow> transaction \<Rightarrow> table_rect \<Rightarrow> int \<Rightarrow> (error + transaction) option" where
  "addColumn E tr r col =
     (case addColumn_refColumn E r col of
        Inl e \<Rightarrow> Some (Inl e)
      | Inr refColumn \<Rightarrow> addColumn_rows E r col refColumn 0 tr)"

text \<open>What a command does with the transaction a helper built, when it dispatches it.\<close>

definition dispatched :: "(error + transaction) option \<Rightarrow> cmd_result option" where
  "dispatched res =
     (case res of None \<Rightarrow> None
      | Some (Inl e) \<Rightarrow> Some (Inl e)
      | Some (Inr tr) \<Rightarrow> Some (Inr (True, Some tr)))"

text \<open>\<open>addColumnBefore\<close> and \<open>addColumnAfter\<close>\<close>

definition addColumnBefore :: "env \<Rightarrow> editor_state \<Rightarrow> bool \<Rightarrow> cmd_result option" where
  "addColumnBefore E st dispatch =
     (if \<not> isInTable st then Some (Inr (False, None))
      else if dispatch then
        (case selectedRect E st of
           Inl e \<Rightarrow> Some (Inl e)
         | Inr r \<Rightarrow> dispatched (addColumn E (state_tr st) r (rect_left r)))
      else Some (Inr (True, None)))"

definition addColumnAfter :: "env \<Rightarrow> editor_state \<Rightarrow> bool \<Rightarrow> cmd_result option" where
  "addColumnAfter E st dispatch =
     (if \<not> isInTable st then Some (Inr (False, None))
      else if dispatch then
        (case selectedRect E st of
           Inl e \<Rightarrow> Some (Inl e)
         | Inr r \<Rightarrow> dispatched (addColumn E (state_tr st) r (rect_right r)))
      else Some (Inr (True, None)))"

text \<open>
  One turn of the loop of \<open>removeColumn\<close>: the transaction after it and the next
  \<open>row\<close> (\<open>row += attrs.rowspan\<close>). \<open>mapStart\<close> is the number of steps the
  transaction had when \<open>removeColumn\<close> was called.
\<close>

definition removeColumn_row ::
  "env \<Rightarrow> table_rect \<Rightarrow> int \<Rightarrow> nat \<Rightarrow> int \<Rightarrow> transaction \<Rightarrow> error + (transaction \<times> int)" where
  "removeColumn_row E r col mapStart row tr =
     (let m = rmap r; index = row * width m + col; pos = js_nth (tmap m) index
      in ebind (nodeAt_u (table r) pos) (\<lambda>n.
         ebind (nonnull n) (\<lambda>cell.
         ebind (nonnull pos) (\<lambda>p.
           if (col > 0 \<and> js_nth (tmap m) (index - 1) = pos)
              \<or> (col < width m - 1 \<and> js_nth (tmap m) (index + 1) = pos) then
             ebind (colCount E m p) (\<lambda>cc.
               Inr (add_step tr
                      (SetNodeMarkup (mapping_map E (drop mapStart (steps tr)) (tableStart r + p)) None
                         (Some (attrs_obj (removeColSpan (attrs_of cell) (col - cc) 1)))),
                    row + rowspan (attrs_of cell)))
           else
             (let start = mapping_map E (drop mapStart (steps tr)) (tableStart r + p)
              in Inr (add_step tr (Delete start (start + nodeSize cell)),
                      row + rowspan (attrs_of cell)))))))"

partial_function (option) removeColumn_rows ::
  "env \<Rightarrow> table_rect \<Rightarrow> int \<Rightarrow> nat \<Rightarrow> int \<Rightarrow> transaction \<Rightarrow> (error + transaction) option" where
  "removeColumn_rows E r col mapStart row tr =
     (if row < height (rmap r) then
        (case removeColumn_row E r col mapStart row tr of
           Inl e \<Rightarrow> Some (Inl e)
         | Inr res \<Rightarrow> removeColumn_rows E r col mapStart (snd res) (fst res))
      else Some (Inr tr))"

text \<open>\<open>removeColumn(tr, rect, col)\<close>\<close>

definition removeColumn :: "env \<Rightarrow> transaction \<Rightarrow> table_rect \<Rightarrow> int \<Rightarrow> (error + transaction) option" where
  "removeColumn E tr r col = removeColumn_rows E r col (length (steps tr)) 0 tr"

text \<open>
  The table of the transaction's document, \<open>rect.tableStart ? tr.doc.nodeAt(rect.tableStart
  - 1) : tr.doc\<close>, with its map; no table there is a RangeError.
\<close>

definition refreshed_rect :: "env \<Rightarrow> node \<Rightarrow> transaction \<Rightarrow> table_rect \<Rightarrow> error + table_rect" where
  "refreshed_rect E d tr r =
     ebind (if tableStart r \<noteq> 0 then nodeAt (tr_doc E d (steps tr)) (tableStart r - 1)
            else Inr (Some (tr_doc E d (steps tr)))) (\<lambda>t.
       case t of None \<Rightarrow> Inl RangeError
       | Some tbl \<Rightarrow> ebind (TableMap_get E tbl) (\<lambda>m. Inr (r\<lparr>rmap := m, table := tbl\<rparr>)))"

text \<open>
  The loop \<open>for (let i = rect.right - 1; ; i--)\<close> of \<open>deleteColumn\<close>, which ends at
  \<open>i == rect.left\<close> only.
\<close>

partial_function (option) deleteColumn_cols ::
  "env \<Rightarrow> node \<Rightarrow> table_rect \<Rightarrow> int \<Rightarrow> transaction \<Rightarrow> (error + transaction) option" where
  "deleteColumn_cols E d r i tr =
     (case removeColumn E tr r i of
        None \<Rightarrow> None
      | Some (Inl e) \<Rightarrow> Some (Inl e)
      | Some (Inr tr') \<Rightarrow>
          (if i = rect_left r then Some (Inr tr')
           else case refreshed_rect E d tr' r of
                  Inl e \<Rightarrow> Some (Inl e)
                | Inr r' \<Rightarrow> deleteColumn_cols E d r' (i - 1) tr'))"

text \<open>\<open>deleteColumn(state, dispatch)\<close>\<close>

definition deleteColumn :: "env \<Rightarrow> editor_state \<Rightarrow> bool \<Rightarrow> cmd_result option" where
  "deleteColumn E st dispatch =
     (if \<not> isInTable st then Some (Inr (False, None))
      else if dispatch then
        (case selectedRect E st of
           Inl e \<Rightarrow> Some (Inl e)
         | Inr r \<Rightarrow>
             (if rect_left r = 0 \<and> rect_right r = width (rmap r) then Some (Inr (False, None))
              else dispatched (deleteColumn_cols E (doc st) r (rect_right r - 1) (state_tr st))))
      else Some (Inr (True, None)))"


subsection \<open>Rows\<close>

text \<open>
  \<open>rowIsHeader(map, table, row)\<close>. The optional chaining \<open>?.type\<close> reads
  \<open>undefined\<close> from a \<open>null\<close> node, which is compared with the header cell type.
\<close>

fun rowIsHeader_cols :: "env \<Rightarrow> tablemap \<Rightarrow> node \<Rightarrow> int \<Rightarrow> int list \<Rightarrow> error + bool" where
  "rowIsHeader_cols E m tbl row [] = Inr True"
| "rowIsHeader_cols E m tbl row (col # cols) =
     ebind (nodeAt_u tbl (js_nth (tmap m) (col + row * width m))) (\<lambda>n.
       if map_option type_of n \<noteq> tableNodeTypes E R_header_cell then Inr False
       else rowIsHeader_cols E m tbl row cols)"

definition rowIsHeader :: "env \<Rightarrow> tablemap \<Rightarrow> node \<Rightarrow> int \<Rightarrow> error + bool" where
  "rowIsHeader E m tbl row = rowIsHeader_cols E m tbl row (upto_int (width m))"

text \<open>
  The loop of \<open>addRow\<close> that recalculates \<open>map.sectionRows\<close>: the first section with
  \<open>row < acc\<close>, or else the last one, gets one row more. The array is changed in place;
  \<open>bump_sectionRows\<close> gives it afterwards.
\<close>

fun bump_sectionRows :: "int list \<Rightarrow> int \<Rightarrow> int \<Rightarrow> int list" where
  "bump_sectionRows [] row acc = []"
| "bump_sectionRows (n # rest) row acc =
     (if row < acc + n \<or> rest = [] then (n + 1) # rest
      else n # bump_sectionRows rest row (acc + n))"

text \<open>
  One turn of the column loop of \<open>addRow\<close>: the transaction, the cells collected so far
  and \<open>col\<close> at the end of the body. The loop header adds 1 to \<open>col\<close> and to
  \<open>index\<close>; the body moves \<open>col\<close> alone.
\<close>

definition addRow_col ::
  "env \<Rightarrow> table_rect \<Rightarrow> int \<Rightarrow> int option \<Rightarrow> int \<Rightarrow> int \<Rightarrow> node list \<Rightarrow> transaction
    \<Rightarrow> error + (transaction \<times> node list \<times> int)" where
  "addRow_col E r row refRow col index cells tr =
     (let m = rmap r
      in if row > 0 \<and> row < height m \<and> js_nth (tmap m) index = js_nth (tmap m) (index - width m) then
           ebind (nodeAt_u (table r) (js_nth (tmap m) index)) (\<lambda>n.
           ebind (nonnull n) (\<lambda>cell.
           ebind (nonnull (js_nth (tmap m) index)) (\<lambda>pos.
             Inr (add_step tr
                    (SetNodeMarkup (tableStart r + pos) None
                       (Some (attrs_obj ((attrs_of cell)\<lparr>rowspan := rowspan (attrs_of cell) + 1\<rparr>)))),
                  cells, col + (colspan (attrs_of cell) - 1)))))
         else
           ebind (case refRow of
                    None \<Rightarrow> Inr (tableNodeTypes E R_cell)
                  | Some d \<Rightarrow>
                      ebind (nodeAt_u (table r) (js_nth (tmap m) (index + d * width m))) (\<lambda>n.
                        Inr (map_option type_of n))) (\<lambda>type.
             Inr (tr,
                  (case (case type of None \<Rightarrow> None | Some ty \<Rightarrow> createAndFill E ty None) of
                     None \<Rightarrow> cells
                   | Some cell \<Rightarrow> cells @ [cell]),
                  col)))"

partial_function (option) addRow_cols ::
  "env \<Rightarrow> table_rect \<Rightarrow> int \<Rightarrow> int option \<Rightarrow> int \<Rightarrow> int \<Rightarrow> node list \<Rightarrow> transaction
    \<Rightarrow> (error + (transaction \<times> node list)) option" where
  "addRow_cols E r row refRow col index cells tr =
     (if col < width (rmap r) then
        (case addRow_col E r row refRow col index cells tr of
           Inl e \<Rightarrow> Some (Inl e)
         | Inr res \<Rightarrow>
             addRow_cols E r row refRow (snd (snd res) + 1) (index + 1) (fst (snd res)) (fst res))
      else Some (Inr (tr, cells)))"

text \<open>The position \<open>rPos\<close> at which \<open>addRow\<close> inserts the new row.\<close>

definition addRow_rPos :: "env \<Rightarrow> table_rect \<Rightarrow> int \<Rightarrow> int" where
  "addRow_rPos E r row =
     (let rPos = rowPos (table r) row 0 + tableStart r
      in if rect_bottom r = row \<and> isRowLastInSection E (table r) (row - 1) then rPos - 2 else rPos)"

definition addRow_refRow :: "env \<Rightarrow> table_rect \<Rightarrow> int \<Rightarrow> error + int option" where
  "addRow_refRow E r row =
     (let refRow = (if row > 0 then - 1 else 0)
      in ebind (rowIsHeader E (rmap r) (table r) (row + refRow)) (\<lambda>hdr.
           Inr (if hdr then (if row = 0 \<or> row = height (rmap r) then None else Some 0)
                else Some refRow)))"

text \<open>
  \<open>addRow(tr, rect, row)\<close>: the transaction, and \<open>map.sectionRows\<close> as the call leaves
  it.
\<close>

definition addRow ::
  "env \<Rightarrow> transaction \<Rightarrow> table_rect \<Rightarrow> int \<Rightarrow> (error + (transaction \<times> int list)) option" where
  "addRow E tr r row =
     (let rPos = addRow_rPos E r row
      in case addRow_refRow E r row of
           Inl e \<Rightarrow> Some (Inl e)
         | Inr refRow \<Rightarrow>
             (let srows = bump_sectionRows (sectionRows (rmap r)) row 0
              in case addRow_cols E r row refRow 0 (width (rmap r) * row) [] tr of
                   None \<Rightarrow> None
                 | Some (Inl e) \<Rightarrow> Some (Inl e)
                 | Some (Inr res) \<Rightarrow>
                     (case tableNodeTypes E R_row of
                        None \<Rightarrow> Some (Inl TypeError)
                      | Some rowType \<Rightarrow>
                          Some (Inr (add_step (fst res)
                                       (Insert rPos (Node rowType (defaultAttrs E rowType) (snd res))),
                                     srows)))))"

definition dispatched_fst :: "(error + (transaction \<times> int list)) option \<Rightarrow> cmd_result option" where
  "dispatched_fst res =
     (case res of None \<Rightarrow> None
      | Some (Inl e) \<Rightarrow> Some (Inl e)
      | Some (Inr p) \<Rightarrow> Some (Inr (True, Some (fst p))))"

text \<open>\<open>addRowBefore\<close> and \<open>addRowAfter\<close>\<close>

definition addRowBefore :: "env \<Rightarrow> editor_state \<Rightarrow> bool \<Rightarrow> cmd_result option" where
  "addRowBefore E st dispatch =
     (if \<not> isInTable st then Some (Inr (False, None))
      else if dispatch then
        (case selectedRect E st of
           Inl e \<Rightarrow> Some (Inl e)
         | Inr r \<Rightarrow> dispatched_fst (addRow E (state_tr st) r (rect_top r)))
      else Some (Inr (True, None)))"

definition addRowAfter :: "env \<Rightarrow> editor_state \<Rightarrow> bool \<Rightarrow> cmd_result option" where
  "addRowAfter E st dispatch =
     (if \<not> isInTable st then Some (Inr (False, None))
      else if dispatch then
        (case selectedRect E st of
           Inl e \<Rightarrow> Some (Inl e)
         | Inr r \<Rightarrow> dispatched_fst (addRow E (state_tr st) r (rect_bottom r)))
      else Some (Inr (True, None)))"

text \<open>
  One turn of the column loop of \<open>removeRow\<close>: the transaction and \<open>col\<close> at the end
  of the body. \<open>pos\<close> is \<open>undefined\<close> outside the map, and two \<open>undefined\<close> are equal.
\<close>

definition removeRow_col ::
  "env \<Rightarrow> table_rect \<Rightarrow> int \<Rightarrow> nat \<Rightarrow> int \<Rightarrow> int \<Rightarrow> transaction \<Rightarrow> error + (transaction \<times> int)" where
  "removeRow_col E r row mapFrom col index tr =
     (let m = rmap r; pos = js_nth (tmap m) index
      in if row > 0 \<and> pos = js_nth (tmap m) (index - width m) then
           ebind (nodeAt_u (table r) pos) (\<lambda>n.
           ebind (nonnull n) (\<lambda>cell.
           ebind (nonnull pos) (\<lambda>p.
             Inr (add_step tr
                    (SetNodeMarkup (mapping_map E (drop mapFrom (steps tr)) (p + tableStart r)) None
                       (Some (attrs_obj ((attrs_of cell)\<lparr>rowspan := rowspan (attrs_of cell) - 1\<rparr>)))),
                  col + (colspan (attrs_of cell) - 1)))))
         else if row < height m \<and> pos = js_nth (tmap m) (index + width m) then
           ebind (nodeAt_u (table r) pos) (\<lambda>n.
           ebind (nonnull n) (\<lambda>cell.
           ebind (positionAt E m (row + 1) col (table r)) (\<lambda>newPos.
             Inr (add_step tr
                    (Insert (mapping_map E (drop mapFrom (steps tr)) (tableStart r + newPos))
                       (Node (type_of cell)
                          ((attrs_of cell)\<lparr>rowspan := rowspan (attrs_of cell) - 1\<rparr>)
                          (children cell))),
                  col + (colspan (attrs_of cell) - 1)))))
         else Inr (tr, col))"

partial_function (option) removeRow_cols ::
  "env \<Rightarrow> table_rect \<Rightarrow> int \<Rightarrow> nat \<Rightarrow> int \<Rightarrow> int \<Rightarrow> transaction \<Rightarrow> (error + transaction) option" where
  "removeRow_cols E r row mapFrom col index tr =
     (if col < width (rmap r) then
        (case removeRow_col E r row mapFrom col index tr of
           Inl e \<Rightarrow> Some (Inl e)
         | Inr res \<Rightarrow> removeRow_cols E r row mapFrom (snd res + 1) (index + 1) (fst res))
      else Some (Inr tr))"

text \<open>\<open>removeRow(tr, rect, row)\<close>; \<open>rNode!.nodeSize\<close> throws where \<open>getRow\<close> has no node.\<close>

definition removeRow :: "env \<Rightarrow> transaction \<Rightarrow> table_rect \<Rightarrow> int \<Rightarrow> (error + transaction) option" where
  "removeRow E tr r row =
     (let g = getRow (table r) row 0;
          mapFrom = length (steps tr);
          from = row_pos g + tableStart r
      in case row_node g of
           None \<Rightarrow> Some (Inl TypeError)
         | Some rNode \<Rightarrow>
             removeRow_cols E r row mapFrom 0 (row * width (rmap r))
               (add_step tr (Delete from (from + nodeSize rNode - 1))))"

text \<open>\<open>removeSection(tr, rect, section)\<close>, the loop over the children of the table.\<close>

fun removeSection_from :: "node list \<Rightarrow> int \<Rightarrow> int \<Rightarrow> int \<Rightarrow> int \<Rightarrow> transaction \<Rightarrow> transaction" where
  "removeSection_from [] tStart section pos s tr = tr"
| "removeSection_from (c # rest) tStart section pos s tr =
     (if isTableSection c \<and> s + 1 = section
      then add_step tr (Delete (tStart + pos) (tStart + pos + nodeSize c))
      else removeSection_from rest tStart section (pos + nodeSize c)
             (if isTableSection c then s + 1 else s) tr)"

definition removeSection :: "transaction \<Rightarrow> table_rect \<Rightarrow> int \<Rightarrow> transaction" where
  "removeSection tr r section =
     removeSection_from (children (table r)) (tableStart r) section 0 (- 1) tr"

text \<open>
  \<open>sectionBottom\<close> of \<open>deleteRow\<close>: the running sums of \<open>sectionRows\<close>, and \<open>[0]\<close>
  for no section.
\<close>

fun running_sums :: "int \<Rightarrow> int list \<Rightarrow> int list" where
  "running_sums acc [] = []"
| "running_sums acc (n # rest) = (acc + n) # running_sums (acc + n) rest"

definition sectionBottoms :: "int list \<Rightarrow> int list" where
  "sectionBottoms srows = (if srows = [] then [0] else running_sums 0 srows)"

text \<open>\<open>while (s > 0 && sectionBottom[s] > rect.bottom) s--\<close>, from \<open>s\<close> down.\<close>

fun last_section_from :: "int list \<Rightarrow> int \<Rightarrow> nat \<Rightarrow> nat" where
  "last_section_from sb bottom 0 = 0"
| "last_section_from sb bottom (Suc s) =
     (if (case js_nth sb (int (Suc s)) of None \<Rightarrow> False | Some b \<Rightarrow> b > bottom)
      then last_section_from sb bottom s else Suc s)"

definition last_section :: "int list \<Rightarrow> int list \<Rightarrow> int \<Rightarrow> int" where
  "last_section srows sb bottom =
     (if int (length srows) - 1 > 0 then int (last_section_from sb bottom (length srows - 1))
      else int (length srows) - 1)"

text \<open>
  The loop \<open>for (let i = rect.bottom - 1; ; i--)\<close> of \<open>deleteRow\<close>. \<open>srows\<close> and \<open>sb\<close>
  are \<open>sectionRows\<close> and \<open>sectionBottom\<close> of the map the command started with. A read
  outside them gives \<open>undefined\<close>, the difference is NaN and every comparison with it is
  false.
\<close>

partial_function (option) deleteRow_rows ::
  "env \<Rightarrow> node \<Rightarrow> int list \<Rightarrow> int list \<Rightarrow> table_rect \<Rightarrow> int \<Rightarrow> int \<Rightarrow> transaction
    \<Rightarrow> (error + transaction) option" where
  "deleteRow_rows E d srows sb r s i tr =
     (let firstRowOfSection =
            (case (js_nth sb s, js_nth srows s) of
               (Some b, Some n) \<Rightarrow> Some (b - n)
             | other \<Rightarrow> None);
          whole = (js_nth sb s = Some (i + 1)
                   \<and> (case firstRowOfSection of None \<Rightarrow> False | Some f \<Rightarrow> rect_top r \<le> f))
      in case (if whole then Some (Inr (removeSection tr r s)) else removeRow E tr r i) of
           None \<Rightarrow> None
         | Some (Inl e) \<Rightarrow> Some (Inl e)
         | Some (Inr tr') \<Rightarrow>
             (let i' = (if whole then (case firstRowOfSection of None \<Rightarrow> i | Some f \<Rightarrow> f) else i);
                  s' = (if whole then s - 1 else s)
              in if i' \<le> rect_top r then Some (Inr tr')
                 else case refreshed_rect E d tr' r of
                        Inl e \<Rightarrow> Some (Inl e)
                      | Inr r' \<Rightarrow> deleteRow_rows E d srows sb r' s' (i' - 1) tr'))"

text \<open>\<open>deleteRow(state, dispatch)\<close>\<close>

definition deleteRow :: "env \<Rightarrow> editor_state \<Rightarrow> bool \<Rightarrow> cmd_result option" where
  "deleteRow E st dispatch =
     (if \<not> isInTable st then Some (Inr (False, None))
      else if dispatch then
        (case selectedRect E st of
           Inl e \<Rightarrow> Some (Inl e)
         | Inr r \<Rightarrow>
             (if rect_top r = 0 \<and> rect_bottom r = height (rmap r) then Some (Inr (False, None))
              else
                (let srows = sectionRows (rmap r);
                     sb = sectionBottoms srows;
                     s = last_section srows sb (rect_bottom r)
                 in dispatched (deleteRow_rows E (doc st) srows sb r s (rect_bottom r - 1) (state_tr st)))))
      else Some (Inr (True, None)))"


subsection \<open>Sections\<close>

text \<open>\<open>node.copy(content)\<close>: the same type and attributes around another content.\<close>

definition node_copy :: "node \<Rightarrow> node list \<Rightarrow> node" where
  "node_copy n cs = Node (type_of n) (attrs_of n) cs"

text \<open>\<open>fixRowCells(row, headerCellType)\<close>\<close>

definition fixRowCells :: "node \<Rightarrow> node_type \<Rightarrow> node" where
  "fixRowCells row headerCellType =
     node_copy row
       (map (\<lambda>cell. if role cell = Some R_header_cell then cell
                     else Node headerCellType (attrs_of cell) (children cell))
          (children row))"

text \<open>
  The variables of the loops of \<open>makeSection\<close>: \<open>newTableContents\<close>, \<open>refSection\<close>,
  \<open>rowIndex\<close>, \<open>inSelection\<close> and \<open>accSectionRows\<close>.
\<close>

record ms_state =
  newTableContents :: "node list"
  refSection :: "node option"
  rowIndex :: int
  inSelection :: bool
  accSectionRows :: "node list"

text \<open>
  The loop over the rows of a section that overlaps the selection; \<open>j\<close> is the index of
  the first row of the list and \<open>ref\<close> the value of \<open>refSection\<close>, which is set when
  the loop starts. \<open>fix\<close> is the header cell type when \<open>fixCellsType\<close> is truthy.
\<close>

fun makeSection_rows ::
  "env \<Rightarrow> table_role \<Rightarrow> node_type \<Rightarrow> node_type option \<Rightarrow> int \<Rightarrow> int \<Rightarrow> node \<Rightarrow> int
    \<Rightarrow> node list \<Rightarrow> int \<Rightarrow> node list \<Rightarrow> node \<Rightarrow> bool \<Rightarrow> node list
    \<Rightarrow> node list \<times> node \<times> bool \<times> node list" where
  "makeSection_rows E rl newSectionType fix tp bt section rIndex [] j contents ref inSel acc =
     (contents, ref, inSel, acc)"
| "makeSection_rows E rl newSectionType fix tp bt section rIndex (child_j # rows) j contents ref inSel acc =
     (let starts = (rIndex + j = tp);
          contents1 = (if starts \<and> acc \<noteq> [] then contents @ [node_copy ref acc] else contents);
          acc1 = (if starts \<and> acc \<noteq> [] then [] else acc);
          inSel1 = (if starts then True else inSel);
          row = (case fix of
                   Some headerCellType \<Rightarrow>
                     if inSel1 then fixRowCells child_j headerCellType else child_j
                 | None \<Rightarrow> child_j);
          acc2 = acc1 @ [row]
      in if rIndex + j = bt - 1 then
           (let ref1 = (if role ref \<noteq> Some rl then section else ref);
                newSection = (if role ref1 \<noteq> Some rl
                              then Node newSectionType (defaultAttrs E newSectionType) acc2
                              else node_copy ref1 acc2)
            in makeSection_rows E rl newSectionType fix tp bt section rIndex rows (j + 1)
                 (contents1 @ [newSection]) section False [])
         else makeSection_rows E rl newSectionType fix tp bt section rIndex rows (j + 1)
                contents1 ref inSel1 acc2)"

text \<open>
  The loop over the children of the table. \<open>None\<close> is the \<open>return false\<close> inside it: a
  section of the wanted role that is the selected range already.
\<close>

fun makeSection_sections ::
  "env \<Rightarrow> table_role \<Rightarrow> node_type \<Rightarrow> node_type option \<Rightarrow> int \<Rightarrow> int \<Rightarrow> node list \<Rightarrow> ms_state
    \<Rightarrow> ms_state option" where
  "makeSection_sections E rl newSectionType fix tp bt [] ms = Some ms"
| "makeSection_sections E rl newSectionType fix tp bt (section # rest) ms =
     (if isTableSection section then
        (let lastRow = rowIndex ms + childCount section - 1
         in if rowIndex ms = tp \<and> lastRow + 1 = bt \<and> role section = Some rl then None
            else if rowIndex ms \<ge> bt \<or> lastRow < tp then
              makeSection_sections E rl newSectionType fix tp bt rest
                (ms\<lparr>newTableContents := newTableContents ms @ [section], rowIndex := lastRow + 1\<rparr>)
            else
              (case makeSection_rows E rl newSectionType fix tp bt section (rowIndex ms)
                      (children section) 0 (newTableContents ms)
                      (case refSection ms of None \<Rightarrow> section | Some ref \<Rightarrow> ref)
                      (inSelection ms) (accSectionRows ms) of
                 (contents, ref, inSel, acc) \<Rightarrow>
                   makeSection_sections E rl newSectionType fix tp bt rest
                     \<lparr>newTableContents =
                        (if \<not> inSel \<and> acc \<noteq> [] then contents @ [node_copy ref acc] else contents),
                      refSection = Some ref,
                      rowIndex = lastRow + 1,
                      inSelection = inSel,
                      accSectionRows = (if \<not> inSel \<and> acc \<noteq> [] then [] else acc)\<rparr>))
      else makeSection_sections E rl newSectionType fix tp bt rest
             (ms\<lparr>newTableContents := newTableContents ms @ [section]\<rparr>))"

text \<open>
  The end of the dispatching branch of \<open>makeSection\<close>: the table is selected as a node
  and replaced, and the cells of the rectangle are selected in the new table.
\<close>

definition makeSection_replace ::
  "env \<Rightarrow> editor_state \<Rightarrow> table_rect \<Rightarrow> node list \<Rightarrow> error + transaction" where
  "makeSection_replace E st r contents =
     ebind (resolve (doc st) (tableStart r - 1)) (\<lambda>tpos.
     ebind (nonnull (nodeAfter tpos)) (\<lambda>selected.
     ebind (resolve (doc st) (rp_pos tpos + nodeSize selected)) (\<lambda>tend.
       (let newTable = node_copy (table r) contents;
            tr1 = add_step (state_tr st)
                    (ReplaceSelectionWith (Some (SelNode (tableStart r - 1))) newTable)
        in ebind (TableMap_get E newTable) (\<lambda>m.
             (let cellsPositions = cellsInRect E m (rect_of r);
                  d' = tr_doc E (doc st) (steps tr1)
              in case cellsPositions of
                   [] \<Rightarrow> Inl RangeError
                 | c # cs \<Rightarrow>
                     ebind (resolve d' (tableStart r + c)) (\<lambda>anchorCell.
                     ebind (resolve d' (tableStart r + last (c # cs))) (\<lambda>headCell.
                       Inr (tr1\<lparr>tr_selection :=
                                   Some (SelCell (rp_pos anchorCell) (Some (rp_pos headCell)))\<rparr>)))))))))"

text \<open>\<open>makeSection(role, state, dispatch)\<close>\<close>

definition makeSection :: "env \<Rightarrow> table_role \<Rightarrow> editor_state \<Rightarrow> bool \<Rightarrow> cmd_result" where
  "makeSection E rl st dispatch =
     (if \<not> isInTable st then Inr (False, None)
      else
        ebind (selectedRect E st) (\<lambda>r.
          if rl = R_head \<and> rect_top r > 0 then Inr (False, None)
          else if rl = R_foot \<and> rect_bottom r < height (rmap r) then Inr (False, None)
          else case tableNodeTypes E rl of
                 None \<Rightarrow> Inr (False, None)
               | Some newSectionType \<Rightarrow>
                   (let fix = (if (rl = R_head \<or> rl = R_foot) \<and> tableNodeTypes E R_cell \<noteq> None
                               then tableNodeTypes E R_header_cell else None)
                    in if dispatch then
                         (case makeSection_sections E rl newSectionType fix (rect_top r) (rect_bottom r)
                                 (children (table r))
                                 \<lparr>newTableContents = [], refSection = None, rowIndex = 0,
                                  inSelection = False, accSectionRows = []\<rparr> of
                            None \<Rightarrow> Inr (False, None)
                          | Some ms \<Rightarrow>
                              ebind (makeSection_replace E st r (newTableContents ms)) (\<lambda>tr.
                                Inr (True, Some tr)))
                       else Inr (True, None))))"

definition makeBody :: "env \<Rightarrow> editor_state \<Rightarrow> bool \<Rightarrow> cmd_result" where
  "makeBody E st dispatch = makeSection E R_body st dispatch"

definition makeHead :: "env \<Rightarrow> editor_state \<Rightarrow> bool \<Rightarrow> cmd_result" where
  "makeHead E st dispatch = makeSection E R_head st dispatch"

definition makeFoot :: "env \<Rightarrow> editor_state \<Rightarrow> bool \<Rightarrow> cmd_result" where
  "makeFoot E st dispatch = makeSection E R_foot st dispatch"

subsection \<open>Merging and splitting cells\<close>

text \<open>\<open>isEmpty(cell)\<close>\<close>

definition isEmpty :: "node \<Rightarrow> bool" where
  "isEmpty cell =
     (case children cell of
        [c] \<Rightarrow> isTextblock (type_of c) \<and> childCount c = 0
      | other \<Rightarrow> False)"

text \<open>
  \<open>cellsOverlapRectangle({ width, height, map }, rect)\<close>: the first loop walks the rows
  of the rectangle along its left and right edge, the second the columns along its top and
  bottom edge; the counter is the number of turns left.
\<close>

fun overlap_rows :: "tablemap \<Rightarrow> rect \<Rightarrow> nat \<Rightarrow> int \<Rightarrow> int \<Rightarrow> bool" where
  "overlap_rows m rc 0 indexLeft indexRight = False"
| "overlap_rows m rc (Suc k) indexLeft indexRight =
     (if (rect_left rc > 0 \<and> js_nth (tmap m) indexLeft = js_nth (tmap m) (indexLeft - 1))
         \<or> (rect_right rc < width m \<and> js_nth (tmap m) indexRight = js_nth (tmap m) (indexRight + 1))
      then True
      else overlap_rows m rc k (indexLeft + width m) (indexRight + width m))"

fun overlap_cols :: "tablemap \<Rightarrow> rect \<Rightarrow> nat \<Rightarrow> int \<Rightarrow> int \<Rightarrow> bool" where
  "overlap_cols m rc 0 indexTop indexBottom = False"
| "overlap_cols m rc (Suc k) indexTop indexBottom =
     (if (rect_top rc > 0 \<and> js_nth (tmap m) indexTop = js_nth (tmap m) (indexTop - width m))
         \<or> (rect_bottom rc < height m
             \<and> js_nth (tmap m) indexBottom = js_nth (tmap m) (indexBottom + width m))
      then True
      else overlap_cols m rc k (indexTop + 1) (indexBottom + 1))"

definition cellsOverlapRectangle :: "tablemap \<Rightarrow> rect \<Rightarrow> bool" where
  "cellsOverlapRectangle m rc =
     (let indexTop = rect_top rc * width m + rect_left rc;
          indexLeft = indexTop;
          indexBottom = (rect_bottom rc - 1) * width m + rect_left rc;
          indexRight = indexTop + (rect_right rc - rect_left rc - 1)
      in if overlap_rows m rc (nat (rect_bottom rc - rect_top rc)) indexLeft indexRight then True
         else overlap_cols m rc (nat (rect_right rc - rect_left rc)) indexTop indexBottom)"

text \<open>The values \<open>a, a + 1, \<dots>, b - 1\<close> of a counting loop.\<close>

definition int_range :: "int \<Rightarrow> int \<Rightarrow> int list" where
  "int_range a b = map (\<lambda>k. a + int k) [0..<nat (b - a)]"

text \<open>The slots of a rectangle, row by row: the order of two nested loops.\<close>

definition rect_slots :: "int \<Rightarrow> int \<Rightarrow> int \<Rightarrow> int \<Rightarrow> (int \<times> int) list" where
  "rect_slots tp bt lf rt =
     concat (map (\<lambda>row. map (\<lambda>col. (row, col)) (int_range lf rt)) (int_range tp bt))"

text \<open>The variables of the loop of \<open>mergeCells\<close>.\<close>

record merge_state =
  seen :: "int list"
  merged_content :: "node list"
  mergedPos :: "int option"
  mergedCell :: "node option"
  merge_tr :: transaction

fun mergeCells_slots :: "env \<Rightarrow> table_rect \<Rightarrow> (int \<times> int) list \<Rightarrow> merge_state \<Rightarrow> error + merge_state" where
  "mergeCells_slots E r [] ms = Inr ms"
| "mergeCells_slots E r ((row, col) # slots) ms =
     (let cellPos = js_nth (tmap (rmap r)) (row * width (rmap r) + col)
      in ebind (nodeAt_u (table r) cellPos) (\<lambda>cell.
         ebind (nonnull cellPos) (\<lambda>p.
           case cell of
             None \<Rightarrow> mergeCells_slots E r slots ms
           | Some c \<Rightarrow>
               if p \<in> set (seen ms) then mergeCells_slots E r slots ms
               else if mergedPos ms = None then
                 mergeCells_slots E r slots
                   (ms\<lparr>seen := p # seen ms, mergedPos := Some p, mergedCell := Some c\<rparr>)
               else
                 (let mapped = mapping_map E (steps (merge_tr ms)) (p + tableStart r)
                  in mergeCells_slots E r slots
                       (ms\<lparr>seen := p # seen ms,
                           merged_content :=
                             (if \<not> isEmpty c then merged_content ms @ children c
                              else merged_content ms),
                           merge_tr := add_step (merge_tr ms) (Delete mapped (mapped + nodeSize c))\<rparr>)))))"

text \<open>
  The dispatching branch of \<open>mergeCells\<close>. A rectangle with no cell at all returns
  \<open>true\<close> without a dispatch.
\<close>

definition mergeCells_dispatch :: "env \<Rightarrow> editor_state \<Rightarrow> table_rect \<Rightarrow> cmd_result" where
  "mergeCells_dispatch E st r =
     ebind (mergeCells_slots E r
              (rect_slots (rect_top r) (rect_bottom r) (rect_left r) (rect_right r))
              \<lparr>seen = [], merged_content = [], mergedPos = None, mergedCell = None,
               merge_tr = state_tr st\<rparr>) (\<lambda>ms.
       case (mergedPos ms, mergedCell ms) of
         (Some mPos, Some mCell) \<Rightarrow>
           (let a = attrs_of mCell;
                tr1 = add_step (merge_tr ms)
                        (SetNodeMarkup (mPos + tableStart r) None
                           (Some (attrs_obj
                              ((addColSpan a (colspan a) (rect_right r - rect_left r - colspan a))
                                 \<lparr>rowspan := rect_bottom r - rect_top r\<rparr>))));
                end = mPos + 1 + fragSize (children mCell);
                start = (if isEmpty mCell then mPos + 1 else end);
                tr2 = (if fragSize (merged_content ms) \<noteq> 0
                       then add_step tr1
                              (ReplaceWith (start + tableStart r) (end + tableStart r) (merged_content ms))
                       else tr1)
            in ebind (resolve (tr_doc E (doc st) (steps tr2)) (mPos + tableStart r)) (\<lambda>c.
                 Inr (True, Some (tr2\<lparr>tr_selection := Some (SelCell (rp_pos c) None)\<rparr>))))
       | other \<Rightarrow> Inr (True, None))"

text \<open>\<open>mergeCells(state, dispatch)\<close>\<close>

definition mergeCells :: "env \<Rightarrow> editor_state \<Rightarrow> bool \<Rightarrow> cmd_result" where
  "mergeCells E st dispatch =
     (case selection st of
        CellSelection ac hc a h \<Rightarrow>
          (if rp_pos ac = rp_pos hc then Inr (False, None)
           else
             ebind (selectedRect E st) (\<lambda>r.
               if \<not> rectOverOneSection E (rmap r) (rect_of r) then Inr (False, None)
               else if cellsOverlapRectangle (rmap r) (rect_of r) then Inr (False, None)
               else if dispatch then mergeCells_dispatch E st r
               else Inr (True, None)))
      | NodeSelection n a h \<Rightarrow> Inr (False, None)
      | TextSelection a h \<Rightarrow> Inr (False, None))"


text \<open>
  The cell \<open>splitCellWithType\<close> works on, \<open>cellNode\<close> and \<open>cellPos\<close>; \<open>None\<close>
  where the command returns \<open>false\<close> for want of one.
\<close>

definition splitCell_target :: "editor_state \<Rightarrow> error + (node \<times> int) option" where
  "splitCell_target st =
     (case selection st of
        CellSelection ac hc a h \<Rightarrow>
          (if rp_pos ac \<noteq> rp_pos hc then Inr None
           else case nodeAfter ac of None \<Rightarrow> Inr None | Some n \<Rightarrow> Inr (Some (n, rp_pos ac)))
      | other \<Rightarrow>
          (case cellWrapping (sel_from other) of
             None \<Rightarrow> Inr None
           | Some n \<Rightarrow>
               ebind (cellAround (sel_from other)) (\<lambda>c.
                 case c of None \<Rightarrow> Inr None | Some cp \<Rightarrow> Inr (Some (n, rp_pos cp)))))"

text \<open>The array \<open>attrs\<close>: one attribute record per column of the split cell.\<close>

definition split_attrs :: "cell_attrs \<Rightarrow> int \<Rightarrow> cell_attrs list" where
  "split_attrs a n =
     (let b1 = (if rowspan a > 1 then a\<lparr>rowspan := 1\<rparr> else a);
          baseAttrs = (if colspan b1 > 1 then b1\<lparr>colspan := 1\<rparr> else b1)
      in map (\<lambda>i. case colwidth a of
                     None \<Rightarrow> baseAttrs
                   | Some ws \<Rightarrow>
                       baseAttrs\<lparr>colwidth :=
                         (case js_nth ws i of
                            None \<Rightarrow> None
                          | Some w \<Rightarrow> if w \<noteq> 0 then Some [w] else None)\<rparr>)
           (upto_int n))"

text \<open>
  The inner loop over the columns of one row: the transaction and \<open>lastCell\<close>. The type
  chooser \<open>getCellType\<close> gets the node, the row and the column.
\<close>

fun splitCell_cols ::
  "env \<Rightarrow> (node \<Rightarrow> int \<Rightarrow> int \<Rightarrow> node_type option) \<Rightarrow> node \<Rightarrow> table_rect \<Rightarrow> cell_attrs list
    \<Rightarrow> int \<Rightarrow> int \<Rightarrow> int list \<Rightarrow> int \<Rightarrow> transaction \<times> int option
    \<Rightarrow> error + (transaction \<times> int option)" where
  "splitCell_cols E getCellType cellNode r as row pos [] i acc = Inr acc"
| "splitCell_cols E getCellType cellNode r as row pos (col # cols) i acc =
     (if col = rect_left r \<and> row = rect_top r
      then splitCell_cols E getCellType cellNode r as row pos cols (i + 1) acc
      else
        (let lastCell = mapping_map E (steps (fst acc)) (pos + tableStart r)
         in ebind (nonnull (getCellType cellNode row col)) (\<lambda>ty.
              splitCell_cols E getCellType cellNode r as row pos cols (i + 1)
                (case createAndFill E ty (js_nth as i) of
                   None \<Rightarrow> (fst acc, Some lastCell)
                 | Some c \<Rightarrow> (add_step (fst acc) (Insert lastCell c), Some lastCell)))))"

fun splitCell_rows ::
  "env \<Rightarrow> (node \<Rightarrow> int \<Rightarrow> int \<Rightarrow> node_type option) \<Rightarrow> node \<Rightarrow> table_rect \<Rightarrow> cell_attrs list
    \<Rightarrow> int list \<Rightarrow> transaction \<times> int option \<Rightarrow> error + (transaction \<times> int option)" where
  "splitCell_rows E getCellType cellNode r as [] acc = Inr acc"
| "splitCell_rows E getCellType cellNode r as (row # rows) acc =
     ebind (positionAt E (rmap r) row (rect_left r) (table r)) (\<lambda>p.
     ebind (splitCell_cols E getCellType cellNode r as row
              (if row = rect_top r then p + nodeSize cellNode else p)
              (int_range (rect_left r) (rect_right r)) 0 acc) (\<lambda>acc'.
       splitCell_rows E getCellType cellNode r as rows acc'))"

text \<open>The dispatching branch of \<open>splitCellWithType\<close>.\<close>

definition splitCell_dispatch ::
  "env \<Rightarrow> (node \<Rightarrow> int \<Rightarrow> int \<Rightarrow> node_type option) \<Rightarrow> editor_state \<Rightarrow> node \<Rightarrow> int \<Rightarrow> cmd_result" where
  "splitCell_dispatch E getCellType st cellNode cellPos =
     ebind (selectedRect E st) (\<lambda>r.
       (let as = split_attrs (attrs_of cellNode) (rect_right r - rect_left r)
        in ebind (splitCell_rows E getCellType cellNode r as
                    (int_range (rect_top r) (rect_bottom r)) (state_tr st, None)) (\<lambda>acc.
             (let tr1 = add_step (fst acc)
                          (SetNodeMarkup cellPos (getCellType cellNode (rect_top r) (rect_left r))
                             (map_option attrs_obj (js_nth as 0)))
              in case selection st of
                   CellSelection ac hc a h \<Rightarrow>
                     ebind (resolve (tr_doc E (doc st) (steps tr1)) (rp_pos ac)) (\<lambda>c1.
                       case (case snd acc of None \<Rightarrow> None
                             | Some l \<Rightarrow> if l \<noteq> 0 then Some l else None) of
                         None \<Rightarrow> Inr (True, Some (tr1\<lparr>tr_selection := Some (SelCell (rp_pos c1) None)\<rparr>))
                       | Some l \<Rightarrow>
                           ebind (resolve (tr_doc E (doc st) (steps tr1)) l) (\<lambda>c2.
                             Inr (True, Some (tr1\<lparr>tr_selection :=
                                                  Some (SelCell (rp_pos c1) (Some (rp_pos c2)))\<rparr>))))
                 | other \<Rightarrow> Inr (True, Some tr1)))))"

text \<open>\<open>splitCellWithType(getCellType)(state, dispatch)\<close>\<close>

definition splitCellWithType ::
  "env \<Rightarrow> (node \<Rightarrow> int \<Rightarrow> int \<Rightarrow> node_type option) \<Rightarrow> editor_state \<Rightarrow> bool \<Rightarrow> cmd_result" where
  "splitCellWithType E getCellType st dispatch =
     ebind (splitCell_target st) (\<lambda>target.
       case target of
         None \<Rightarrow> Inr (False, None)
       | Some (cellNode, cellPos) \<Rightarrow>
           if colspan (attrs_of cellNode) = 1 \<and> rowspan (attrs_of cellNode) = 1 then Inr (False, None)
           else if dispatch then splitCell_dispatch E getCellType st cellNode cellPos
           else Inr (True, None))"

text \<open>\<open>splitCell(state, dispatch)\<close>: the new cells get the type of the role of the old one.\<close>

definition splitCell :: "env \<Rightarrow> editor_state \<Rightarrow> bool \<Rightarrow> cmd_result" where
  "splitCell E st dispatch =
     splitCellWithType E
       (\<lambda>n row col. case role n of None \<Rightarrow> None | Some rl \<Rightarrow> tableNodeTypes E rl)
       st dispatch"

subsection \<open>Cell attributes and header cells\<close>

text \<open>
  The comparison \<open>===\<close>: values of the primitive kinds are equal when they are the same
  value. An array is equal to itself alone; the array held by a cell is not the object a
  caller passes as \<open>value\<close>, so an array never compares equal here.
\<close>

fun strict_eq :: "jsval \<Rightarrow> jsval \<Rightarrow> bool" where
  "strict_eq (JArr a) v = False"
| "strict_eq v (JArr b) = False"
| "strict_eq u v = (u = v)"

text \<open>\<open>node.attrs[name]\<close>\<close>

definition node_attr :: "node \<Rightarrow> string \<Rightarrow> jsval" where
  "node_attr n name = (case n of Text s \<Rightarrow> JUndefined | Node t a cs \<Rightarrow> attrs_obj a name)"

text \<open>The steps the callback of \<open>forEachCell\<close> queues in \<open>setCellAttr\<close>.\<close>

fun setCellAttr_cells :: "string \<Rightarrow> jsval \<Rightarrow> (node \<times> int) list \<Rightarrow> transaction \<Rightarrow> transaction" where
  "setCellAttr_cells name val [] tr = tr"
| "setCellAttr_cells name val ((n, pos) # cells) tr =
     setCellAttr_cells name val cells
       (if \<not> strict_eq (node_attr n name) val
        then add_step tr (SetNodeMarkup pos None (Some ((attrs_obj (attrs_of n))(name := val))))
        else tr)"

text \<open>\<open>setCellAttr(name, value)(state, dispatch)\<close>\<close>

definition setCellAttr :: "env \<Rightarrow> string \<Rightarrow> jsval \<Rightarrow> editor_state \<Rightarrow> bool \<Rightarrow> cmd_result" where
  "setCellAttr E name val st dispatch =
     (if \<not> isInTable st then Inr (False, None)
      else
        ebind (selectionCell st) (\<lambda>cell.
        ebind (nonnull (nodeAfter cell)) (\<lambda>n.
          if strict_eq (node_attr n name) val then Inr (False, None)
          else if dispatch then
            (if isCellSelection (selection st)
             then Inr (True, Some (setCellAttr_cells name val (forEachCell E (selection st)) (state_tr st)))
             else Inr (True, Some (add_step (state_tr st)
                                     (SetNodeMarkup (rp_pos cell) None
                                        (Some ((attrs_obj (attrs_of n))(name := val)))))))
          else Inr (True, None))))"

datatype toggle_header_type = Column | Row | Cell

text \<open>The nodes \<open>cells.map((pos) => rect.table.nodeAt(pos)!)\<close>.\<close>

fun nodes_at :: "node \<Rightarrow> int list \<Rightarrow> error + node option list" where
  "nodes_at tbl [] = Inr []"
| "nodes_at tbl (pos # cells) =
     ebind (nodeAt tbl pos) (\<lambda>n. ebind (nodes_at tbl cells) (\<lambda>ns. Inr (n # ns)))"

text \<open>The first loop of \<open>deprecated_toggleHeader\<close>: header cells become plain cells.\<close>

fun remove_headers :: "env \<Rightarrow> int \<Rightarrow> (int \<times> node option) list \<Rightarrow> transaction \<Rightarrow> error + transaction" where
  "remove_headers E tStart [] tr = Inr tr"
| "remove_headers E tStart ((pos, n) # cells) tr =
     ebind (nonnull n) (\<lambda>c.
       remove_headers E tStart cells
         (if Some (type_of c) = tableNodeTypes E R_header_cell
          then add_step tr (SetNodeMarkup (tStart + pos) (tableNodeTypes E R_cell)
                              (Some (attrs_obj (attrs_of c))))
          else tr))"

text \<open>The second loop: every cell becomes a header cell.\<close>

fun add_headers :: "env \<Rightarrow> int \<Rightarrow> (int \<times> node option) list \<Rightarrow> transaction \<Rightarrow> error + transaction" where
  "add_headers E tStart [] tr = Inr tr"
| "add_headers E tStart ((pos, n) # cells) tr =
     ebind (nonnull n) (\<lambda>c.
       add_headers E tStart cells
         (add_step tr (SetNodeMarkup (tStart + pos) (tableNodeTypes E R_header_cell)
                         (Some (attrs_obj (attrs_of c))))))"

text \<open>The rectangle \<open>deprecated_toggleHeader\<close> acts on.\<close>

definition toggled_rect :: "toggle_header_type \<Rightarrow> table_rect \<Rightarrow> rect" where
  "toggled_rect type r =
     (case type of
        Column \<Rightarrow> \<lparr>rect_left = rect_left r, rect_top = 0,
                   rect_right = rect_right r, rect_bottom = height (rmap r)\<rparr>
      | Row \<Rightarrow> \<lparr>rect_left = 0, rect_top = rect_top r,
                rect_right = width (rmap r), rect_bottom = rect_bottom r\<rparr>
      | Cell \<Rightarrow> rect_of r)"

text \<open>\<open>deprecated_toggleHeader(type)(state, dispatch)\<close>\<close>

definition deprecated_toggleHeader :: "env \<Rightarrow> toggle_header_type \<Rightarrow> editor_state \<Rightarrow> bool \<Rightarrow> cmd_result" where
  "deprecated_toggleHeader E type st dispatch =
     (if \<not> isInTable st then Inr (False, None)
      else if dispatch then
        ebind (selectedRect E st) (\<lambda>r.
          (let cells = cellsInRect E (rmap r) (toggled_rect type r)
           in ebind (nodes_at (table r) cells) (\<lambda>nodes.
              ebind (remove_headers E (tableStart r) (zip cells nodes) (state_tr st)) (\<lambda>tr1.
                if steps tr1 = [] then
                  ebind (add_headers E (tableStart r) (zip cells nodes) tr1) (\<lambda>tr2.
                    Inr (True, Some tr2))
                else Inr (True, Some tr1)))))
      else Inr (True, None))"

text \<open>\<open>isHeaderEnabledByType(type, rect, types)\<close>, for \<open>type\<close> \<open>row\<close> or \<open>column\<close>.\<close>

fun all_headers :: "env \<Rightarrow> node \<Rightarrow> int list \<Rightarrow> error + bool" where
  "all_headers E tbl [] = Inr True"
| "all_headers E tbl (pos # cells) =
     ebind (nodeAt tbl pos) (\<lambda>n.
       case n of
         None \<Rightarrow> all_headers E tbl cells
       | Some c \<Rightarrow>
           if Some (type_of c) \<noteq> tableNodeTypes E R_header_cell then Inr False
           else all_headers E tbl cells)"

definition isHeaderEnabledByType :: "env \<Rightarrow> toggle_header_type \<Rightarrow> table_rect \<Rightarrow> error + bool" where
  "isHeaderEnabledByType E type r =
     all_headers E (table r)
       (cellsInRect E (rmap r)
          \<lparr>rect_left = 0, rect_top = 0,
           rect_right = (if type = Row then width (rmap r) else 1),
           rect_bottom = (if type = Column then height (rmap r) else 1)\<rparr>)"

text \<open>The \<open>forEach\<close> of \<open>toggleHeader\<close>, which reads each cell from \<open>tr.doc\<close>.\<close>

fun retype_cells ::
  "env \<Rightarrow> node \<Rightarrow> int \<Rightarrow> node_type option \<Rightarrow> int list \<Rightarrow> transaction \<Rightarrow> error + transaction" where
  "retype_cells E d tStart newType [] tr = Inr tr"
| "retype_cells E d tStart newType (rel # cells) tr =
     ebind (nodeAt (tr_doc E d (steps tr)) (rel + tStart)) (\<lambda>n.
       retype_cells E d tStart newType cells
         (case n of
            None \<Rightarrow> tr
          | Some c \<Rightarrow> add_step tr (SetNodeMarkup (rel + tStart) newType (Some (attrs_obj (attrs_of c))))))"

text \<open>\<open>toggleHeader(type, options)(state, dispatch)\<close>\<close>

definition toggleHeader ::
  "env \<Rightarrow> toggle_header_type \<Rightarrow> bool \<Rightarrow> editor_state \<Rightarrow> bool \<Rightarrow> cmd_result" where
  "toggleHeader E type useDeprecatedLogic st dispatch =
     (if useDeprecatedLogic then deprecated_toggleHeader E type st dispatch
      else if \<not> isInTable st then Inr (False, None)
      else if dispatch then
        ebind (selectedRect E st) (\<lambda>r.
        ebind (isHeaderEnabledByType E Row r) (\<lambda>isHeaderRowEnabled.
        ebind (isHeaderEnabledByType E Column r) (\<lambda>isHeaderColumnEnabled.
          (let isHeaderEnabled =
                 (case type of Column \<Rightarrow> isHeaderRowEnabled | Row \<Rightarrow> isHeaderColumnEnabled
                  | Cell \<Rightarrow> False);
               selectionStartsAt = (if isHeaderEnabled then 1 else 0);
               cellsRect =
                 (case type of
                    Column \<Rightarrow> \<lparr>rect_left = 0, rect_top = selectionStartsAt,
                               rect_right = 1, rect_bottom = height (rmap r)\<rparr>
                  | Row \<Rightarrow> \<lparr>rect_left = selectionStartsAt, rect_top = 0,
                            rect_right = width (rmap r), rect_bottom = 1\<rparr>
                  | Cell \<Rightarrow> rect_of r);
               newType =
                 (case type of
                    Column \<Rightarrow> if isHeaderColumnEnabled then tableNodeTypes E R_cell
                               else tableNodeTypes E R_header_cell
                  | Row \<Rightarrow> if isHeaderRowEnabled then tableNodeTypes E R_cell
                            else tableNodeTypes E R_header_cell
                  | Cell \<Rightarrow> tableNodeTypes E R_cell)
           in ebind (retype_cells E (doc st) (tableStart r) newType
                       (cellsInRect E (rmap r) cellsRect) (state_tr st)) (\<lambda>tr.
                Inr (True, Some tr))))))
      else Inr (True, None))"

text \<open>The three exported commands pass \<open>useDeprecatedLogic: true\<close>.\<close>

definition toggleHeaderRow :: "env \<Rightarrow> editor_state \<Rightarrow> bool \<Rightarrow> cmd_result" where
  "toggleHeaderRow E st dispatch = toggleHeader E Row True st dispatch"

definition toggleHeaderColumn :: "env \<Rightarrow> editor_state \<Rightarrow> bool \<Rightarrow> cmd_result" where
  "toggleHeaderColumn E st dispatch = toggleHeader E Column True st dispatch"

definition toggleHeaderCell :: "env \<Rightarrow> editor_state \<Rightarrow> bool \<Rightarrow> cmd_result" where
  "toggleHeaderCell E st dispatch = toggleHeader E Cell True st dispatch"


subsection \<open>Evaluating the loops\<close>

text \<open>The equations of the loops that may not end are their code equations.\<close>

declare addColumn_rows.simps [code]
declare removeColumn_rows.simps [code]
declare deleteColumn_cols.simps [code]
declare addRow_cols.simps [code]
declare removeRow_cols.simps [code]
declare deleteRow_rows.simps [code]

section \<open>Tables whose rows can be addressed\<close>

text \<open>
  What \<open>getRow\<close> needs of a valid table: every section has at least one row (and is
  no leaf, so that it has its two tokens), and the last child of the table is a section.
  Children that are no sections (the caption) may stand anywhere before it.
\<close>

definition valid_section :: "node \<Rightarrow> bool" where
  "valid_section s = (isTableSection s \<and> children s \<noteq> [] \<and> \<not> isLeaf (type_of s))"

definition skipped_child :: "node \<Rightarrow> bool" where
  "skipped_child c = (\<not> isTableSection c \<or> valid_section c)"

definition valid_table :: "node \<Rightarrow> bool" where
  "valid_table tbl =
     (children tbl \<noteq> [] \<and> valid_section (last (children tbl))
      \<and> list_all skipped_child (butlast (children tbl)))"


section \<open>A reference grid map for the examples\<close>

text \<open>
  Modelled from the spec: the grid map builder and the rectangle queries of tablemap.ts
  are not among the sources. The examples below need one implementation of them to run
  a command on a concrete table; this one follows the words of the specification.
\<close>

text \<open>The cells of a row with their offsets: \<open>(offset, colspan, rowspan)\<close>.\<close>

fun row_cells :: "node list \<Rightarrow> int \<Rightarrow> (int \<times> int \<times> int) list" where
  "row_cells [] pos = []"
| "row_cells (c # cs) pos =
     (pos, colspan (attrs_of c), rowspan (attrs_of c)) # row_cells cs (pos + nodeSize c)"

fun section_rows :: "node list \<Rightarrow> int \<Rightarrow> (int \<times> int \<times> int) list list" where
  "section_rows [] pos = []"
| "section_rows (r # rs) pos = row_cells (children r) (pos + 1) # section_rows rs (pos + nodeSize r)"

fun table_rows :: "node list \<Rightarrow> int \<Rightarrow> (int \<times> int \<times> int) list list" where
  "table_rows [] pos = []"
| "table_rows (s # ss) pos =
     (if isTableSection s then section_rows (children s) (pos + 1) else [])
       @ table_rows ss (pos + nodeSize s)"

text \<open>
  Placing the cells of one row: \<open>opn\<close> holds, per column, the row up to which the
  column is claimed; a cell goes to the first column that is free in its row.
\<close>

fun free_col :: "int list \<Rightarrow> int \<Rightarrow> nat \<Rightarrow> nat" where
  "free_col [] row c = c"
| "free_col (u # opn) row c = (if u > row then free_col opn row (Suc c) else c)"

definition claim_cols :: "int list \<Rightarrow> nat \<Rightarrow> nat \<Rightarrow> int \<Rightarrow> int list" where
  "claim_cols opn c n until =
     take c (opn @ replicate (c - length opn) 0) @ replicate n until @ drop (c + n) opn"

fun place_row ::
  "(int \<times> int \<times> int) list \<Rightarrow> int \<Rightarrow> nat \<Rightarrow> int list \<Rightarrow> (int \<times> nat \<times> int \<times> int \<times> int) list
    \<Rightarrow> int list \<times> (int \<times> nat \<times> int \<times> int \<times> int) list" where
  "place_row [] row c opn placed = (opn, placed)"
| "place_row ((off, cs, rs) # cells) row c opn placed =
     (let c' = c + free_col (drop c opn) row 0
      in place_row cells row (c' + nat cs) (claim_cols opn c' (nat cs) (row + rs))
           (placed @ [(row, c', off, cs, rs)]))"

fun place_rows ::
  "(int \<times> int \<times> int) list list \<Rightarrow> int \<Rightarrow> int list \<Rightarrow> (int \<times> nat \<times> int \<times> int \<times> int) list
    \<Rightarrow> int list \<times> (int \<times> nat \<times> int \<times> int \<times> int) list" where
  "place_rows [] row opn placed = (opn, placed)"
| "place_rows (cells # rows) row opn placed =
     (case place_row cells row 0 opn placed of
        (opn', placed') \<Rightarrow> place_rows rows (row + 1) opn' placed')"

definition slot_owner :: "(int \<times> nat \<times> int \<times> int \<times> int) list \<Rightarrow> int \<Rightarrow> int \<Rightarrow> int" where
  "slot_owner placed row col =
     (case find (\<lambda>(r, c, off, cs, rs). r \<le> row \<and> row < r + rs \<and> int c \<le> col \<and> col < int c + cs) placed of
        None \<Rightarrow> 0
      | Some (r, c, off, cs, rs) \<Rightarrow> off)"

definition ref_TableMap_get :: "node \<Rightarrow> error + tablemap" where
  "ref_TableMap_get tbl =
     (if role tbl \<noteq> Some R_table then Inl RangeError
      else
        (let rows = table_rows (children tbl) 0;
             h = int (length rows);
             (opn, placed) = place_rows rows 0 [] [];
             w = int (length opn)
         in Inr \<lparr>width = w, height = h,
                 tmap = concat (map (\<lambda>row. map (\<lambda>col. slot_owner placed row col) (upto_int w)) (upto_int h)),
                 sectionRows = map childCount (filter isTableSection (children tbl))\<rparr>))"

text \<open>The slots that hold an offset, as indices into the map.\<close>

definition slots_of :: "tablemap \<Rightarrow> int \<Rightarrow> int list" where
  "slots_of m pos = filter (\<lambda>i. js_nth (tmap m) i = Some pos) (upto_int (int (length (tmap m))))"

text \<open>
  \<open>findCell\<close>: the rectangle of the slots that hold the offset; an offset that is no
  cell's is an error.
\<close>

definition ref_findCell :: "tablemap \<Rightarrow> int \<Rightarrow> error + rect" where
  "ref_findCell m pos =
     (case slots_of m pos of
        [] \<Rightarrow> Inl RangeError
      | i # rest \<Rightarrow>
          Inr \<lparr>rect_left = i mod width m, rect_top = i div width m,
               rect_right = last (i # rest) mod width m + 1,
               rect_bottom = last (i # rest) div width m + 1\<rparr>)"

text \<open>\<open>rectBetween\<close>: the bounding box of the rectangles of the two cells.\<close>

definition ref_rectBetween :: "tablemap \<Rightarrow> int \<Rightarrow> int \<Rightarrow> error + rect" where
  "ref_rectBetween m a b =
     ebind (ref_findCell m a) (\<lambda>ra.
     ebind (ref_findCell m b) (\<lambda>rb.
       Inr \<lparr>rect_left = min (rect_left ra) (rect_left rb), rect_top = min (rect_top ra) (rect_top rb),
            rect_right = max (rect_right ra) (rect_right rb),
            rect_bottom = max (rect_bottom ra) (rect_bottom rb)\<rparr>))"

text \<open>
  \<open>cellsInRect\<close>: the offsets of the cells whose top-left slot lies in the rectangle,
  each once, row by row.
\<close>

definition ref_cellsInRect :: "tablemap \<Rightarrow> rect \<Rightarrow> int list" where
  "ref_cellsInRect m rc =
     concat (map (\<lambda>(row, col).
                (case js_nth (tmap m) (row * width m + col) of
                   None \<Rightarrow> []
                 | Some pos \<Rightarrow>
                     if slots_of m pos \<noteq> [] \<and> hd (slots_of m pos) = row * width m + col
                     then [pos] else []))
             (rect_slots (rect_top rc) (rect_bottom rc) (rect_left rc) (rect_right rc)))"

text \<open>The section a row belongs to, by the row counts of the sections.\<close>

fun section_of :: "int list \<Rightarrow> int \<Rightarrow> int \<Rightarrow> int" where
  "section_of [] row s = s"
| "section_of (n # rest) row s = (if row < n then s else section_of rest (row - n) (s + 1))"

text \<open>\<open>rectOverOneSection\<close>: all rows of the rectangle belong to the same section.\<close>

definition ref_rectOverOneSection :: "tablemap \<Rightarrow> rect \<Rightarrow> bool" where
  "ref_rectOverOneSection m rc =
     (section_of (sectionRows m) (rect_top rc) 0 = section_of (sectionRows m) (rect_bottom rc - 1) 0)"

text \<open>
  \<open>colCount\<close>: the column of the top-left slot of a cell. \<open>positionAt\<close>: the offset of
  the first cell that starts in the row at or behind the column, and the end of the row's
  content when there is none. The specification names both without describing them.
\<close>

definition ref_colCount :: "tablemap \<Rightarrow> int \<Rightarrow> error + int" where
  "ref_colCount m pos =
     (case slots_of m pos of [] \<Rightarrow> Inl RangeError | i # rest \<Rightarrow> Inr (i mod width m))"

definition ref_positionAt :: "tablemap \<Rightarrow> int \<Rightarrow> int \<Rightarrow> node \<Rightarrow> error + int" where
  "ref_positionAt m row col tbl =
     (let g = getRow tbl row 0
      in case row_node g of
           None \<Rightarrow> Inl RangeError
         | Some rNode \<Rightarrow>
             (case filter (\<lambda>p. row_pos g < p)
                     (concat (map (\<lambda>c. case js_nth (tmap m) (row * width m + c) of
                                          None \<Rightarrow> [] | Some p \<Rightarrow> [p])
                                (int_range col (width m)))) of
                [] \<Rightarrow> Inr (row_pos g + nodeSize rNode - 1)
              | p # rest \<Rightarrow> Inr p))"

text \<open>\<open>isRowLastInSection\<close>: the row is the last row of a section of the table.\<close>

definition ref_isRowLastInSection :: "node \<Rightarrow> int \<Rightarrow> bool" where
  "ref_isRowLastInSection tbl row =
     (0 \<le> row \<and> row + 1 \<in> set (running_sums 0 (map childCount (filter isTableSection (children tbl)))))"

text \<open>
  \<open>forEachCell\<close>: the cells of the rectangle between the two corner cells, with their
  positions in the document.
\<close>

definition ref_forEachCell :: "selection \<Rightarrow> (node \<times> int) list" where
  "ref_forEachCell sel =
     (case sel of
        CellSelection ac hc a h \<Rightarrow>
          (case (rp_node ac (rp_depth ac - 2), rp_start ac (rp_depth ac - 2)) of
             (Some tbl, Inr tStart) \<Rightarrow>
               (case ref_TableMap_get tbl of
                  Inr m \<Rightarrow>
                    (case ref_rectBetween m (rp_pos ac - tStart) (rp_pos hc - tStart) of
                       Inr rc \<Rightarrow>
                         concat (map (\<lambda>p. case nodeAt tbl p of
                                             Inr (Some n) \<Rightarrow> [(n, tStart + p)]
                                           | other \<Rightarrow> [])
                                   (ref_cellsInRect m rc))
                     | Inl e \<Rightarrow> [])
                | Inl e \<Rightarrow> [])
           | other \<Rightarrow> [])
      | other \<Rightarrow> [])"

section \<open>A reference host for the examples\<close>

text \<open>An attribute object with no property besides the three of a cell.\<close>

definition no_others :: "string \<Rightarrow> jsval" where
  "no_others name = JUndefined"



text \<open>
  Node creation, position mapping and the document of a transaction for the examples.
  A cell is filled with one empty paragraph. An insertion moves the positions at and
  behind it, a deletion pulls the positions behind it forward, and a change of markup
  moves nothing.
\<close>

definition ty :: "string \<Rightarrow> table_role option \<Rightarrow> node_type" where
  "ty name rl = \<lparr>type_name = name, tableRole = rl, isTextblock = False, isLeaf = False\<rparr>"

definition ty_paragraph :: node_type where
  "ty_paragraph = \<lparr>type_name = ''paragraph'', tableRole = None, isTextblock = True, isLeaf = False\<rparr>"

definition attrs1 :: cell_attrs where
  "attrs1 = \<lparr>colspan = 1, rowspan = 1, colwidth = None, others = no_others\<rparr>"

definition para :: node where
  "para = Node ty_paragraph attrs1 []"

definition ref_tableNodeTypes :: "table_role \<Rightarrow> node_type option" where
  "ref_tableNodeTypes rl =
     Some (case rl of
             R_table \<Rightarrow> ty ''table'' (Some R_table)
           | R_caption \<Rightarrow> ty ''table_caption'' (Some R_caption)
           | R_head \<Rightarrow> ty ''table_head'' (Some R_head)
           | R_body \<Rightarrow> ty ''table_body'' (Some R_body)
           | R_foot \<Rightarrow> ty ''table_foot'' (Some R_foot)
           | R_row \<Rightarrow> ty ''table_row'' (Some R_row)
           | R_cell \<Rightarrow> ty ''table_cell'' (Some R_cell)
           | R_header_cell \<Rightarrow> ty ''table_header'' (Some R_header_cell))"

definition ref_createAndFill :: "node_type \<Rightarrow> cell_attrs option \<Rightarrow> node option" where
  "ref_createAndFill t a =
     (if tableRole t = Some R_cell \<or> tableRole t = Some R_header_cell
      then Some (Node t (case a of None \<Rightarrow> attrs1 | Some x \<Rightarrow> x) [para])
      else None)"

fun map_step :: "step \<Rightarrow> int \<Rightarrow> int" where
  "map_step (Insert p n) pos = (if pos < p then pos else pos + nodeSize n)"
| "map_step (Delete a b) pos = (if pos \<le> a then pos else if pos \<le> b then a else pos - (b - a))"
| "map_step (SetNodeMarkup p t a) pos = pos"
| "map_step (ReplaceWith a b ns) pos =
     (if pos < a then pos else if pos \<le> b then a + fragSize ns else pos - (b - a) + fragSize ns)"
| "map_step (ReplaceSelectionWith sel n) pos = pos"

definition ref_mapping_map :: "step list \<Rightarrow> int \<Rightarrow> int" where
  "ref_mapping_map ss pos = fold map_step ss pos"

text \<open>
  The document after the steps, for the steps whose range lies between whole nodes of
  one parent: the range is taken out and the new nodes are put in. How a range that cuts
  into a node is fitted is the host's; the reference host leaves such a range as it is,
  and no example reaches one.
\<close>

fun drop_covered :: "node list \<Rightarrow> int \<Rightarrow> node list" where
  "drop_covered [] to = []"
| "drop_covered (c # cs) to =
     (if nodeSize c \<le> to then drop_covered cs (to - nodeSize c) else c # cs)"

fun splice_frag :: "node list \<Rightarrow> int \<Rightarrow> int \<Rightarrow> node list \<Rightarrow> node list" where
  "splice_frag [] from to new = new"
| "splice_frag (c # cs) from to new =
     (if from \<le> 0 then new @ drop_covered (c # cs) to
      else if from < nodeSize c then
        (case c of
           Text s \<Rightarrow> c # cs
         | Node t a ks \<Rightarrow> Node t a (splice_frag ks (from - 1) (to - 1) new) # cs)
      else c # splice_frag cs (from - nodeSize c) (to - nodeSize c) new)"

text \<open>The typed attributes of an attribute object.\<close>

definition attrs_of_obj :: "(string \<Rightarrow> jsval) \<Rightarrow> cell_attrs" where
  "attrs_of_obj obj =
     \<lparr>colspan = (case obj ''colspan'' of JNum n \<Rightarrow> n | other \<Rightarrow> 1),
      rowspan = (case obj ''rowspan'' of JNum n \<Rightarrow> n | other \<Rightarrow> 1),
      colwidth = (case obj ''colwidth'' of JArr ws \<Rightarrow> Some ws | other \<Rightarrow> None),
      others = obj\<rparr>"

fun retype_frag ::
  "node list \<Rightarrow> int \<Rightarrow> node_type option \<Rightarrow> (string \<Rightarrow> jsval) option \<Rightarrow> node list" where
  "retype_frag [] pos t a = []"
| "retype_frag (c # cs) pos t a =
     (if pos < 0 then c # cs
      else if pos = 0 then
        (case c of
           Text s \<Rightarrow> c # cs
         | Node t0 a0 ks \<Rightarrow>
             Node (case t of None \<Rightarrow> t0 | Some t1 \<Rightarrow> t1)
                  (case a of None \<Rightarrow> a0 | Some obj \<Rightarrow> attrs_of_obj obj) ks # cs)
      else if pos < nodeSize c then
        (case c of
           Text s \<Rightarrow> c # cs
         | Node t0 a0 ks \<Rightarrow> Node t0 a0 (retype_frag ks (pos - 1) t a) # cs)
      else c # retype_frag cs (pos - nodeSize c) t a)"

fun apply_step :: "step \<Rightarrow> node \<Rightarrow> node" where
  "apply_step (Insert p n) d = node_copy d (splice_frag (children d) p p [n])"
| "apply_step (Delete a b) d = node_copy d (splice_frag (children d) a b [])"
| "apply_step (SetNodeMarkup p t a) d = node_copy d (retype_frag (children d) p t a)"
| "apply_step (ReplaceWith a b ns) d = node_copy d (splice_frag (children d) a b ns)"
| "apply_step (ReplaceSelectionWith sel n) d =
     (case sel of
        Some (SelNode p) \<Rightarrow>
          (case nodeAt d p of
             Inr (Some old) \<Rightarrow> node_copy d (splice_frag (children d) p (p + nodeSize old) [n])
           | other \<Rightarrow> d)
      | other \<Rightarrow> d)"

definition ref_tr_doc :: "node \<Rightarrow> step list \<Rightarrow> node" where
  "ref_tr_doc d ss = fold apply_step ss d"

definition ref_env :: env where
  "ref_env =
     \<lparr>tableNodeTypes = ref_tableNodeTypes,
      TableMap_get = ref_TableMap_get,
      findCell = ref_findCell,
      rectBetween = ref_rectBetween,
      cellsInRect = ref_cellsInRect,
      rectOverOneSection = ref_rectOverOneSection,
      positionAt = ref_positionAt,
      colCount = ref_colCount,
      forEachCell = ref_forEachCell,
      isRowLastInSection = ref_isRowLastInSection,
      createAndFill = ref_createAndFill,
      defaultAttrs = (\<lambda>t. attrs1),
      mapping_map = ref_mapping_map,
      tr_doc = ref_tr_doc\<rparr>"

section \<open>Example tables and editor states\<close>

definition td :: node where
  "td = Node (ty ''table_cell'' (Some R_cell)) attrs1 [para]"

definition th :: node where
  "th = Node (ty ''table_header'' (Some R_header_cell)) attrs1 [para]"

definition trow :: "node list \<Rightarrow> node" where
  "trow cells = Node (ty ''table_row'' (Some R_row)) attrs1 cells"

definition tbody :: "node list \<Rightarrow> node" where
  "tbody rows = Node (ty ''table_body'' (Some R_body)) attrs1 rows"

definition ttable :: "node list \<Rightarrow> node" where
  "ttable sections = Node (ty ''table'' (Some R_table)) attrs1 sections"

definition doc_of :: "node \<Rightarrow> node" where
  "doc_of tbl = Node (ty ''doc'' None) attrs1 [tbl]"

text \<open>A body of two rows and two columns; the cells stand at offsets 2, 6, 12 and 16.\<close>

definition table_2x2 :: node where
  "table_2x2 = ttable [tbody [trow [td, td], trow [td, td]]]"

text \<open>The same with a first column of header cells.\<close>

definition table_hcol :: node where
  "table_hcol = ttable [tbody [trow [th, td], trow [th, td]]]"

text \<open>The same with a first row of a header cell and a plain cell.\<close>

definition table_hmix :: node where
  "table_hmix = ttable [tbody [trow [th, td], trow [td, td]]]"

text \<open>Two bodies of one row and one column each; the cells stand at offsets 2 and 10.\<close>

definition table_2sec :: node where
  "table_2sec = ttable [tbody [trow [td]], tbody [trow [td]]]"

text \<open>The position \<open>pos\<close> of a document, resolved.\<close>

definition pos_at :: "node \<Rightarrow> int \<Rightarrow> resolved_pos" where
  "pos_at d pos = \<lparr>rp_pos = pos, rp_path = resolve_walk d (children d) 0 0 pos\<rparr>"

text \<open>A cursor in the paragraph of the cell at offset \<open>cell\<close> of the table of the document.\<close>

definition cursor_in :: "node \<Rightarrow> int \<Rightarrow> editor_state" where
  "cursor_in tbl cell =
     \<lparr>doc = doc_of tbl,
      selection = TextSelection (pos_at (doc_of tbl) (1 + cell + 2)) (pos_at (doc_of tbl) (1 + cell + 2))\<rparr>"

text \<open>
  A cell selection from the cell at offset \<open>a\<close> to the cell at offset \<open>h\<close>; its
  \<open>$anchor\<close> and \<open>$head\<close> are the start and the end of the content of the head cell.
\<close>

definition cells_selected :: "node \<Rightarrow> int \<Rightarrow> int \<Rightarrow> editor_state" where
  "cells_selected tbl a h =
     \<lparr>doc = doc_of tbl,
      selection = CellSelection (pos_at (doc_of tbl) (1 + a)) (pos_at (doc_of tbl) (1 + h))
                    (pos_at (doc_of tbl) (1 + h + 1)) (pos_at (doc_of tbl) (1 + h + 3))\<rparr>"


text \<open>Attribute records for the column-span helpers.\<close>

definition attrs_w100 :: cell_attrs where
  "attrs_w100 = \<lparr>colspan = 1, rowspan = 1, colwidth = Some [100], others = no_others\<rparr>"

definition attrs_w00 :: cell_attrs where
  "attrs_w00 = \<lparr>colspan = 2, rowspan = 1, colwidth = Some [0, 0], others = no_others\<rparr>"


section \<open>Notions the properties are stated with\<close>

text \<open>The position is one of the document: resolving its number in the document gives it.\<close>

definition resolved_in :: "node \<Rightarrow> resolved_pos \<Rightarrow> bool" where
  "resolved_in d rp = (resolve d (rp_pos rp) = Inr rp)"

text \<open>
  The cell \<open>splitCellWithType\<close> works on: the node behind \<open>$anchorCell\<close> for a cell
  selection of one cell, and else the cell that wraps \<open>$from\<close>.
\<close>

definition split_target_cell :: "editor_state \<Rightarrow> node option" where
  "split_target_cell st =
     (case selection st of
        CellSelection ac hc a h \<Rightarrow> (if rp_pos ac \<noteq> rp_pos hc then None else nodeAfter ac)
      | other \<Rightarrow> cellWrapping (sel_from other))"

text \<open>
  The cells \<open>setCellAttr\<close> looks at when it applies: those of a cell selection, and
  else the one cell \<open>selectionCell\<close> found.
\<close>

definition setCellAttr_targets :: "env \<Rightarrow> editor_state \<Rightarrow> resolved_pos \<Rightarrow> node \<Rightarrow> (node \<times> int) list" where
  "setCellAttr_targets E st cell n =
     (if isCellSelection (selection st) then forEachCell E (selection st) else [(n, rp_pos cell)])"

text \<open>The step that writes \<open>value\<close> to the attribute \<open>name\<close> of a cell.\<close>

definition set_attr_step :: "string \<Rightarrow> jsval \<Rightarrow> node \<times> int \<Rightarrow> step" where
  "set_attr_step name val c =
     SetNodeMarkup (snd c) None (Some ((attrs_obj (attrs_of (fst c)))(name := val)))"

text \<open>A cell with a green background, and rows of it and a plain cell.\<close>

definition td_green :: node where
  "td_green =
     Node (ty ''table_cell'' (Some R_cell))
       (attrs1\<lparr>others := no_others(''background'' := JStr ''#dfd'')\<rparr>) [para]"

definition table_plain_green :: node where
  "table_plain_green = ttable [tbody [trow [td, td_green]]]"

definition table_green_plain :: node where
  "table_green_plain = ttable [tbody [trow [td_green, td]]]"

text \<open>
  What \<open>deprecated_toggleHeader\<close> queues for the cells of its rectangle, each with its
  node: the header cells among them become plain cells, and when there is none, every
  cell becomes a header cell.
\<close>

definition demote_step :: "env \<Rightarrow> int \<Rightarrow> int \<times> node \<Rightarrow> step" where
  "demote_step E tStart c =
     SetNodeMarkup (tStart + fst c) (tableNodeTypes E R_cell) (Some (attrs_obj (attrs_of (snd c))))"

definition promote_step :: "env \<Rightarrow> int \<Rightarrow> int \<times> node \<Rightarrow> step" where
  "promote_step E tStart c =
     SetNodeMarkup (tStart + fst c) (tableNodeTypes E R_header_cell) (Some (attrs_obj (attrs_of (snd c))))"

definition is_header :: "env \<Rightarrow> int \<times> node \<Rightarrow> bool" where
  "is_header E c = (Some (type_of (snd c)) = tableNodeTypes E R_header_cell)"

definition legacy_toggle_steps :: "env \<Rightarrow> int \<Rightarrow> (int \<times> node) list \<Rightarrow> step list" where
  "legacy_toggle_steps E tStart cells =
     (if filter (is_header E) cells = [] then map (promote_step E tStart) cells
      else map (demote_step E tStart) (filter (is_header E) cells))"

text \<open>The position and the new type of a step that changes the markup of a node.\<close>

definition markup_of :: "step \<Rightarrow> (int \<times> node_type option) option" where
  "markup_of s = (case s of SetNodeMarkup p t a \<Rightarrow> Some (p, t) | other \<Rightarrow> None)"





text \<open>
  The rectangle of a cursor in the first cell of the table with a first column of header
  cells, with the grid map of that table, and an empty transaction.
\<close>

definition rect_hcol :: table_rect where
  "rect_hcol =
     \<lparr>rect_left = 0, rect_top = 0, rect_right = 1, rect_bottom = 1, tableStart = 1,
      rmap = \<lparr>width = 2, height = 2, tmap = [2, 6, 12, 16], sectionRows = [2]\<rparr>,
      table = table_hcol\<rparr>"

definition empty_tr :: transaction where
  "empty_tr = \<lparr>steps = [], tr_selection = None\<rparr>"

text \<open>
  Every slot of the grid map holds the offset of a node of the table with a positive
  \<open>colspan\<close>, and the map has \<open>width * height\<close> slots.
\<close>

definition cell_present :: "node \<Rightarrow> int \<Rightarrow> bool" where
  "cell_present tbl p =
     (case nodeAt tbl p of Inr (Some cell) \<Rightarrow> colspan (attrs_of cell) \<ge> 1 | other \<Rightarrow> False)"

definition cells_present :: "table_rect \<Rightarrow> bool" where
  "cells_present r =
     (int (length (tmap (rmap r))) = width (rmap r) * height (rmap r)
      \<and> list_all (cell_present (table r)) (tmap (rmap r)))"

text \<open>
  The position, from the start of the document, of the closing boundary of child \<open>k\<close> of
  the table, which is the end of the content of that child, and the position of the start
  of its content.
\<close>

definition section_end :: "table_rect \<Rightarrow> nat \<Rightarrow> int" where
  "section_end r k = tableStart r + fragSize (take (Suc k) (children (table r))) - 1"

definition section_start :: "table_rect \<Rightarrow> nat \<Rightarrow> int" where
  "section_start r k = tableStart r + fragSize (take k (children (table r))) + 1"

text \<open>
  The rectangles of a cursor in the cell of the first and of the second section of the
  table with two sections, with the grid map of that table.
\<close>

definition rect_2sec_first :: table_rect where
  "rect_2sec_first =
     \<lparr>rect_left = 0, rect_top = 0, rect_right = 1, rect_bottom = 1, tableStart = 1,
      rmap = \<lparr>width = 1, height = 2, tmap = [2, 10], sectionRows = [1, 1]\<rparr>,
      table = table_2sec\<rparr>"

definition rect_2sec_second :: table_rect where
  "rect_2sec_second =
     \<lparr>rect_left = 0, rect_top = 1, rect_right = 1, rect_bottom = 2, tableStart = 1,
      rmap = \<lparr>width = 1, height = 2, tmap = [2, 10], sectionRows = [1, 1]\<rparr>,
      table = table_2sec\<rparr>"

text \<open>The offset the grid map holds in the slot of a row and a column.\<close>

definition slot_at :: "tablemap \<Rightarrow> int \<Rightarrow> int \<Rightarrow> int option" where
  "slot_at m row col = js_nth (tmap m) (row * width m + col)"

definition in_rect :: "rect \<Rightarrow> int \<Rightarrow> int \<Rightarrow> bool" where
  "in_rect rc row col =
     (rect_top rc \<le> row \<and> row < rect_bottom rc \<and> rect_left rc \<le> col \<and> col < rect_right rc)"

text \<open>
  The invariant of a rectangle of the grid in the data model:
  \<open>0 \<le> left < right \<le> width\<close> and \<open>0 \<le> top < bottom \<le> height\<close>.
\<close>

definition rect_in_grid :: "tablemap \<Rightarrow> rect \<Rightarrow> bool" where
  "rect_in_grid m rc =
     (0 \<le> rect_left rc \<and> rect_left rc < rect_right rc \<and> rect_right rc \<le> width m
      \<and> 0 \<le> rect_top rc \<and> rect_top rc < rect_bottom rc \<and> rect_bottom rc \<le> height m)"

text \<open>
  Grid rectangularity in the data model: the map has \<open>width * height\<close> entries, and the
  slots that hold one offset form a rectangle, that is, with two slots that hold it every
  slot of the box between them holds it.
\<close>

definition grid_rectangular :: "tablemap \<Rightarrow> bool" where
  "grid_rectangular m =
     (int (length (tmap m)) = width m * height m
      \<and> (\<forall>row1\<in>set (int_range 0 (height m)). \<forall>col1\<in>set (int_range 0 (width m)).
          \<forall>row2\<in>set (int_range 0 (height m)). \<forall>col2\<in>set (int_range 0 (width m)).
            slot_at m row1 col1 = slot_at m row2 col2 \<longrightarrow>
            (\<forall>row\<in>set (int_range (min row1 row2) (max row1 row2 + 1)).
             \<forall>col\<in>set (int_range (min col1 col2) (max col1 col2 + 1)).
               slot_at m row col = slot_at m row1 col1)))"

text \<open>
  Following the words of the specification, not the code: a cell straddles the boundary
  of the rectangle, partially inside and partially outside. A slot inside the rectangle
  and a slot of the grid outside it hold the same offset.
\<close>

definition spec_cell_straddles :: "tablemap \<Rightarrow> rect \<Rightarrow> bool" where
  "spec_cell_straddles m rc =
     (\<exists>row\<in>set (int_range (rect_top rc) (rect_bottom rc)).
      \<exists>col\<in>set (int_range (rect_left rc) (rect_right rc)).
      \<exists>row'\<in>set (int_range 0 (height m)). \<exists>col'\<in>set (int_range 0 (width m)).
        \<not> in_rect rc row' col' \<and> slot_at m row col = slot_at m row' col')"

text \<open>
  A body of three rows and two columns whose first cell spans two rows; the cells stand at
  offsets 2, 6, 12, 18 and 22, and the grid map is \<open>[2, 6, 2, 12, 18, 22]\<close>.
\<close>

definition td_rowspan2 :: node where
  "td_rowspan2 = Node (ty ''table_cell'' (Some R_cell)) (attrs1\<lparr>rowspan := 2\<rparr>) [para]"

definition table_span :: node where
  "table_span = ttable [tbody [trow [td_rowspan2, td], trow [td], trow [td, td]]]"

section \<open>Unfolding the examples\<close>

lemmas ex_defs = table_2x2_def table_hcol_def table_hmix_def table_2sec_def ttable_def tbody_def trow_def
  td_def th_def para_def ty_def ty_paragraph_def attrs1_def doc_of_def pos_at_def cursor_in_def
  cells_selected_def

lemmas ref_defs = ref_env_def ref_TableMap_get_def ref_findCell_def ref_rectBetween_def
  ref_cellsInRect_def ref_rectOverOneSection_def ref_positionAt_def ref_colCount_def
  ref_forEachCell_def ref_isRowLastInSection_def ref_createAndFill_def ref_mapping_map_def
  ref_tr_doc_def ref_tableNodeTypes_def slots_of_def claim_cols_def slot_owner_def upto_int_def
  int_range_def rect_slots_def

section \<open>Properties of the column-span helpers\<close>

lemma js_splice_insert:
  "0 \<le> pos \<Longrightarrow> pos \<le> int (length ws) \<Longrightarrow>
   js_splice ws pos 0 items = take (nat pos) ws @ items @ drop (nat pos) ws"
  by (simp add: js_splice_def Let_def min_def max_def)

lemma splice_zeros_in_range:
  "0 \<le> pos \<Longrightarrow> pos \<le> int (length ws) \<Longrightarrow>
   splice_zeros ws pos k = take (nat pos) ws @ replicate k 0 @ drop (nat pos) ws"
proof (induction k arbitrary: ws)
  case 0
  then show ?case by simp
next
  case (Suc k)
  let ?ws' = "take (nat pos) ws @ [0] @ drop (nat pos) ws"
  have len: "pos \<le> int (length ?ws')" using Suc.prems by simp
  have tk: "take (nat pos) ?ws' = take (nat pos) ws" using Suc.prems by simp
  have dr: "drop (nat pos) ?ws' = 0 # drop (nat pos) ws" using Suc.prems by simp
  have "splice_zeros ws pos (Suc k) = splice_zeros ?ws' pos k"
    using Suc.prems by (simp add: js_splice_insert)
  also have "\<dots> = take (nat pos) ?ws' @ replicate k 0 @ drop (nat pos) ?ws'"
    using Suc.IH [OF Suc.prems(1) len] .
  also have "\<dots> = take (nat pos) ws @ replicate (Suc k) 0 @ drop (nat pos) ws"
    unfolding tk dr by (simp add: replicate_app_Cons_same)
  finally show ?case .
qed

lemma js_splice_remove_inserted:
  assumes "0 \<le> pos" "pos \<le> int (length ws)"
  shows "js_splice (take (nat pos) ws @ replicate k x @ drop (nat pos) ws) pos (int k) [] = ws"
proof -
  let ?p = "nat pos"
  let ?xs = "take ?p ws @ replicate k x @ drop ?p ws"
  have p: "?p \<le> length ws" "int ?p = pos" using assms by auto
  have len: "int (length ?xs) = int (length ws) + int k" using p by simp
  have start: "(if pos < 0 then max (int (length ?xs) + pos) 0 else min pos (int (length ?xs))) = pos"
    using assms len by (simp add: min_def)
  have del: "min (max (int k) 0) (int (length ?xs) - pos) = int k"
    using assms len by (simp add: min_def)
  have tk: "take ?p ?xs = take ?p ws" using p by simp
  have "nat (pos + int k) = ?p + k" using assms by (simp add: nat_add_distrib)
  then have dr: "drop (nat (pos + int k)) ?xs = drop ?p ws" using p by simp
  show ?thesis
    unfolding js_splice_def Let_def start del tk dr by simp
qed

lemma js_splice_nothing:
  "n \<le> 0 \<Longrightarrow> js_splice ws pos n [] = ws"
  by (simp add: js_splice_def Let_def)

lemma colwidth_roundtrip:
  assumes "0 \<le> pos" "pos \<le> int (length ws)"
  shows "js_splice (splice_zeros ws pos (nat n)) pos n [] = ws"
proof (cases "n \<le> 0")
  case True
  then show ?thesis by (simp add: js_splice_nothing)
next
  case False
  then have "int (nat n) = n" by simp
  then show ?thesis
    using js_splice_remove_inserted [OF assms, of "nat n" 0]
    by (simp add: splice_zeros_in_range [OF assms])
qed

text \<open>
  C9 (amended). For every attribute record whose \<open>colwidth\<close> is \<open>null\<close>, or contains a
  positive entry while \<open>0 \<le> pos \<le> colwidth.length\<close>, and for every count \<open>n\<close>,
  \<open>removeColSpan(addColSpan(attrs, pos, n), pos, n)\<close> is \<open>attrs\<close>; and
  \<open>removeColSpan\<close> sets \<open>colwidth\<close> to \<open>null\<close> whenever no positive width remains
  after the removal.
\<close>

theorem removeColSpan_addColSpan:
  "(colwidth attrs = None \<or>
     (\<exists>ws. colwidth attrs = Some ws \<and> some_positive ws \<and> 0 \<le> pos \<and> pos \<le> int (length ws))
    \<longrightarrow> removeColSpan (addColSpan attrs pos n) pos n = attrs)
   \<and> (\<forall>ws. colwidth a = Some ws \<and> \<not> some_positive (js_splice ws p m [])
          \<longrightarrow> colwidth (removeColSpan a p m) = None)"
proof (intro conjI impI allI)
  assume h: "colwidth attrs = None \<or>
     (\<exists>ws. colwidth attrs = Some ws \<and> some_positive ws \<and> 0 \<le> pos \<and> pos \<le> int (length ws))"
  show "removeColSpan (addColSpan attrs pos n) pos n = attrs"
  proof (cases "colwidth attrs")
    case None
    then show ?thesis by (simp add: removeColSpan_def addColSpan_def)
  next
    case (Some ws)
    with h have "some_positive ws" "0 \<le> pos" "pos \<le> int (length ws)" by auto
    then show ?thesis
      using Some by (simp add: removeColSpan_def addColSpan_def colwidth_roundtrip)
  qed
next
  fix ws
  assume "colwidth a = Some ws \<and> \<not> some_positive (js_splice ws p m [])"
  then show "colwidth (removeColSpan a p m) = None"
    by (simp add: removeColSpan_def)
qed

theorem removeColSpan_addColSpan_witness:
  "removeColSpan (addColSpan attrs_w100 1 1) 1 1 = attrs_w100
   \<and> colwidth (removeColSpan attrs_w00 0 1) = None"
proof -
  have a: "colwidth attrs_w100 = Some [100]" "some_positive [100]"
    by (simp_all add: attrs_w100_def some_positive_def)
  have b: "colwidth attrs_w00 = Some [0, 0]" "\<not> some_positive (js_splice [0, 0] 0 1 [])"
    by (simp_all add: attrs_w00_def some_positive_def js_splice_def)
  show ?thesis
    using removeColSpan_addColSpan [of attrs_w100 1 1 attrs_w00 0 1] a b by simp
qed

text \<open>
  C9 as stated fails for a position beyond the end of \<open>colwidth\<close>: \<open>splice\<close> appends
  the zero at the end, and the removal at position 2 of \<open>[100, 0]\<close> finds nothing to
  remove.
\<close>

theorem removeColSpan_addColSpan_counterexample:
  "colwidth attrs_w100 = Some [100] \<and> some_positive [100]
   \<and> removeColSpan (addColSpan attrs_w100 2 1) 2 1 \<noteq> attrs_w100"
proof -
  have "colwidth (removeColSpan (addColSpan attrs_w100 2 1) 2 1) = Some [100, 0]"
    by (simp add: attrs_w100_def removeColSpan_def addColSpan_def js_splice_def some_positive_def)
  moreover have "colwidth attrs_w100 = Some [100]" by (simp add: attrs_w100_def)
  ultimately show ?thesis by (auto simp: some_positive_def)
qed

section \<open>Properties of row addressing\<close>

lemma nodeSize_section: "\<not> isLeaf (type_of s) \<Longrightarrow> nodeSize s = 2 + fragSize (children s)"
  by (cases s) (simp_all add: fragSize_def text_type_def)

lemma fragSize_Cons: "fragSize (c # cs) = nodeSize c + fragSize cs"
  by (simp add: fragSize_def)

lemma rowsCount_from_acc: "rowsCount_from cs n = n + rowsCount_from cs 0"
proof (induction cs arbitrary: n)
  case Nil
  then show ?case by simp
next
  case (Cons c cs)
  show ?case
    using Cons.IH [of "n + childCount c"] Cons.IH [of "childCount c"] Cons.IH [of n]
    by simp
qed

lemma rowsCount_from_nonneg: "0 \<le> rowsCount_from cs 0"
proof (induction cs)
  case Nil
  then show ?case by simp
next
  case (Cons c cs)
  have "0 \<le> childCount c" by (simp add: childCount_def)
  then show ?case
    using Cons rowsCount_from_acc [of cs "childCount c"] by simp
qed

lemma rowsCount_from_append:
  "rowsCount_from (xs @ ys) 0 = rowsCount_from xs 0 + rowsCount_from ys 0"
proof (induction xs)
  case Nil
  then show ?case by simp
next
  case (Cons c xs)
  then show ?case
    using rowsCount_from_acc [of "xs @ ys" "childCount c"] rowsCount_from_acc [of xs "childCount c"]
    by simp
qed

text \<open>
  The loop of \<open>getRow\<close> passes every child before the section it looks for: it adds
  the size of each to \<open>rPos\<close> and the rows of each section to \<open>prevSectionsRows\<close>.
\<close>

lemma getRow_from_skip:
  assumes "list_all skipped_child pre" "rest \<noteq> []"
    and "prev + rowsCount_from pre 0 \<le> row"
  shows "getRow_from (pre @ rest) row rPos prev si =
         getRow_from rest row (rPos + fragSize pre) (prev + rowsCount_from pre 0)
           (si + int (length (filter isTableSection pre)))"
  using assms
proof (induction pre arbitrary: rPos prev si)
  case Nil
  then show ?case by (simp add: fragSize_def)
next
  case (Cons c pre)
  have all: "list_all skipped_child pre" using Cons.prems(1) by simp
  show ?case
  proof (cases "isTableSection c")
    case False
    have le: "prev + rowsCount_from pre 0 \<le> row" using Cons.prems(3) False by simp
    show ?thesis
      using False Cons.IH [OF all Cons.prems(2) le, of "rPos + nodeSize c" si]
      by (simp add: fragSize_Cons add.assoc)
  next
    case True
    then have v: "valid_section c" using Cons.prems(1) by (simp add: skipped_child_def)
    then have pos: "childCount c > 0" by (simp add: valid_section_def childCount_def)
    have rc: "rowsCount_from (c # pre) 0 = childCount c + rowsCount_from pre 0"
      using True rowsCount_from_acc [of pre "childCount c"] by simp
    have le1: "prev + childCount c \<le> row"
      using Cons.prems(3) rc rowsCount_from_nonneg [of pre] by simp
    have le2: "(prev + childCount c) + rowsCount_from pre 0 \<le> row"
      using Cons.prems(3) rc by simp
    show ?thesis
      using True pos le1 Cons.prems(2) rc
        Cons.IH [OF all Cons.prems(2) le2, of "rPos + nodeSize c" "si + 1"]
      by (simp add: fragSize_Cons Let_def add.assoc)
  qed
qed

lemma getRow_last_section:
  assumes "children tbl = pre @ [s]" "list_all skipped_child pre" "valid_section s"
  shows "getRow tbl (rowsCount tbl) offset =
           \<lparr>row_node = None,
            row_pos = offset + fragSize pre + 1 + fragSize (children s),
            row_section = int (length (filter isTableSection (children tbl))) - 1\<rparr>"
proof -
  have sec: "isTableSection s" "childCount s > 0" "nodeSize s = 2 + fragSize (children s)"
    using assms(3) by (simp_all add: valid_section_def childCount_def nodeSize_section)
  have rc: "rowsCount tbl = rowsCount_from pre 0 + childCount s"
    using assms(1) sec(1) by (simp add: rowsCount_def rowsCount_from_append)
  let ?row = "rowsCount_from pre 0 + childCount s"
  have "getRow tbl (rowsCount tbl) offset = getRow_from (pre @ [s]) ?row offset 0 (- 1)"
    using assms(1) by (simp add: getRow_def rc)
  also have "\<dots> = getRow_from [s] ?row (offset + fragSize pre) (0 + rowsCount_from pre 0)
          (- 1 + int (length (filter isTableSection pre)))"
    using sec(2) by (intro getRow_from_skip [OF assms(2)]) simp_all
  also have "\<dots> = \<lparr>row_node = None,
            row_pos = offset + fragSize pre + 1 + fragSize (children s),
            row_section = int (length (filter isTableSection (children tbl))) - 1\<rparr>"
    using sec assms(1) by (simp add: Let_def)
  finally show ?thesis .
qed

text \<open>
  C7. For every valid table, \<open>getRow\<close> at the total row count returns no node and the
  position behind the last row of the last section: behind everything before that
  section, its opening token and all its rows.
\<close>

theorem getRow_at_rowsCount:
  assumes "valid_table tbl"
  shows "getRow tbl (rowsCount tbl) offset =
           \<lparr>row_node = None,
            row_pos = offset + fragSize (butlast (children tbl)) + 1
                        + fragSize (children (last (children tbl))),
            row_section = int (length (filter isTableSection (children tbl))) - 1\<rparr>"
proof -
  have "children tbl = butlast (children tbl) @ [last (children tbl)]"
    using assms by (simp add: valid_table_def)
  then show ?thesis
    using assms getRow_last_section [of tbl "butlast (children tbl)" "last (children tbl)" offset]
    by (simp add: valid_table_def)
qed

theorem getRow_at_rowsCount_witness:
  "valid_table table_2x2 \<and> rowsCount table_2x2 = 2
   \<and> getRow table_2x2 2 1 = \<lparr>row_node = None, row_pos = 22, row_section = 0\<rparr>"
proof -
  have v: "valid_table table_2x2"
    by (simp add: valid_table_def valid_section_def skipped_child_def isTableSection_def role_def ex_defs)
  have n: "rowsCount table_2x2 = 2"
    by (simp add: rowsCount_def isTableSection_def role_def childCount_def ex_defs)
  have a: "fragSize (butlast (children table_2x2)) = 0"
    "fragSize (children (last (children table_2x2))) = 20"
    "int (length (filter isTableSection (children table_2x2))) = 1"
    by (simp_all add: fragSize_def isTableSection_def role_def ex_defs)
  show ?thesis
    using getRow_at_rowsCount [OF v, of 1] v unfolding n a by simp
qed

section \<open>Properties of the commands\<close>

lemma ebind_Inr [simp]: "ebind (Inr v) f = f v"
  by (simp add: ebind_def)

lemma ebind_Inl [simp]: "ebind (Inl e) f = Inl e"
  by (simp add: ebind_def)

lemma mergeCells_dispatch_true:
  "mergeCells_dispatch E st r = Inr (b, out) \<Longrightarrow> b"
  by (auto simp: mergeCells_dispatch_def ebind_def Let_def
      split: sum.splits option.splits prod.splits if_splits)

text \<open>
  With the callback, \<open>deleteColumn\<close> refuses a rectangle over all columns and
  \<open>deleteRow\<close> one over all rows, and nothing is dispatched.
\<close>

lemma deleteColumn_all_columns_dispatch:
  assumes "isInTable st" "selectedRect E st = Inr r"
    and "rect_left r = 0" "rect_right r = width (rmap r)"
  shows "deleteColumn E st True = Some (Inr (False, None))"
  using assms by (simp add: deleteColumn_def)

lemma deleteRow_all_rows_dispatch:
  assumes "isInTable st" "selectedRect E st = Inr r"
    and "rect_top r = 0" "rect_bottom r = height (rmap r)"
  shows "deleteRow E st True = Some (Inr (False, None))"
  using assms by (simp add: deleteRow_def)

text \<open>Without the callback, both return \<open>true\<close> for every selection in a table.\<close>

lemma deleteColumn_without_dispatch:
  "isInTable st \<Longrightarrow> deleteColumn E st False = Some (Inr (True, None))"
  by (simp add: deleteColumn_def)

lemma deleteRow_without_dispatch:
  "isInTable st \<Longrightarrow> deleteRow E st False = Some (Inr (True, None))"
  by (simp add: deleteRow_def)

text \<open>
  C2 (a defect of the code). In the table of two rows and two columns, the cell selection
  over the first row spans all columns and the one over the first column spans all rows.
  Called with the callback, \<open>deleteColumn\<close> and \<open>deleteRow\<close> refuse them; called
  without it, as a menu does to see whether the command applies, they return \<open>true\<close>.
\<close>

theorem delete_all_refused_with_dispatch_only:
  "(\<exists>r. selectedRect ref_env (cells_selected table_2x2 2 6) = Inr r
        \<and> rect_left r = 0 \<and> rect_right r = width (rmap r))
   \<and> deleteColumn ref_env (cells_selected table_2x2 2 6) True = Some (Inr (False, None))
   \<and> deleteColumn ref_env (cells_selected table_2x2 2 6) False = Some (Inr (True, None))
   \<and> (\<exists>r. selectedRect ref_env (cells_selected table_2x2 2 12) = Inr r
        \<and> rect_top r = 0 \<and> rect_bottom r = height (rmap r))
   \<and> deleteRow ref_env (cells_selected table_2x2 2 12) True = Some (Inr (False, None))
   \<and> deleteRow ref_env (cells_selected table_2x2 2 12) False = Some (Inr (True, None))"
proof -
  have t1: "isInTable (cells_selected table_2x2 2 6)" by code_simp
  have t2: "isInTable (cells_selected table_2x2 2 12)" by code_simp
  have "case selectedRect ref_env (cells_selected table_2x2 2 6) of
          Inl e \<Rightarrow> False | Inr r \<Rightarrow> rect_left r = 0 \<and> rect_right r = width (rmap r)"
    by code_simp
  then obtain r1 where r1: "selectedRect ref_env (cells_selected table_2x2 2 6) = Inr r1"
      "rect_left r1 = 0" "rect_right r1 = width (rmap r1)"
    by (auto split: sum.splits)
  have "case selectedRect ref_env (cells_selected table_2x2 2 12) of
          Inl e \<Rightarrow> False | Inr r \<Rightarrow> rect_top r = 0 \<and> rect_bottom r = height (rmap r)"
    by code_simp
  then obtain r2 where r2: "selectedRect ref_env (cells_selected table_2x2 2 12) = Inr r2"
      "rect_top r2 = 0" "rect_bottom r2 = height (rmap r2)"
    by (auto split: sum.splits)
  show ?thesis
    using r1 r2 deleteColumn_all_columns_dispatch [OF t1 r1] deleteRow_all_rows_dispatch [OF t2 r2]
      deleteColumn_without_dispatch [OF t1, of ref_env] deleteRow_without_dispatch [OF t2, of ref_env]
    by blast
qed

text \<open>
  C3 (amended). With the selection in a table and its rectangle found, \<open>makeHead\<close>
  returns \<open>false\<close> whenever the selected rows do not start at the first row of the
  table (\<open>top > 0\<close>), and \<open>makeFoot\<close> whenever they do not reach the last row
  (\<open>bottom < map.height\<close>); nothing is dispatched then. The columns of the selection
  play no part, and \<open>makeBody\<close> has no such condition.
\<close>

theorem makeSection_refuses_rows:
  "(selectedRect E st = Inr r \<and> rect_top r > 0 \<longrightarrow> makeHead E st dispatch = Inr (False, None))
   \<and> (selectedRect E st = Inr r \<and> rect_bottom r < height (rmap r)
        \<longrightarrow> makeFoot E st dispatch = Inr (False, None))"
  by (simp add: makeHead_def makeFoot_def makeSection_def)

theorem makeSection_refuses_rows_witness:
  "makeHead ref_env (cursor_in table_2x2 12) True = Inr (False, None)
   \<and> makeFoot ref_env (cursor_in table_2x2 2) True = Inr (False, None)"
proof -
  have "case selectedRect ref_env (cursor_in table_2x2 12) of
          Inl e \<Rightarrow> False | Inr r \<Rightarrow> rect_top r > 0"
    by code_simp
  then obtain r1 where r1: "selectedRect ref_env (cursor_in table_2x2 12) = Inr r1" "rect_top r1 > 0"
    by (auto split: sum.splits)
  have "case selectedRect ref_env (cursor_in table_2x2 2) of
          Inl e \<Rightarrow> False | Inr r \<Rightarrow> rect_bottom r < height (rmap r)"
    by code_simp
  then obtain r2 where r2: "selectedRect ref_env (cursor_in table_2x2 2) = Inr r2"
      "rect_bottom r2 < height (rmap r2)"
    by (auto split: sum.splits)
  show ?thesis
    using makeSection_refuses_rows [of ref_env "cursor_in table_2x2 12" r1 True]
      makeSection_refuses_rows [of ref_env "cursor_in table_2x2 2" r2 True] r1 r2
    by blast
qed

text \<open>
  C3 as stated fails: a cursor in the first cell of the table of two columns selects a
  range that is not full-width (columns 0 to 1 of 2), and \<open>makeHead\<close> applies and
  dispatches, since the range starts at row 0.
\<close>

theorem makeHead_not_full_width_counterexample:
  "isInTable (cursor_in table_2x2 2)
   \<and> (case selectedRect ref_env (cursor_in table_2x2 2) of
         Inl e \<Rightarrow> False
       | Inr r \<Rightarrow> rect_left r = 0 \<and> rect_right r = 1 \<and> width (rmap r) = 2 \<and> rect_top r = 0)
   \<and> (case makeHead ref_env (cursor_in table_2x2 2) True of
         Inl e \<Rightarrow> False
       | Inr res \<Rightarrow> fst res \<and> snd res \<noteq> None)"
  by code_simp

section \<open>Properties of splitting\<close>

lemma resolve_walk_offsets:
  "cur \<le> pos \<Longrightarrow> e \<in> set (resolve_walk parent cs i cur pos) \<Longrightarrow> snd (snd e) \<le> pos"
proof (induction parent cs i cur pos rule: resolve_walk.induct)
  case (1 parent i cur pos)
  then show ?case by simp
next
  case (2 parent c cs i cur pos)
  show ?case
  proof (cases "pos \<le> cur")
    case True
    with 2 show ?thesis by simp
  next
    case False
    show ?thesis
    proof (cases "pos < cur + nodeSize c")
      case True
      show ?thesis
      proof (cases c)
        case (Text s)
        with 2 False True show ?thesis by simp
      next
        case (Node t a ks)
        have "cur + 1 \<le> pos" using False by simp
        with 2 False True Node show ?thesis by auto
      qed
    next
      case False2: False
      with 2 False show ?thesis by auto
    qed
  qed
qed

lemma nodeSize_nonneg: "0 \<le> nodeSize n"
proof (induction n rule: nodeSize.induct)
  case (1 s)
  then show ?case by simp
next
  case (2 t a cs)
  show ?case
  proof (cases "isLeaf t")
    case True
    then show ?thesis by simp
  next
    case False
    with 2 have "0 \<le> sum_list (map nodeSize cs)" by (intro sum_list_nonneg) auto
    then show ?thesis by simp
  qed
qed

lemma resolve_walk_offsets_lower:
  "0 \<le> cur \<Longrightarrow> e \<in> set (resolve_walk parent cs i cur pos) \<Longrightarrow> 0 \<le> snd (snd e)"
proof (induction parent cs i cur pos rule: resolve_walk.induct)
  case (1 parent i cur pos)
  then show ?case by simp
next
  case (2 parent c cs i cur pos)
  have "0 \<le> cur + nodeSize c" using 2(3) nodeSize_nonneg [of c] by simp
  with 2 show ?case by (auto split: if_splits node.splits)
qed

lemma resolve_walk_hd: "\<exists>i off rest. resolve_walk parent cs i0 cur pos = (parent, i, off) # rest"
  by (induction parent cs i0 cur pos rule: resolve_walk.induct) auto

lemma resolved_in_facts:
  assumes "resolved_in d rp"
  shows "0 \<le> rp_pos rp" "rp_pos rp \<le> fragSize (children d)"
    "rp_path rp = resolve_walk d (children d) 0 0 (rp_pos rp)"
proof -
  from assms have r: "0 \<le> rp_pos rp \<and> rp_pos rp \<le> fragSize (children d)"
    and eq: "\<lparr>rp_pos = rp_pos rp, rp_path = resolve_walk d (children d) 0 0 (rp_pos rp)\<rparr> = rp"
    by (auto simp: resolved_in_def resolve_def split: if_splits)
  from r show "0 \<le> rp_pos rp" "rp_pos rp \<le> fragSize (children d)" by simp_all
  show "rp_path rp = resolve_walk d (children d) 0 0 (rp_pos rp)"
    by (metis eq resolved_pos.select_convs(2))
qed

lemma cellAround_from_total:
  assumes "resolved_in d rp" "int k < int (length (rp_path rp))"
  shows "\<exists>r. cellAround_from rp k = Inr r"
  using assms(2)
proof (induction k)
  case 0
  then show ?case by simp
next
  case (Suc k)
  note f = resolved_in_facts [OF assms(1)]
  obtain i off rest where hd: "rp_path rp = (d, i, off) # rest"
    using resolve_walk_hd [of d "children d" 0 0 "rp_pos rp"] f(3) by auto
  have root: "rp_node rp 0 = Some d" by (simp add: rp_node_def js_nth_def hd)
  have k: "Suc k < length (rp_path rp)" using Suc.prems by simp
  let ?e = "rp_path rp ! Suc k"
  have mem: "?e \<in> set (resolve_walk d (children d) 0 0 (rp_pos rp))"
    using k f(3) by (metis nth_mem)
  have bounds: "0 \<le> snd (snd ?e)" "snd (snd ?e) \<le> rp_pos rp"
    using resolve_walk_offsets_lower [OF _ mem] resolve_walk_offsets [OF f(1) mem] by simp_all
  have n: "nat (1 + int k) = Suc k" by simp
  have off: "rp_offset rp (int (Suc k)) = Some (snd (snd ?e))"
    using k by (simp add: rp_offset_def js_nth_def n)
  have "\<exists>x. rp_before rp (int (Suc k) + 1) = Inr x \<and> 0 \<le> x \<and> x \<le> rp_pos rp"
    using k off bounds f(1) by (simp add: rp_before_def rp_depth_def)
  then obtain x where before: "rp_before rp (int (Suc k) + 1) = Inr x" "0 \<le> x" "x \<le> rp_pos rp"
    by blast
  have "\<exists>r. resolve d x = Inr r"
    using before f(2) by (simp add: resolve_def)
  then show ?case
    using Suc root before(1) by (auto simp: nonnull_def ebind_def)
qed

lemma cellAround_total:
  assumes "resolved_in d rp"
  shows "\<exists>r. cellAround rp = Inr r"
proof -
  have "rp_path rp \<noteq> []"
    using resolve_walk_hd [of d "children d" 0 0 "rp_pos rp"] resolved_in_facts(3) [OF assms] by auto
  then have "int (nat (rp_depth rp - 1)) < int (length (rp_path rp))"
    by (cases "rp_path rp") (simp_all add: rp_depth_def)
  then show ?thesis
    unfolding cellAround_def by (rule cellAround_from_total [OF assms])
qed


lemma resolved_in_pos_at:
  "0 \<le> pos \<Longrightarrow> pos \<le> fragSize (children d) \<Longrightarrow> resolved_in d (pos_at d pos)"
  by (simp add: resolved_in_def resolve_def pos_at_def)

text \<open>
  C8. When the cell the command works on has \<open>colspan = 1\<close> and \<open>rowspan = 1\<close>,
  \<open>splitCellWithType\<close> with any type chooser, and so \<open>splitCell\<close>, returns \<open>false\<close>:
  no exception is thrown and nothing is dispatched. The cell is the node behind
  \<open>$anchorCell\<close> of a cell selection of one cell, and else the cell around \<open>$from\<close>,
  a position of the document.
\<close>

theorem splitCell_refuses_single_cell:
  assumes "\<not> isCellSelection (selection st) \<longrightarrow> resolved_in (doc st) (sel_from (selection st))"
    and "split_target_cell st = Some c"
    and "colspan (attrs_of c) = 1" "rowspan (attrs_of c) = 1"
  shows "splitCellWithType E getCellType st dispatch = Inr (False, None)
         \<and> splitCell E st dispatch = Inr (False, None)"
proof -
  have "splitCell_target st = Inr None \<or> (\<exists>p. splitCell_target st = Inr (Some (c, p)))"
  proof (cases "selection st")
    case (CellSelection ac hc a h)
    with assms(2) show ?thesis
      by (auto simp: splitCell_target_def split_target_cell_def split: if_splits)
  next
    case (NodeSelection n a h)
    then have "resolved_in (doc st) (sel_from (selection st))" using assms(1) by simp
    from cellAround_total [OF this] obtain r where "cellAround (sel_from (selection st)) = Inr r" ..
    with NodeSelection assms(2) show ?thesis
      by (cases r) (auto simp: splitCell_target_def split_target_cell_def)
  next
    case (TextSelection a h)
    then have "resolved_in (doc st) (sel_from (selection st))" using assms(1) by simp
    from cellAround_total [OF this] obtain r where "cellAround (sel_from (selection st)) = Inr r" ..
    with TextSelection assms(2) show ?thesis
      by (cases r) (auto simp: splitCell_target_def split_target_cell_def)
  qed
  then have "splitCellWithType E g st dispatch = Inr (False, None)" for g
    using assms(3,4) by (auto simp: splitCellWithType_def)
  then show ?thesis by (simp add: splitCell_def)
qed

theorem splitCell_refuses_single_cell_witness:
  "splitCellWithType ref_env (\<lambda>n row col. ref_tableNodeTypes R_header_cell)
     (cursor_in table_2x2 2) True = Inr (False, None)
   \<and> splitCell ref_env (cursor_in table_2x2 2) True = Inr (False, None)
   \<and> splitCell ref_env (cells_selected table_2x2 6 6) True = Inr (False, None)"
proof -
  have "(0::int) \<le> 5 \<and> 5 \<le> fragSize (children (doc_of table_2x2))" by code_simp
  then have "resolved_in (doc_of table_2x2) (pos_at (doc_of table_2x2) 5)"
    by (simp add: resolved_in_pos_at)
  then have wf: "\<not> isCellSelection (selection (cursor_in table_2x2 2))
      \<longrightarrow> resolved_in (doc (cursor_in table_2x2 2)) (sel_from (selection (cursor_in table_2x2 2)))"
    by (simp add: cursor_in_def sel_from_def)
  have "case split_target_cell (cursor_in table_2x2 2) of
          None \<Rightarrow> False | Some c \<Rightarrow> colspan (attrs_of c) = 1 \<and> rowspan (attrs_of c) = 1"
    by code_simp
  then obtain c where c: "split_target_cell (cursor_in table_2x2 2) = Some c"
      "colspan (attrs_of c) = 1" "rowspan (attrs_of c) = 1"
    by (auto split: option.splits)
  have wf2: "\<not> isCellSelection (selection (cells_selected table_2x2 6 6))
      \<longrightarrow> resolved_in (doc (cells_selected table_2x2 6 6))
            (sel_from (selection (cells_selected table_2x2 6 6)))"
    by (simp add: cells_selected_def)
  have "case split_target_cell (cells_selected table_2x2 6 6) of
          None \<Rightarrow> False | Some c \<Rightarrow> colspan (attrs_of c) = 1 \<and> rowspan (attrs_of c) = 1"
    by code_simp
  then obtain c2 where c2: "split_target_cell (cells_selected table_2x2 6 6) = Some c2"
      "colspan (attrs_of c2) = 1" "rowspan (attrs_of c2) = 1"
    by (auto split: option.splits)
  show ?thesis
    using splitCell_refuses_single_cell [OF wf c, of ref_env _ True]
      splitCell_refuses_single_cell [OF wf2 c2, of ref_env _ True]
    by blast
qed

section \<open>Properties of setCellAttr\<close>

lemma setCellAttr_cells_steps:
  "setCellAttr_cells name val cells tr =
     tr\<lparr>steps := steps tr @ map (set_attr_step name val)
                                (filter (\<lambda>c. \<not> strict_eq (node_attr (fst c) name) val) cells)\<rparr>"
proof (induction cells arbitrary: tr)
  case Nil
  then show ?case by simp
next
  case (Cons c cells)
  obtain n pos where c: "c = (n, pos)" by (cases c)
  show ?case
    unfolding c by (simp add: Cons.IH add_step_def set_attr_step_def)
qed

text \<open>
  C10. In a table, \<open>setCellAttr(name, value)\<close> returns \<open>false\<close> and dispatches nothing
  whenever the cell \<open>selectionCell\<close> finds has the attribute strictly equal to the
  value, whatever the other cells of a cell selection hold. When that cell differs and
  the callback is there, the transaction rewrites exactly the cells whose attribute
  differs from the value, in the order of \<open>forEachCell\<close> (the one cell, without a cell
  selection).
\<close>

theorem setCellAttr_only_differing:
  assumes "isInTable st" "selectionCell st = Inr cell" "nodeAfter cell = Some n"
  shows "(strict_eq (node_attr n name) val \<longrightarrow> setCellAttr E name val st dispatch = Inr (False, None))
    \<and> (\<not> strict_eq (node_attr n name) val \<longrightarrow>
         setCellAttr E name val st True =
           Inr (True, Some \<lparr>steps = map (set_attr_step name val)
                                     (filter (\<lambda>c. \<not> strict_eq (node_attr (fst c) name) val)
                                        (setCellAttr_targets E st cell n)),
                            tr_selection = None\<rparr>))"
  using assms
  by (simp add: setCellAttr_def nonnull_def ebind_def setCellAttr_targets_def setCellAttr_cells_steps
      state_tr_def add_step_def set_attr_step_def)


theorem setCellAttr_only_differing_witness:
  "setCellAttr ref_env ''background'' (JStr ''#dfd'') (cells_selected table_plain_green 2 6) True
     = Inr (False, None)
   \<and> (\<exists>tr. setCellAttr ref_env ''background'' (JStr ''#dfd'') (cells_selected table_green_plain 2 6) True
             = Inr (True, Some tr)
          \<and> length (steps tr) = 1)"
proof -
  have t1: "isInTable (cells_selected table_plain_green 2 6)" by code_simp
  have "case selectionCell (cells_selected table_plain_green 2 6) of
          Inl e \<Rightarrow> False
        | Inr cell \<Rightarrow> (case nodeAfter cell of None \<Rightarrow> False
                       | Some n \<Rightarrow> strict_eq (node_attr n ''background'') (JStr ''#dfd''))"
    by code_simp
  then obtain c1 n1 where c1: "selectionCell (cells_selected table_plain_green 2 6) = Inr c1"
      "nodeAfter c1 = Some n1" "strict_eq (node_attr n1 ''background'') (JStr ''#dfd'')"
    by (auto split: sum.splits option.splits)
  have t2: "isInTable (cells_selected table_green_plain 2 6)" by code_simp
  have "case selectionCell (cells_selected table_green_plain 2 6) of
          Inl e \<Rightarrow> False
        | Inr cell \<Rightarrow>
            (case nodeAfter cell of None \<Rightarrow> False
             | Some n \<Rightarrow> \<not> strict_eq (node_attr n ''background'') (JStr ''#dfd'')
                 \<and> length (filter (\<lambda>c. \<not> strict_eq (node_attr (fst c) ''background'') (JStr ''#dfd''))
                             (setCellAttr_targets ref_env (cells_selected table_green_plain 2 6) cell n)) = 1)"
    by code_simp
  then obtain c2 n2 where c2: "selectionCell (cells_selected table_green_plain 2 6) = Inr c2"
      "nodeAfter c2 = Some n2" "\<not> strict_eq (node_attr n2 ''background'') (JStr ''#dfd'')"
      "length (filter (\<lambda>c. \<not> strict_eq (node_attr (fst c) ''background'') (JStr ''#dfd''))
                 (setCellAttr_targets ref_env (cells_selected table_green_plain 2 6) c2 n2)) = 1"
    by (auto split: sum.splits option.splits)
  show ?thesis
    using setCellAttr_only_differing [OF t1 c1(1,2), of "''background''" "JStr ''#dfd''" ref_env True]
      setCellAttr_only_differing [OF t2 c2(1,2), of "''background''" "JStr ''#dfd''" ref_env True]
      c1(3) c2(3,4)
    by simp
qed

section \<open>Properties of the header toggles\<close>

lemma remove_headers_steps:
  "remove_headers E tStart (map (\<lambda>c. (fst c, Some (snd c))) cells) tr =
     Inr (tr\<lparr>steps := steps tr @ map (demote_step E tStart) (filter (is_header E) cells)\<rparr>)"
proof (induction cells arbitrary: tr)
  case Nil
  then show ?case by simp
next
  case (Cons c cells)
  show ?case
    by (simp add: Cons.IH nonnull_def ebind_def add_step_def demote_step_def is_header_def)
qed

lemma add_headers_steps:
  "add_headers E tStart (map (\<lambda>c. (fst c, Some (snd c))) cells) tr =
     Inr (tr\<lparr>steps := steps tr @ map (promote_step E tStart) cells\<rparr>)"
proof (induction cells arbitrary: tr)
  case Nil
  then show ?case by simp
next
  case (Cons c cells)
  show ?case
    by (simp add: Cons.IH nonnull_def ebind_def add_step_def promote_step_def)
qed

text \<open>
  C6 (amended). The three exported commands use the legacy policy. With the selection in
  a table, its rectangle found and every cell of the acted-on rectangle (the rows of the
  selection for \<open>row\<close>, its columns for \<open>column\<close>, the selection for \<open>cell\<close>)
  present in the table, the dispatched transaction turns the header cells of that
  rectangle into plain cells when it holds any, and else turns all its cells into header
  cells. The first row and the first column are not inspected.
\<close>

theorem toggleHeader_legacy_policy:
  assumes "isInTable st" "selectedRect E st = Inr r"
    and "nodes_at (table r) (cellsInRect E (rmap r) (toggled_rect type r)) = Inr (map Some ns)"
  shows "toggleHeader E type True st True =
           Inr (True, Some \<lparr>steps = legacy_toggle_steps E (tableStart r)
                                      (zip (cellsInRect E (rmap r) (toggled_rect type r)) ns),
                            tr_selection = None\<rparr>)
         \<and> toggleHeaderRow E st True = toggleHeader E Row True st True
         \<and> toggleHeaderColumn E st True = toggleHeader E Column True st True
         \<and> toggleHeaderCell E st True = toggleHeader E Cell True st True"
proof -
  let ?cells = "cellsInRect E (rmap r) (toggled_rect type r)"
  let ?cn = "zip ?cells ns"
  have z: "zip ?cells (map Some ns) = map (\<lambda>c. (fst c, Some (snd c))) ?cn"
    by (simp add: zip_map2 case_prod_beta)
  have rm: "remove_headers E (tableStart r) (zip ?cells (map Some ns)) (state_tr st) =
      Inr \<lparr>steps = map (demote_step E (tableStart r)) (filter (is_header E) ?cn), tr_selection = None\<rparr>"
    unfolding z remove_headers_steps by (simp add: state_tr_def)
  have ad: "add_headers E (tableStart r) (zip ?cells (map Some ns))
              \<lparr>steps = [], tr_selection = None\<rparr> =
      Inr \<lparr>steps = map (promote_step E (tableStart r)) ?cn, tr_selection = None\<rparr>"
    unfolding z add_headers_steps by simp
  have "deprecated_toggleHeader E type st True =
          Inr (True, Some \<lparr>steps = legacy_toggle_steps E (tableStart r) ?cn, tr_selection = None\<rparr>)"
    using assms(1,2)
    by (simp add: deprecated_toggleHeader_def assms(3) rm ad legacy_toggle_steps_def Let_def)
  then show ?thesis
    by (simp add: toggleHeader_def toggleHeaderRow_def toggleHeaderColumn_def toggleHeaderCell_def)
qed

theorem toggleHeader_legacy_policy_witness:
  "\<exists>r ns. selectedRect ref_env (cursor_in table_hmix 2) = Inr r
     \<and> toggleHeaderRow ref_env (cursor_in table_hmix 2) True =
         Inr (True, Some \<lparr>steps = legacy_toggle_steps ref_env (tableStart r)
                                    (zip (cellsInRect ref_env (rmap r) (toggled_rect Row r)) ns),
                          tr_selection = None\<rparr>)"
proof -
  have t: "isInTable (cursor_in table_hmix 2)" by code_simp
  have "case selectedRect ref_env (cursor_in table_hmix 2) of
          Inl e \<Rightarrow> False
        | Inr r \<Rightarrow>
            (case nodes_at (table r) (cellsInRect ref_env (rmap r) (toggled_rect Row r)) of
               Inl e \<Rightarrow> False
             | Inr ns \<Rightarrow> list_all (\<lambda>n. n \<noteq> None) ns)"
    by code_simp
  then obtain r ns where r: "selectedRect ref_env (cursor_in table_hmix 2) = Inr r"
      and ns: "nodes_at (table r) (cellsInRect ref_env (rmap r) (toggled_rect Row r)) = Inr ns"
        "list_all (\<lambda>n. n \<noteq> None) ns"
    by (auto split: sum.splits)
  have "map Some (map the ns) = ns"
    using ns(2) by (induction ns) auto
  then have n': "nodes_at (table r) (cellsInRect ref_env (rmap r) (toggled_rect Row r))
                   = Inr (map Some (map the ns))"
    using ns(1) by simp
  show ?thesis
    using toggleHeader_legacy_policy [OF t r n'] r by auto
qed

text \<open>
  C6 as stated fails. In the table whose first row is a header cell and a plain cell,
  the first row is not entirely header cells, so the claim has \<open>toggleHeaderRow\<close>
  promote the row; the command makes the one header cell of the row, at position 3, a
  plain cell, and leaves the other cell as it is.
\<close>

theorem toggleHeaderRow_first_row_counterexample:
  "(case selectedRect ref_env (cursor_in table_hmix 2) of
      Inl e \<Rightarrow> False
    | Inr r \<Rightarrow> isHeaderEnabledByType ref_env Row r = Inr False
               \<and> cellsInRect ref_env (rmap r) (toggled_rect Row r) = [2, 6])
   \<and> (case toggleHeaderRow ref_env (cursor_in table_hmix 2) True of
         Inl e \<Rightarrow> False
       | Inr res \<Rightarrow>
           fst res \<and> (case snd res of
                        None \<Rightarrow> False
                      | Some tr \<Rightarrow> map markup_of (steps tr) = [Some (3, ref_tableNodeTypes R_cell)]))"
  by code_simp

section \<open>Properties of addColumn\<close>







lemma set_int_range: "set (int_range a b) = {a..<b}"
proof -
  have "x \<in> (\<lambda>k. a + int k) ` {0..<nat (b - a)} \<longleftrightarrow> a \<le> x \<and> x < b" for x
  proof
    assume "x \<in> (\<lambda>k. a + int k) ` {0..<nat (b - a)}"
    then show "a \<le> x \<and> x < b" by auto
  next
    assume "a \<le> x \<and> x < b"
    then have "x = a + int (nat (x - a))" "nat (x - a) \<in> {0..<nat (b - a)}" by auto
    then show "x \<in> (\<lambda>k. a + int k) ` {0..<nat (b - a)}" by blast
  qed
  then show ?thesis by (auto simp: int_range_def)
qed




lemma rect_hcol_selected: "selectedRect ref_env (cursor_in table_hcol 2) = Inr rect_hcol"
  by (simp add: rect_hcol_def selectedRect_def selectionCell_def cellAround_def cellNear_def
      rp_depth_def rp_node_def rp_start_def rp_offset_def rp_before_def js_nth_def nonnull_def
      node_role_def role_def resolve_def fragSize_def isTableSection_def childCount_def
      eval_nat_numeral ex_defs ref_defs)



section \<open>Properties of addRow\<close>

lemma getRow_scan_first: "getRow_scan (c # cs) 0 prev prev rPos = (0, rPos)"
  by simp

text \<open>
  The row index behind the last row of a section that another section follows is the
  first row of that next section: \<open>getRow\<close> gives the position behind its opening token.
\<close>

lemma getRow_section_boundary:
  assumes "children tbl = pre @ s # s' # post" "list_all skipped_child pre"
    and "valid_section s" "valid_section s'"
  shows "row_pos (getRow tbl (rowsCount_from (pre @ [s]) 0) offset)
           = offset + fragSize pre + nodeSize s + 1"
proof -
  let ?row = "rowsCount_from (pre @ [s]) 0"
  have all: "list_all skipped_child (pre @ [s])"
    using assms(2,3) by (simp add: skipped_child_def)
  have s': "isTableSection s'" "childCount s' > 0" "children s' \<noteq> []"
    using assms(4) by (simp_all add: valid_section_def childCount_def)
  obtain c cs where cs: "children s' = c # cs" using s'(3) by (cases "children s'") auto
  have "getRow tbl ?row offset = getRow_from ((pre @ [s]) @ (s' # post)) ?row offset 0 (- 1)"
    using assms(1) by (simp add: getRow_def)
  also have "\<dots> = getRow_from (s' # post) ?row (offset + fragSize (pre @ [s])) (0 + ?row)
                      (- 1 + int (length (filter isTableSection (pre @ [s]))))"
    by (rule getRow_from_skip [OF all]) simp_all
  finally have "row_pos (getRow tbl ?row offset) = offset + fragSize (pre @ [s]) + 1"
    using s' by (simp add: Let_def cs)
  then show ?thesis by (simp add: fragSize_def)
qed

lemma js_nth_in_range:
  "0 \<le> i \<Longrightarrow> i < int (length xs) \<Longrightarrow> js_nth xs i = Some (xs ! nat i)"
  by (simp add: js_nth_def)

lemma cells_present_slot:
  assumes "cells_present r" "0 \<le> i" "i < width (rmap r) * height (rmap r)"
  shows "\<exists>p cell. js_nth (tmap (rmap r)) i = Some p \<and> nodeAt (table r) p = Inr (Some cell)
           \<and> colspan (attrs_of cell) \<ge> 1"
proof -
  have len: "i < int (length (tmap (rmap r)))" using assms(1,3) by (simp add: cells_present_def)
  then have n: "nat i < length (tmap (rmap r))" using assms(2) by simp
  have "cell_present (table r) (tmap (rmap r) ! nat i)"
    using assms(1) n by (simp add: cells_present_def list_all_length)
  then show ?thesis
    using js_nth_in_range [OF assms(2) len]
    by (auto simp: cell_present_def split: sum.splits option.splits)
qed


lemma slot_bounds:
  fixes w h row col index :: int
  assumes "0 < row" "row < h" "0 \<le> col" "col < w" "w * row \<le> index" "index \<le> w * row + col"
  shows "0 \<le> index" "index < w * h" "0 \<le> index - w" "index - w < w * h"
proof -
  have w: "0 < w" using assms(3,4) by simp
  have "w * 1 \<le> w * row" using w assms(1) by (intro mult_left_mono) simp_all
  then have a: "w \<le> w * row" by simp
  have "w * (row + 1) \<le> w * h" using w assms(2) by (intro mult_left_mono) simp_all
  then have b: "w * row + w \<le> w * h" by (simp add: distrib_left)
  show "0 \<le> index" using a w assms(5) by linarith
  show "index < w * h" using b assms(4,6) by linarith
  show "0 \<le> index - w" using a assms(5) by linarith
  show "index - w < w * h" using b assms(4,6) w by linarith
qed

lemma addRow_col_returns:
  assumes "cells_present r" "0 < row" "row < height (rmap r)"
    and "refRow = None \<or> refRow = Some 0 \<or> refRow = Some (- 1)"
    and "0 \<le> col" "col < width (rmap r)"
    and "width (rmap r) * row \<le> index" "index \<le> width (rmap r) * row + col"
  shows "\<exists>tr' cells' col'. addRow_col E r row refRow col index cells tr = Inr (tr', cells', col')
           \<and> col \<le> col'"
proof -
  let ?m = "rmap r"
  note b = slot_bounds [OF assms(2,3,5,6,7,8)]
  from cells_present_slot [OF assms(1) b(1,2)] obtain p cell
    where here: "js_nth (tmap ?m) index = Some p" "nodeAt (table r) p = Inr (Some cell)"
      "colspan (attrs_of cell) \<ge> 1"
    by blast
  from cells_present_slot [OF assms(1) b(3,4)] obtain p' cell'
    where above: "js_nth (tmap ?m) (index - width ?m) = Some p'" "nodeAt (table r) p' = Inr (Some cell')"
    by blast
  show ?thesis
  proof (cases "js_nth (tmap ?m) index = js_nth (tmap ?m) (index - width ?m)")
    case True
    with here(1) have up: "js_nth (tmap ?m) (index - width ?m) = Some p" by simp
    show ?thesis
      using assms(2,3) here(2,3)
      by (simp add: addRow_col_def Let_def nodeAt_u_def nonnull_def here(1) up)
  next
    case False
    from assms(4) consider "refRow = None" | "refRow = Some 0" | "refRow = Some (- 1)" by blast
    then show ?thesis
    proof cases
      case 1
      with False show ?thesis by (simp add: addRow_col_def Let_def)
    next
      case 2
      with False here show ?thesis by (simp add: addRow_col_def Let_def nodeAt_u_def)
    next
      case 3
      with False above show ?thesis by (simp add: addRow_col_def Let_def nodeAt_u_def)
    qed
  qed
qed

lemma addRow_cols_returns:
  assumes "cells_present r" "0 < row" "row < height (rmap r)"
    and "refRow = None \<or> refRow = Some 0 \<or> refRow = Some (- 1)"
    and "0 \<le> col"
    and "width (rmap r) * row \<le> index" "index \<le> width (rmap r) * row + col"
  shows "\<exists>tr' cells'. addRow_cols E r row refRow col index cells tr = Some (Inr (tr', cells'))"
  using assms(5,6,7)
proof (induction "nat (width (rmap r) - col)" arbitrary: col index cells tr rule: less_induct)
  case less
  show ?case
  proof (cases "col < width (rmap r)")
    case False
    then show ?thesis by (subst addRow_cols.simps) simp
  next
    case True
    from addRow_col_returns [OF assms(1-4) less.prems(1) True less.prems(2,3), of E cells tr]
    obtain tr' cells' col' where turn: "addRow_col E r row refRow col index cells tr = Inr (tr', cells', col')"
        "col \<le> col'"
      by blast
    have m: "nat (width (rmap r) - (col' + 1)) < nat (width (rmap r) - col)"
      using True turn(2) by simp
    have "\<exists>tr'' cells''. addRow_cols E r row refRow (col' + 1) (index + 1) cells' tr'
                           = Some (Inr (tr'', cells''))"
      using less.prems turn(2) by (intro less.hyps [OF m]) simp_all
    then show ?thesis
      by (subst addRow_cols.simps) (simp add: True turn(1))
  qed
qed

lemma rowIsHeader_cols_returns:
  assumes "cells_present r" "0 \<le> row" "row < height (rmap r)"
    and "\<forall>col\<in>set cols. 0 \<le> col \<and> col < width (rmap r)"
  shows "\<exists>b. rowIsHeader_cols E (rmap r) (table r) row cols = Inr b"
  using assms(4)
proof (induction cols)
  case Nil
  show ?case by (rule exI [of _ True]) simp
next
  case (Cons col cols)
  then have c: "0 \<le> col" "col < width (rmap r)" by simp_all
  have w: "0 < width (rmap r)" using c by simp
  have e: "row * width (rmap r) = width (rmap r) * row" by simp
  have a: "0 \<le> width (rmap r) * row" using w assms(2) by simp
  have "width (rmap r) * (row + 1) \<le> width (rmap r) * height (rmap r)"
    using w assms(3) by (intro mult_left_mono) simp_all
  then have b: "width (rmap r) * row + width (rmap r) \<le> width (rmap r) * height (rmap r)"
    by (simp add: distrib_left)
  have lo: "0 \<le> col + row * width (rmap r)" using a c(1) e by linarith
  have hi: "col + row * width (rmap r) < width (rmap r) * height (rmap r)"
    using b c(2) e by linarith
  from cells_present_slot [OF assms(1) lo hi] obtain p cell
    where "js_nth (tmap (rmap r)) (col + row * width (rmap r)) = Some p"
      "nodeAt (table r) p = Inr (Some cell)"
    by blast
  then show ?case
    using Cons by (simp add: nodeAt_u_def, blast)
qed

lemma addRow_refRow_returns:
  assumes "cells_present r" "0 < row" "row < height (rmap r)"
  shows "\<exists>refRow. addRow_refRow E r row = Inr refRow
           \<and> (refRow = None \<or> refRow = Some 0 \<or> refRow = Some (- 1))"
proof -
  have cols: "\<forall>col\<in>set (upto_int (width (rmap r))). 0 \<le> col \<and> col < width (rmap r)"
    by (auto simp: upto_int_def)
  have "0 \<le> row - 1" "row - 1 < height (rmap r)" using assms(2,3) by simp_all
  from rowIsHeader_cols_returns [OF assms(1) this cols, of E]
  obtain b where "rowIsHeader E (rmap r) (table r) (row - 1) = Inr b"
    by (auto simp: rowIsHeader_def)
  then show ?thesis
    using assms(2) by (simp add: addRow_refRow_def Let_def)
qed


lemma fragSize_append: "fragSize (xs @ ys) = fragSize xs + fragSize ys"
  by (simp add: fragSize_def)

lemma section_end_eq:
  assumes "children (table r) = pre @ s # rest"
  shows "section_end r (length pre) = tableStart r + fragSize pre + nodeSize s - 1"
  using assms by (simp add: section_end_def fragSize_append fragSize_Cons fragSize_def)

lemma section_start_eq:
  assumes "children (table r) = pre @ s # s' # rest"
  shows "section_start r (Suc (length pre)) = tableStart r + fragSize pre + nodeSize s + 1"
proof -
  have "take (Suc (length pre)) (pre @ s # s' # rest) = pre @ [s]" by simp
  then show ?thesis
    using assms by (simp add: section_start_def fragSize_append fragSize_Cons fragSize_def)
qed

lemma boundary_row_positive:
  assumes "valid_section s" "row = rowsCount_from (pre @ [s]) 0"
  shows "0 < row"
proof -
  have "rowsCount_from [s] 0 = childCount s" "0 < childCount s"
    using assms(1) by (simp_all add: valid_section_def childCount_def)
  moreover have "0 \<le> rowsCount_from pre 0" by (rule rowsCount_from_nonneg)
  ultimately show ?thesis using assms(2) by (simp add: rowsCount_from_append)
qed

lemma addRow_rPos_boundary:
  assumes "children (table r) = pre @ s # s' # post"
    and "list_all skipped_child pre" "valid_section s" "valid_section s'"
    and "row = rowsCount_from (pre @ [s]) 0"
  shows "addRow_rPos E r row =
           (if rect_bottom r = row \<and> isRowLastInSection E (table r) (row - 1)
            then section_end r (length pre) else section_start r (Suc (length pre)))"
  using getRow_section_boundary [OF assms(1-4), of 0] assms(5)
    section_end_eq [OF assms(1)] section_start_eq [OF assms(1)]
  by (simp add: addRow_rPos_def rowPos_def Let_def)

lemma addRow_returns:
  assumes "cells_present r" "0 < row" "row < height (rmap r)"
    and "tableNodeTypes E R_row = Some rowType"
  shows "\<exists>tr' cells srows.
           addRow E tr r row =
             Some (Inr (add_step tr' (Insert (addRow_rPos E r row)
                                        (Node rowType (defaultAttrs E rowType) cells)), srows))"
proof -
  from addRow_refRow_returns [OF assms(1-3), of E] obtain refRow
    where ref: "addRow_refRow E r row = Inr refRow"
      "refRow = None \<or> refRow = Some 0 \<or> refRow = Some (- 1)"
    by blast
  from addRow_cols_returns [OF assms(1-3) ref(2), of 0 "width (rmap r) * row" E "[]" tr]
  obtain tr' cells where "addRow_cols E r row refRow 0 (width (rmap r) * row) [] tr = Some (Inr (tr', cells))"
    by auto
  then show ?thesis
    using ref(1) assms(4) by (simp add: addRow_def Let_def) blast
qed


lemma addRow_rPos_last_section:
  assumes "children (table r) = pre @ [s]" "list_all skipped_child pre" "valid_section s"
    and "row = rowsCount (table r)"
    and "rect_bottom r = row" "isRowLastInSection E (table r) (row - 1)"
  shows "addRow_rPos E r row = section_end r (length pre) - 2"
proof -
  have "nodeSize s = 2 + fragSize (children s)"
    using assms(3) by (simp add: valid_section_def nodeSize_section)
  then show ?thesis
    using getRow_last_section [OF assms(1-3), of 0] assms(4-6) section_end_eq [OF assms(1)]
    by (simp add: addRow_rPos_def rowPos_def Let_def)
qed

lemma bump_sectionRows_boundary:
  assumes "\<forall>k\<in>set ns. 0 \<le> k" "0 \<le> n" "0 < n'"
  shows "bump_sectionRows (ns @ n # n' # post) (acc + sum_list ns + n) acc
           = ns @ n # (n' + 1) # post"
  using assms(1)
proof (induction ns arbitrary: acc)
  case Nil
  then show ?case using assms(3) by simp
next
  case (Cons k ns)
  have "0 \<le> sum_list ns" using Cons.prems by (intro sum_list_nonneg) simp
  then have "\<not> acc + k + sum_list ns + n < acc + k" using assms(2) by simp
  moreover have "bump_sectionRows (ns @ n # n' # post) (acc + k + sum_list ns + n) (acc + k)
                   = ns @ n # (n' + 1) # post"
    using Cons.IH [of "acc + k"] Cons.prems by simp
  ultimately show ?case by (simp add: add.assoc)
qed

lemma rect_2sec_second_selected:
  "selectedRect ref_env (cursor_in table_2sec 10) = Inr rect_2sec_second"
  by (simp add: rect_2sec_second_def selectedRect_def selectionCell_def cellAround_def cellNear_def
      rp_depth_def rp_node_def rp_start_def rp_offset_def rp_before_def js_nth_def nonnull_def
      node_role_def role_def resolve_def fragSize_def isTableSection_def childCount_def
      eval_nat_numeral ex_defs ref_defs)

text \<open>
  C5 (amended). Take a table whose grid map holds a cell in every slot, and the row index
  directly after the last row of a section that another section follows. Called with that
  index as the bottom of the rectangle, which is how \<open>addRowAfter\<close> calls it, and with
  \<open>isRowLastInSection\<close> confirming the row above, \<open>addRow\<close> returns a transaction
  whose last step inserts a row node at the end of the content of that section, directly
  before its closing boundary.
\<close>

theorem addRow_appends_to_section:
  assumes "children (table r) = pre @ s # s' # post"
    and "list_all skipped_child pre" "valid_section s" "valid_section s'"
    and "row = rowsCount_from (pre @ [s]) 0" "row < height (rmap r)" "cells_present r"
    and "rect_bottom r = row" "isRowLastInSection E (table r) (row - 1)"
    and "tableNodeTypes E R_row = Some rowType"
  shows "\<exists>tr' cells srows.
           addRow E tr r row =
             Some (Inr (add_step tr' (Insert (section_end r (length pre))
                                        (Node rowType (defaultAttrs E rowType) cells)), srows))"
proof -
  have pos: "0 < row" by (rule boundary_row_positive [OF assms(3,5)])
  have "addRow_rPos E r row = section_end r (length pre)"
    using addRow_rPos_boundary [OF assms(1-5), of E] assms(8,9) by simp
  then show ?thesis
    using addRow_returns [OF assms(7) pos assms(6,10), of tr] by simp
qed

theorem addRow_appends_to_section_witness:
  "\<exists>tr' cells srows.
     addRow ref_env empty_tr rect_2sec_first 1 =
       Some (Inr (add_step tr' (Insert 8 (Node (ty ''table_row'' (Some R_row))
                                            (defaultAttrs ref_env (ty ''table_row'' (Some R_row))) cells)),
                  srows))"
proof -
  have h1: "children (table rect_2sec_first) = [] @ tbody [trow [td]] # tbody [trow [td]] # []"
    by (simp add: rect_2sec_first_def table_2sec_def ttable_def)
  have h2: "list_all skipped_child []" by simp
  have h3: "valid_section (tbody [trow [td]])"
    by (simp add: valid_section_def isTableSection_def role_def ex_defs)
  have h5: "(1::int) = rowsCount_from ([] @ [tbody [trow [td]]]) 0"
    by (simp add: isTableSection_def role_def childCount_def ex_defs)
  have h6: "(1::int) < height (rmap rect_2sec_first)" by (simp add: rect_2sec_first_def)
  have h7: "cells_present rect_2sec_first" by code_simp
  have h8: "rect_bottom rect_2sec_first = 1" by (simp add: rect_2sec_first_def)
  have h9: "isRowLastInSection ref_env (table rect_2sec_first) (1 - 1)" by code_simp
  have h10: "tableNodeTypes ref_env R_row = Some (ty ''table_row'' (Some R_row))"
    by (simp add: ref_env_def ref_tableNodeTypes_def)
  have e: "section_end rect_2sec_first (length ([]::node list)) = 8" by code_simp
  show ?thesis
    using addRow_appends_to_section [OF h1 h2 h3 h3 h5 h6 h7 h8 h9 h10, of empty_tr]
    unfolding e by blast
qed

text \<open>
  C5 as stated fails when the row index is not the bottom of the rectangle. In the table
  with two sections of one row each, row 1 comes directly after the last row of the first
  section. With the cursor in the second section, \<open>addRowBefore\<close> calls \<open>addRow\<close> with
  that index and a rectangle whose bottom is 2: the row node is inserted at the start of
  the content of the second section, after the closing boundary of the first.
\<close>

theorem addRow_before_next_section_counterexample:
  "rowsCount_from [tbody [trow [td]]] 0 = 1
   \<and> rect_top rect_2sec_second = 1 \<and> rect_bottom rect_2sec_second = 2
   \<and> section_end rect_2sec_second 0 = 8 \<and> section_start rect_2sec_second 1 = 10
   \<and> (case addRow ref_env empty_tr rect_2sec_second 1 of
         Some (Inr (tr', srows)) \<Rightarrow>
           (case steps tr' of
              [Insert p n] \<Rightarrow> p = 10 \<and> role n = Some R_row
            | other \<Rightarrow> False)
       | other \<Rightarrow> False)
   \<and> (case addRowBefore ref_env (cursor_in table_2sec 10) True of
         Some (Inr (True, Some tr')) \<Rightarrow>
           (case steps tr' of
              [Insert p n] \<Rightarrow> p = 10 \<and> role n = Some R_row
            | other \<Rightarrow> False)
       | other \<Rightarrow> False)"
  by code_simp

section \<open>Properties of mergeCells\<close>

lemma ex_nat_range:
  "(\<exists>j<nat (b - a). P (a + int j)) \<longleftrightarrow> (\<exists>i\<in>{a..<b}. P i)"
proof
  assume "\<exists>j<nat (b - a). P (a + int j)"
  then obtain j where "j < nat (b - a)" "P (a + int j)" by blast
  then have "a + int j \<in> {a..<b}" by auto
  with \<open>P (a + int j)\<close> show "\<exists>i\<in>{a..<b}. P i" by blast
next
  assume "\<exists>i\<in>{a..<b}. P i"
  then obtain i where i: "i \<in> {a..<b}" "P i" by blast
  then have "nat (i - a) < nat (b - a)" "a + int (nat (i - a)) = i" by auto
  with i(2) show "\<exists>j<nat (b - a). P (a + int j)" by metis
qed

lemma ex_less_Suc: "(\<exists>j<Suc k. Q j) \<longleftrightarrow> Q 0 \<or> (\<exists>j<k. Q (Suc j))"
  by (auto simp: less_Suc_eq_0_disj)

lemma overlap_rows_iff:
  "overlap_rows m rc k indexLeft indexRight \<longleftrightarrow>
     (\<exists>j<k. (rect_left rc > 0
               \<and> js_nth (tmap m) (indexLeft + int j * width m)
                   = js_nth (tmap m) (indexLeft + int j * width m - 1))
            \<or> (rect_right rc < width m
               \<and> js_nth (tmap m) (indexRight + int j * width m)
                   = js_nth (tmap m) (indexRight + int j * width m + 1)))"
proof (induction k arbitrary: indexLeft indexRight)
  case 0
  then show ?case by simp
next
  case (Suc k)
  let ?Q = "\<lambda>j. (rect_left rc > 0
               \<and> js_nth (tmap m) (indexLeft + int j * width m)
                   = js_nth (tmap m) (indexLeft + int j * width m - 1))
            \<or> (rect_right rc < width m
               \<and> js_nth (tmap m) (indexRight + int j * width m)
                   = js_nth (tmap m) (indexRight + int j * width m + 1))"
  have shift: "\<And>i j. i + width m + int j * width m = i + int (Suc j) * width m"
    by (simp add: algebra_simps)
  have "overlap_rows m rc (Suc k) indexLeft indexRight \<longleftrightarrow> ?Q 0 \<or> (\<exists>j<k. ?Q (Suc j))"
    unfolding overlap_rows.simps Suc.IH shift by auto
  also have "\<dots> \<longleftrightarrow> (\<exists>j<Suc k. ?Q j)"
    by (rule ex_less_Suc [symmetric])
  finally show ?case .
qed

lemma overlap_cols_iff:
  "overlap_cols m rc k indexTop indexBottom \<longleftrightarrow>
     (\<exists>j<k. (rect_top rc > 0
               \<and> js_nth (tmap m) (indexTop + int j)
                   = js_nth (tmap m) (indexTop + int j - width m))
            \<or> (rect_bottom rc < height m
               \<and> js_nth (tmap m) (indexBottom + int j)
                   = js_nth (tmap m) (indexBottom + int j + width m)))"
proof (induction k arbitrary: indexTop indexBottom)
  case 0
  then show ?case by simp
next
  case (Suc k)
  let ?Q = "\<lambda>j. (rect_top rc > 0
               \<and> js_nth (tmap m) (indexTop + int j)
                   = js_nth (tmap m) (indexTop + int j - width m))
            \<or> (rect_bottom rc < height m
               \<and> js_nth (tmap m) (indexBottom + int j)
                   = js_nth (tmap m) (indexBottom + int j + width m))"
  have shift: "\<And>i j. i + 1 + int j = i + int (Suc j)"
    by simp
  have "overlap_cols m rc (Suc k) indexTop indexBottom \<longleftrightarrow> ?Q 0 \<or> (\<exists>j<k. ?Q (Suc j))"
    unfolding overlap_cols.simps Suc.IH shift by auto
  also have "\<dots> \<longleftrightarrow> (\<exists>j<Suc k. ?Q j)"
    by (rule ex_less_Suc [symmetric])
  finally show ?case .
qed

text \<open>
  What the two loops of \<open>cellsOverlapRectangle\<close> look at: along the left and the right
  edge of the rectangle, whether a slot and its neighbour across the edge hold the same
  offset, and the same along the top and the bottom edge.
\<close>

lemma cellsOverlapRectangle_edges:
  "cellsOverlapRectangle m rc \<longleftrightarrow>
     (\<exists>row\<in>{rect_top rc..<rect_bottom rc}.
         (rect_left rc > 0
            \<and> slot_at m row (rect_left rc) = slot_at m row (rect_left rc - 1))
         \<or> (rect_right rc < width m
            \<and> slot_at m row (rect_right rc - 1) = slot_at m row (rect_right rc)))
     \<or> (\<exists>col\<in>{rect_left rc..<rect_right rc}.
         (rect_top rc > 0
            \<and> slot_at m (rect_top rc) col = slot_at m (rect_top rc - 1) col)
         \<or> (rect_bottom rc < height m
            \<and> slot_at m (rect_bottom rc - 1) col = slot_at m (rect_bottom rc) col))"
proof -
  let ?R = "\<lambda>row. (rect_left rc > 0
            \<and> slot_at m row (rect_left rc) = slot_at m row (rect_left rc - 1))
         \<or> (rect_right rc < width m
            \<and> slot_at m row (rect_right rc - 1) = slot_at m row (rect_right rc))"
  let ?C = "\<lambda>col. (rect_top rc > 0
            \<and> slot_at m (rect_top rc) col = slot_at m (rect_top rc - 1) col)
         \<or> (rect_bottom rc < height m
            \<and> slot_at m (rect_bottom rc - 1) col = slot_at m (rect_bottom rc) col)"
  have rows: "overlap_rows m rc (nat (rect_bottom rc - rect_top rc))
                (rect_top rc * width m + rect_left rc)
                (rect_top rc * width m + rect_left rc + (rect_right rc - rect_left rc - 1))
              \<longleftrightarrow> (\<exists>j<nat (rect_bottom rc - rect_top rc). ?R (rect_top rc + int j))"
    unfolding overlap_rows_iff slot_at_def by (simp add: algebra_simps)
  have cols: "overlap_cols m rc (nat (rect_right rc - rect_left rc))
                (rect_top rc * width m + rect_left rc)
                ((rect_bottom rc - 1) * width m + rect_left rc)
              \<longleftrightarrow> (\<exists>j<nat (rect_right rc - rect_left rc). ?C (rect_left rc + int j))"
    unfolding overlap_cols_iff slot_at_def by (simp add: algebra_simps)
  show ?thesis
    unfolding cellsOverlapRectangle_def Let_def rows cols
      ex_nat_range [of "rect_bottom rc" "rect_top rc" ?R]
      ex_nat_range [of "rect_right rc" "rect_left rc" ?C]
    by (simp only: if_True split: if_splits) blast
qed


lemma spec_cell_straddlesI:
  assumes "in_rect rc row col" "0 \<le> row'" "row' < height m" "0 \<le> col'" "col' < width m"
    and "\<not> in_rect rc row' col'" "slot_at m row col = slot_at m row' col'"
  shows "spec_cell_straddles m rc"
proof -
  have "row \<in> {rect_top rc..<rect_bottom rc}" "col \<in> {rect_left rc..<rect_right rc}"
    using assms(1) by (simp_all add: in_rect_def)
  moreover have "row' \<in> {0..<height m}" "col' \<in> {0..<width m}"
    using assms(2-5) by simp_all
  ultimately show ?thesis
    unfolding spec_cell_straddles_def set_int_range using assms(6,7) by blast
qed

lemma grid_rectangular_box:
  assumes "grid_rectangular m"
    and "0 \<le> row1" "row1 < height m" "0 \<le> col1" "col1 < width m"
    and "0 \<le> row2" "row2 < height m" "0 \<le> col2" "col2 < width m"
    and "slot_at m row1 col1 = slot_at m row2 col2"
    and "min row1 row2 \<le> row" "row \<le> max row1 row2"
    and "min col1 col2 \<le> col" "col \<le> max col1 col2"
  shows "slot_at m row col = slot_at m row1 col1"
proof -
  have "row1 \<in> {0..<height m}" "col1 \<in> {0..<width m}" "row2 \<in> {0..<height m}"
    "col2 \<in> {0..<width m}"
    using assms(2-9) by simp_all
  moreover have "row \<in> {min row1 row2..<max row1 row2 + 1}"
    "col \<in> {min col1 col2..<max col1 col2 + 1}"
    using assms(11-14) by simp_all
  ultimately show ?thesis
    using assms(1,10) unfolding grid_rectangular_def set_int_range by blast
qed

text \<open>
  On a rectangle of a rectangular grid, \<open>cellsOverlapRectangle\<close> is true exactly when
  a cell straddles the boundary of the rectangle.
\<close>

lemma cellsOverlapRectangle_straddles:
  assumes "rect_in_grid m rc" "grid_rectangular m"
  shows "cellsOverlapRectangle m rc \<longleftrightarrow> spec_cell_straddles m rc"
proof
  note g = assms(1) [unfolded rect_in_grid_def]
  assume "cellsOverlapRectangle m rc"
  then consider
      (left) row where "row \<in> {rect_top rc..<rect_bottom rc}" "rect_left rc > 0"
        "slot_at m row (rect_left rc) = slot_at m row (rect_left rc - 1)"
    | (right) row where "row \<in> {rect_top rc..<rect_bottom rc}" "rect_right rc < width m"
        "slot_at m row (rect_right rc - 1) = slot_at m row (rect_right rc)"
    | (top) col where "col \<in> {rect_left rc..<rect_right rc}" "rect_top rc > 0"
        "slot_at m (rect_top rc) col = slot_at m (rect_top rc - 1) col"
    | (bottom) col where "col \<in> {rect_left rc..<rect_right rc}" "rect_bottom rc < height m"
        "slot_at m (rect_bottom rc - 1) col = slot_at m (rect_bottom rc) col"
    unfolding cellsOverlapRectangle_edges by blast
  then show "spec_cell_straddles m rc"
  proof cases
    case left
    show ?thesis
      by (rule spec_cell_straddlesI [of rc row "rect_left rc" row m "rect_left rc - 1"])
        (use left g in \<open>simp_all add: in_rect_def\<close>)
  next
    case right
    show ?thesis
      by (rule spec_cell_straddlesI [of rc row "rect_right rc - 1" row m "rect_right rc"])
        (use right g in \<open>simp_all add: in_rect_def\<close>)
  next
    case top
    show ?thesis
      by (rule spec_cell_straddlesI [of rc "rect_top rc" col "rect_top rc - 1" m col])
        (use top g in \<open>simp_all add: in_rect_def\<close>)
  next
    case bottom
    show ?thesis
      by (rule spec_cell_straddlesI [of rc "rect_bottom rc - 1" col "rect_bottom rc" m col])
        (use bottom g in \<open>simp_all add: in_rect_def\<close>)
  qed
next
  note g = assms(1) [unfolded rect_in_grid_def]
  assume "spec_cell_straddles m rc"
  then obtain row col row' col'
    where i: "rect_top rc \<le> row" "row < rect_bottom rc" "rect_left rc \<le> col" "col < rect_right rc"
      and o: "0 \<le> row'" "row' < height m" "0 \<le> col'" "col' < width m"
      and out: "\<not> in_rect rc row' col'"
      and eq: "slot_at m row col = slot_at m row' col'"
    unfolding spec_cell_straddles_def set_int_range by auto
  have ig: "0 \<le> row" "row < height m" "0 \<le> col" "col < width m"
    using i g by simp_all
  note box = grid_rectangular_box [OF assms(2) ig o eq]
  from out consider "col' < rect_left rc" | "rect_right rc \<le> col'"
    | "row' < rect_top rc" | "rect_bottom rc \<le> row'"
    by (auto simp: in_rect_def)
  then show "cellsOverlapRectangle m rc"
  proof cases
    case 1
    have "slot_at m row (rect_left rc) = slot_at m row col"
      "slot_at m row (rect_left rc - 1) = slot_at m row col"
      using 1 i by (intro box; simp)+
    moreover have "0 < rect_left rc" using 1 o(3) by simp
    moreover have "row \<in> {rect_top rc..<rect_bottom rc}" using i by simp
    ultimately show ?thesis unfolding cellsOverlapRectangle_edges by metis
  next
    case 2
    have "slot_at m row (rect_right rc - 1) = slot_at m row col"
      "slot_at m row (rect_right rc) = slot_at m row col"
      using 2 i by (intro box; simp)+
    moreover have "rect_right rc < width m" using 2 o(4) by simp
    moreover have "row \<in> {rect_top rc..<rect_bottom rc}" using i by simp
    ultimately show ?thesis unfolding cellsOverlapRectangle_edges by metis
  next
    case 3
    have "slot_at m (rect_top rc) col = slot_at m row col"
      "slot_at m (rect_top rc - 1) col = slot_at m row col"
      using 3 i by (intro box; simp)+
    moreover have "0 < rect_top rc" using 3 o(1) by simp
    moreover have "col \<in> {rect_left rc..<rect_right rc}" using i by simp
    ultimately show ?thesis unfolding cellsOverlapRectangle_edges by metis
  next
    case 4
    have "slot_at m (rect_bottom rc - 1) col = slot_at m row col"
      "slot_at m (rect_bottom rc) col = slot_at m row col"
      using 4 i by (intro box; simp)+
    moreover have "rect_bottom rc < height m" using 4 o(2) by simp
    moreover have "col \<in> {rect_left rc..<rect_right rc}" using i by simp
    ultimately show ?thesis unfolding cellsOverlapRectangle_edges by metis
  qed
qed


text \<open>
  C1. \<open>mergeCells\<close> returns \<open>false\<close> when the selection is no cell selection, when
  its two corner cells are the same cell, when the selected rectangle is not within one
  section, and when a cell straddles the boundary of the rectangle; it returns \<open>true\<close>
  only for a cell selection of two different corner cells whose rectangle is within one
  section and has no cell straddling its boundary. A refusal dispatches nothing. The
  rectangle and the grid map come from the rectangle geometry and the grid map builder;
  where a cell straddling the boundary is spoken of, they satisfy the invariants of the
  data model.
\<close>

theorem mergeCells_refuses_unless:
  "(\<not> isCellSelection (selection st) \<longrightarrow> mergeCells E st dispatch = Inr (False, None))
   \<and> (\<forall>ac hc a h. selection st = CellSelection ac hc a h \<and> rp_pos ac = rp_pos hc
         \<longrightarrow> mergeCells E st dispatch = Inr (False, None))
   \<and> (\<forall>r. isCellSelection (selection st) \<and> selectedRect E st = Inr r
           \<and> \<not> rectOverOneSection E (rmap r) (rect_of r)
         \<longrightarrow> mergeCells E st dispatch = Inr (False, None))
   \<and> (\<forall>r. isCellSelection (selection st) \<and> selectedRect E st = Inr r
           \<and> rect_in_grid (rmap r) (rect_of r) \<and> grid_rectangular (rmap r)
           \<and> spec_cell_straddles (rmap r) (rect_of r)
         \<longrightarrow> mergeCells E st dispatch = Inr (False, None))
   \<and> (\<forall>out. mergeCells E st dispatch = Inr (True, out)
         \<longrightarrow> (\<exists>ac hc a h r. selection st = CellSelection ac hc a h \<and> rp_pos ac \<noteq> rp_pos hc
                \<and> selectedRect E st = Inr r
                \<and> rectOverOneSection E (rmap r) (rect_of r)
                \<and> (rect_in_grid (rmap r) (rect_of r) \<and> grid_rectangular (rmap r)
                     \<longrightarrow> \<not> spec_cell_straddles (rmap r) (rect_of r))))
   \<and> (\<forall>out. mergeCells E st dispatch = Inr (False, out) \<longrightarrow> out = None)"
proof (intro conjI allI impI)
  assume "\<not> isCellSelection (selection st)"
  then show "mergeCells E st dispatch = Inr (False, None)"
    by (cases "selection st") (simp_all add: mergeCells_def)
next
  fix ac hc a h
  assume "selection st = CellSelection ac hc a h \<and> rp_pos ac = rp_pos hc"
  then show "mergeCells E st dispatch = Inr (False, None)"
    by (simp add: mergeCells_def)
next
  fix r
  assume "isCellSelection (selection st) \<and> selectedRect E st = Inr r
           \<and> \<not> rectOverOneSection E (rmap r) (rect_of r)"
  then show "mergeCells E st dispatch = Inr (False, None)"
    by (cases "selection st") (auto simp: mergeCells_def)
next
  fix r
  assume a: "isCellSelection (selection st) \<and> selectedRect E st = Inr r
           \<and> rect_in_grid (rmap r) (rect_of r) \<and> grid_rectangular (rmap r)
           \<and> spec_cell_straddles (rmap r) (rect_of r)"
  then have "cellsOverlapRectangle (rmap r) (rect_of r)"
    using cellsOverlapRectangle_straddles [of "rmap r" "rect_of r"] by blast
  with a show "mergeCells E st dispatch = Inr (False, None)"
    by (cases "selection st") (auto simp: mergeCells_def)
next
  fix out
  assume t: "mergeCells E st dispatch = Inr (True, out)"
  have "\<exists>ac hc a h r. selection st = CellSelection ac hc a h \<and> rp_pos ac \<noteq> rp_pos hc
                \<and> selectedRect E st = Inr r
                \<and> rectOverOneSection E (rmap r) (rect_of r)
                \<and> \<not> cellsOverlapRectangle (rmap r) (rect_of r)"
  proof (cases "selection st")
    case (CellSelection ac hc a h)
    with t show ?thesis
      by (cases "selectedRect E st") (auto simp: mergeCells_def split: if_splits)
  next
    case (NodeSelection n a h)
    with t show ?thesis by (simp add: mergeCells_def)
  next
    case (TextSelection a h)
    with t show ?thesis by (simp add: mergeCells_def)
  qed
  then obtain ac hc a h r
    where r: "selection st = CellSelection ac hc a h" "rp_pos ac \<noteq> rp_pos hc"
      "selectedRect E st = Inr r" "rectOverOneSection E (rmap r) (rect_of r)"
      "\<not> cellsOverlapRectangle (rmap r) (rect_of r)"
    by blast
  have "rect_in_grid (rmap r) (rect_of r) \<and> grid_rectangular (rmap r)
          \<longrightarrow> \<not> spec_cell_straddles (rmap r) (rect_of r)"
    using r(5) cellsOverlapRectangle_straddles [of "rmap r" "rect_of r"] by blast
  with r(1-4)
  show "\<exists>ac hc a h r. selection st = CellSelection ac hc a h \<and> rp_pos ac \<noteq> rp_pos hc
                \<and> selectedRect E st = Inr r
                \<and> rectOverOneSection E (rmap r) (rect_of r)
                \<and> (rect_in_grid (rmap r) (rect_of r) \<and> grid_rectangular (rmap r)
                     \<longrightarrow> \<not> spec_cell_straddles (rmap r) (rect_of r))"
    by blast
next
  fix out
  assume f: "mergeCells E st dispatch = Inr (False, out)"
  show "out = None"
  proof (cases "selection st")
    case (CellSelection ac hc a h)
    with f show ?thesis
      by (cases "selectedRect E st")
        (auto simp: mergeCells_def split: if_splits dest: mergeCells_dispatch_true)
  next
    case (NodeSelection n a h)
    with f show ?thesis by (simp add: mergeCells_def)
  next
    case (TextSelection a h)
    with f show ?thesis by (simp add: mergeCells_def)
  qed
qed

theorem mergeCells_refuses_unless_witness:
  "mergeCells ref_env (cursor_in table_2x2 2) True = Inr (False, None)
   \<and> mergeCells ref_env (cells_selected table_2x2 2 2) True = Inr (False, None)
   \<and> mergeCells ref_env (cells_selected table_2sec 2 10) True = Inr (False, None)
   \<and> mergeCells ref_env (cells_selected table_span 18 12) True = Inr (False, None)
   \<and> (\<exists>r. selectedRect ref_env (cells_selected table_2x2 2 6) = Inr r
          \<and> rectOverOneSection ref_env (rmap r) (rect_of r)
          \<and> rect_in_grid (rmap r) (rect_of r) \<and> grid_rectangular (rmap r)
          \<and> \<not> spec_cell_straddles (rmap r) (rect_of r))"
proof -
  have a: "\<not> isCellSelection (selection (cursor_in table_2x2 2))"
    by (simp add: cursor_in_def)
  have s: "\<exists>ac hc a h. selection (cells_selected table_2x2 2 2) = CellSelection ac hc a h
             \<and> rp_pos ac = rp_pos hc"
    by (simp add: cells_selected_def)
  have "case selectedRect ref_env (cells_selected table_2sec 2 10) of
          Inl e \<Rightarrow> False
        | Inr r \<Rightarrow> \<not> rectOverOneSection ref_env (rmap r) (rect_of r)"
    by code_simp
  then obtain r where b: "selectedRect ref_env (cells_selected table_2sec 2 10) = Inr r"
      "\<not> rectOverOneSection ref_env (rmap r) (rect_of r)"
    by (auto split: sum.splits)
  have b': "isCellSelection (selection (cells_selected table_2sec 2 10))"
    by (simp add: cells_selected_def)
  have "case selectedRect ref_env (cells_selected table_span 18 12) of
          Inl e \<Rightarrow> False
        | Inr r \<Rightarrow> rect_in_grid (rmap r) (rect_of r) \<and> grid_rectangular (rmap r)
                   \<and> spec_cell_straddles (rmap r) (rect_of r)
                   \<and> rectOverOneSection ref_env (rmap r) (rect_of r)"
    by code_simp
  then obtain r' where d: "selectedRect ref_env (cells_selected table_span 18 12) = Inr r'"
      "rect_in_grid (rmap r') (rect_of r')" "grid_rectangular (rmap r')"
      "spec_cell_straddles (rmap r') (rect_of r')"
    by (auto split: sum.splits)
  have d': "isCellSelection (selection (cells_selected table_span 18 12))"
    by (simp add: cells_selected_def)
  have "case mergeCells ref_env (cells_selected table_2x2 2 6) False of
          Inl e \<Rightarrow> False | Inr res \<Rightarrow> fst res \<and> snd res = None"
    by code_simp
  then have c: "mergeCells ref_env (cells_selected table_2x2 2 6) False = Inr (True, None)"
    by (auto split: sum.splits)
  have "case selectedRect ref_env (cells_selected table_2x2 2 6) of
          Inl e \<Rightarrow> False
        | Inr r \<Rightarrow> rect_in_grid (rmap r) (rect_of r) \<and> grid_rectangular (rmap r)"
    by code_simp
  then have c': "\<forall>r. selectedRect ref_env (cells_selected table_2x2 2 6) = Inr r
                  \<longrightarrow> rect_in_grid (rmap r) (rect_of r) \<and> grid_rectangular (rmap r)"
    by (auto split: sum.splits)
  from mergeCells_refuses_unless [of "cursor_in table_2x2 2" ref_env True] a
  have 1: "mergeCells ref_env (cursor_in table_2x2 2) True = Inr (False, None)" by blast
  from mergeCells_refuses_unless [of "cells_selected table_2x2 2 2" ref_env True] s
  have 2: "mergeCells ref_env (cells_selected table_2x2 2 2) True = Inr (False, None)" by blast
  from mergeCells_refuses_unless [of "cells_selected table_2sec 2 10" ref_env True] b b'
  have 3: "mergeCells ref_env (cells_selected table_2sec 2 10) True = Inr (False, None)" by blast
  from mergeCells_refuses_unless [of "cells_selected table_span 18 12" ref_env True] d d'
  have 4: "mergeCells ref_env (cells_selected table_span 18 12) True = Inr (False, None)" by blast
  from mergeCells_refuses_unless [of "cells_selected table_2x2 2 6" ref_env False] c c'
  have 5: "\<exists>r. selectedRect ref_env (cells_selected table_2x2 2 6) = Inr r
          \<and> rectOverOneSection ref_env (rmap r) (rect_of r)
          \<and> rect_in_grid (rmap r) (rect_of r) \<and> grid_rectangular (rmap r)
          \<and> \<not> spec_cell_straddles (rmap r) (rect_of r)" by blast
  from 1 2 3 4 5 show ?thesis by blast
qed

end
